theory Spec2Isabelle
  imports Complex_Main "HOL-Library.Log_Nat"
begin

section \<open>Floating-point numbers\<close>

text \<open>
  The program computes with \<^verbatim>\<open>float\<close> (IEEE 754 binary32) and \<^verbatim>\<open>double\<close> (binary64).
  A floating-point datum is one of the finite values (a rational number), the two
  infinities, or NaN. Every arithmetic operation computes the exact rational result and
  rounds it once to the nearest value of the format, ties to the even significand, as
  the default rounding mode of IEEE 754 does; a result whose rounded magnitude reaches
  \<open>2 ^ (emax + 1)\<close> overflows to an infinity. The sign of zero is not represented
  (\<open>-0.0\<close> and \<open>+0.0\<close> are the same datum), and expressions are evaluated in the
  format of their C++ type (no extended intermediate precision, no fused multiply-add).
\<close>

datatype fp = Finite rat | PInf | NInf | NaN

type_synonym float = fp
type_synonym double = fp

definition round_half_even :: "rat \<Rightarrow> int" where
  "round_half_even r =
     (let f = \<lfloor>r\<rfloor>; d = r - of_int f
      in if d < 1 / 2 then f
         else if 1 / 2 < d then f + 1
         else if even f then f else f + 1)"

text \<open>\<open>ilog2 x\<close> is \<open>\<lfloor>log\<^sub>2 x\<rfloor>\<close> for a positive rational \<open>x\<close>.\<close>

definition ilog2 :: "rat \<Rightarrow> int" where
  "ilog2 x =
     (if 1 \<le> x then bitlen \<lfloor>x\<rfloor> - 1
      else - bitlen (\<lceil>1 / x\<rceil> - 1))"

text \<open>
  The exponent of the unit in the last place of a positive \<open>x\<close>, for a format with
  \<open>p\<close> significand bits and least normal exponent \<open>emin\<close>: below \<open>2 ^ emin\<close> the
  numbers are subnormal and the spacing stays \<open>2 ^ (emin - (p - 1))\<close>.
\<close>

definition ulp_exp :: "nat \<Rightarrow> int \<Rightarrow> rat \<Rightarrow> int" where
  "ulp_exp p emin x = max (ilog2 x) emin - (int p - 1)"

definition round_mag :: "nat \<Rightarrow> int \<Rightarrow> rat \<Rightarrow> rat" where
  "round_mag p emin x =
     (let e = ulp_exp p emin x
      in of_int (round_half_even (x / 2 powi e)) * 2 powi e)"

definition round_val :: "nat \<Rightarrow> int \<Rightarrow> rat \<Rightarrow> rat" where
  "round_val p emin x =
     (if x = 0 then 0
      else if 0 < x then round_mag p emin x
      else - round_mag p emin (- x))"

definition round_fp :: "nat \<Rightarrow> int \<Rightarrow> rat \<Rightarrow> fp" where
  "round_fp p emax x =
     (let v = round_val p (1 - emax) x
      in if 2 powi (emax + 1) \<le> v then PInf
         else if v \<le> - (2 powi (emax + 1)) then NInf
         else Finite v)"

fun fp_uminus :: "fp \<Rightarrow> fp" where
  "fp_uminus (Finite a) = Finite (- a)"
| "fp_uminus PInf = NInf"
| "fp_uminus NInf = PInf"
| "fp_uminus NaN = NaN"

fun fp_plus :: "(rat \<Rightarrow> fp) \<Rightarrow> fp \<Rightarrow> fp \<Rightarrow> fp" where
  "fp_plus rnd (Finite a) (Finite b) = rnd (a + b)"
| "fp_plus rnd NaN b = NaN"
| "fp_plus rnd a NaN = NaN"
| "fp_plus rnd PInf NInf = NaN"
| "fp_plus rnd NInf PInf = NaN"
| "fp_plus rnd PInf b = PInf"
| "fp_plus rnd a PInf = PInf"
| "fp_plus rnd NInf b = NInf"
| "fp_plus rnd a NInf = NInf"

definition fp_minus :: "(rat \<Rightarrow> fp) \<Rightarrow> fp \<Rightarrow> fp \<Rightarrow> fp" where
  "fp_minus rnd a b = fp_plus rnd a (fp_uminus b)"

text \<open>The sign of a datum that is not NaN: \<open>True\<close> for a negative one.\<close>

fun fp_negative :: "fp \<Rightarrow> bool" where
  "fp_negative (Finite a) = (a < 0)"
| "fp_negative NInf = True"
| "fp_negative PInf = False"
| "fp_negative NaN = False"

fun fp_times :: "(rat \<Rightarrow> fp) \<Rightarrow> fp \<Rightarrow> fp \<Rightarrow> fp" where
  "fp_times rnd (Finite a) (Finite b) = rnd (a * b)"
| "fp_times rnd NaN b = NaN"
| "fp_times rnd a NaN = NaN"
| "fp_times rnd a b =
     (if a = Finite 0 \<or> b = Finite 0 then NaN
      else if fp_negative a = fp_negative b then PInf else NInf)"

fun fp_divide :: "(rat \<Rightarrow> fp) \<Rightarrow> fp \<Rightarrow> fp \<Rightarrow> fp" where
  "fp_divide rnd (Finite a) (Finite b) =
     (if b = 0 then (if a = 0 then NaN else if 0 < a then PInf else NInf)
      else rnd (a / b))"
| "fp_divide rnd NaN b = NaN"
| "fp_divide rnd a NaN = NaN"
| "fp_divide rnd (Finite a) b = Finite 0"
| "fp_divide rnd a (Finite b) = (if fp_negative a = (b < 0) then PInf else NInf)"
| "fp_divide rnd a b = NaN"

fun fp_le :: "fp \<Rightarrow> fp \<Rightarrow> bool" where
  "fp_le (Finite a) (Finite b) = (a \<le> b)"
| "fp_le NaN b = False"
| "fp_le a NaN = False"
| "fp_le NInf b = True"
| "fp_le a PInf = True"
| "fp_le a b = False"

fun fp_lt :: "fp \<Rightarrow> fp \<Rightarrow> bool" where
  "fp_lt (Finite a) (Finite b) = (a < b)"
| "fp_lt NaN b = False"
| "fp_lt a NaN = False"
| "fp_lt PInf b = False"
| "fp_lt a NInf = False"
| "fp_lt a b = True"

definition fp_ge :: "fp \<Rightarrow> fp \<Rightarrow> bool" where
  "fp_ge a b = fp_le b a"

subsection \<open>binary32 and binary64\<close>

definition round32 :: "rat \<Rightarrow> float" where
  "round32 = round_fp 24 127"

definition round64 :: "rat \<Rightarrow> double" where
  "round64 = round_fp 53 1023"

definition f32_add :: "float \<Rightarrow> float \<Rightarrow> float" where
  "f32_add = fp_plus round32"

definition f32_sub :: "float \<Rightarrow> float \<Rightarrow> float" where
  "f32_sub = fp_minus round32"

definition f32_mul :: "float \<Rightarrow> float \<Rightarrow> float" where
  "f32_mul = fp_times round32"

definition f32_div :: "float \<Rightarrow> float \<Rightarrow> float" where
  "f32_div = fp_divide round32"

definition f64_sub :: "double \<Rightarrow> double \<Rightarrow> double" where
  "f64_sub = fp_minus round64"

text \<open>The conversions \<^verbatim>\<open>(float)i\<close> of an \<^verbatim>\<open>int\<close> and \<^verbatim>\<open>(float)d\<close> of a \<^verbatim>\<open>double\<close>.\<close>

definition f32_of_int :: "int \<Rightarrow> float" where
  "f32_of_int i = round32 (of_int i)"

fun f32_of_double :: "double \<Rightarrow> float" where
  "f32_of_double (Finite a) = round32 a"
| "f32_of_double d = d"

text \<open>A \<^verbatim>\<open>float\<close> literal: the decimal it denotes, rounded to binary32.\<close>

definition f32_literal :: "rat \<Rightarrow> float" where
  "f32_literal q = round32 q"

text \<open>
  A datum is a value of binary32 when it is finite and rounding leaves it unchanged.
\<close>

fun is_f32 :: "fp \<Rightarrow> bool" where
  "is_f32 (Finite a) = (round32 a = Finite a)"
| "is_f32 a = False"

text \<open>
  The numbers of a format with \<open>p\<close> significand bits and least normal exponent
  \<open>emin\<close>, without the bound on the exponent from above: a significand of fewer than
  \<open>p + 1\<close> bits times a power of two that is at least the least unit in the last
  place.
\<close>

definition is_representable :: "nat \<Rightarrow> int \<Rightarrow> rat \<Rightarrow> bool" where
  "is_representable p emin x =
     (\<exists>m k. x = of_int m * 2 powi k \<and> \<bar>m\<bar> < 2 ^ p \<and> emin - (int p - 1) \<le> k)"

section \<open>The graphics and window libraries\<close>

text \<open>
  OpenGL, GLEW and GLFW are outside the repository. The program is modelled against a
  context that records every library call in order with its arguments, hands out object
  names, and keeps the part of the OpenGL state the program's behaviour can depend on:
  the bindings, the shader and program objects with their compile and link results, the
  program in use and the polygon mode. What the driver decides (whether a shader
  compiles, whether a program links, the texts of the info logs, where a uniform lives)
  is an input of the model, \<open>gl_driver\<close>. A call that creates an object is taken to
  succeed: it returns the next unused name of its kind, which is never 0.
\<close>

type_synonym GLuint = nat
type_synonym GLint = int
type_synonym GLsizei = nat
type_synonym GLenum = nat
type_synonym GLbitfield = nat
type_synonym GLboolean = nat

text \<open>The enumerators the program uses, with their values in the OpenGL headers.\<close>

definition GL_FALSE :: GLboolean where "GL_FALSE = 0"
definition GL_TRIANGLES :: GLenum where "GL_TRIANGLES = 0x0004"
definition GL_FRONT_AND_BACK :: GLenum where "GL_FRONT_AND_BACK = 0x0408"
definition GL_UNSIGNED_INT :: GLenum where "GL_UNSIGNED_INT = 0x1405"
definition GL_FLOAT :: GLenum where "GL_FLOAT = 0x1406"
definition GL_LINE :: GLenum where "GL_LINE = 0x1B01"
definition GL_FILL :: GLenum where "GL_FILL = 0x1B02"
definition GL_COLOR_BUFFER_BIT :: GLbitfield where "GL_COLOR_BUFFER_BIT = 0x4000"
definition GL_ARRAY_BUFFER :: GLenum where "GL_ARRAY_BUFFER = 0x8892"
definition GL_ELEMENT_ARRAY_BUFFER :: GLenum where "GL_ELEMENT_ARRAY_BUFFER = 0x8893"
definition GL_STATIC_DRAW :: GLenum where "GL_STATIC_DRAW = 0x88E4"
definition GL_FRAGMENT_SHADER :: GLenum where "GL_FRAGMENT_SHADER = 0x8B30"
definition GL_VERTEX_SHADER :: GLenum where "GL_VERTEX_SHADER = 0x8B31"
definition GL_COMPILE_STATUS :: GLenum where "GL_COMPILE_STATUS = 0x8B81"
definition GL_LINK_STATUS :: GLenum where "GL_LINK_STATUS = 0x8B82"

text \<open>Keys and actions of GLFW, with their values in \<^verbatim>\<open>glfw3.h\<close>.\<close>

definition GLFW_RELEASE :: int where "GLFW_RELEASE = 0"
definition GLFW_PRESS :: int where "GLFW_PRESS = 1"
definition GLFW_REPEAT :: int where "GLFW_REPEAT = 2"
definition GLFW_KEY_SPACE :: int where "GLFW_KEY_SPACE = 32"
definition GLFW_KEY_T :: int where "GLFW_KEY_T = 84"

text \<open>
  \<^verbatim>\<open>glm::vec2\<close> and \<^verbatim>\<open>glm::vec3\<close>: two and three contiguous floats \<^verbatim>\<open>x\<close>, \<^verbatim>\<open>y\<close>
  (and \<^verbatim>\<open>z\<close>).
\<close>

record vec2 =
  vec_x :: float
  vec_y :: float

record vec3 = vec2 +
  vec_z :: float

text \<open>
  The matrix \<^verbatim>\<open>glm::ortho(left, right, bottom, top, zNear, zFar)\<close> is kept as the call
  that builds it: no property of the program looks inside it.
\<close>

datatype mat4 = Ortho float float float float float float

text \<open>The memory a data pointer hands to the library.\<close>

datatype blob =
  Floats "float list"
| UInts "nat list"
| Vec2s "vec2 list"
| Vec3s "vec3 list"

record BufferData =
  buf_data :: blob
  buf_size :: nat
  buf_usage :: GLenum

record VertexAttribute =
  attr_index :: GLuint
  attr_size :: GLint
  attr_type :: GLenum
  attr_normalized :: GLboolean
  attr_stride :: GLsizei
  attr_offset :: nat

text \<open>
  The library calls, each with the arguments the program passes; a call that returns a
  fresh name (\<^verbatim>\<open>glGen*\<close>, \<^verbatim>\<open>glCreate*\<close>) is recorded with that name. The three
  \<^verbatim>\<open>glDelete*\<close> calls for buffers, vertex arrays and programs are part of the interface
  although the program has no call site for them.
\<close>

datatype api_call =
  GlfwInit
| GlfwCreateWindow int int string
| GlfwSetKeyCallback
| GlfwMakeContextCurrent
| GlewInit
| GlfwSwapBuffers
| GlfwPollEvents
| GlfwTerminate
| GenVertexArrays GLuint
| BindVertexArray GLuint
| GenBuffers GLuint
| BindBuffer GLenum GLuint
| BufferDataCall GLenum nat blob GLenum
| BufferSubData GLenum nat nat blob
| VertexAttribPointer GLuint GLint GLenum GLboolean GLsizei nat
| EnableVertexAttribArray GLuint
| VertexAttribDivisor GLuint GLuint
| CreateShader GLenum GLuint
| ShaderSource GLuint string
| CompileShader GLuint
| GetShaderiv GLuint GLenum
| GetShaderInfoLog GLuint GLsizei
| CreateProgram GLuint
| AttachShader GLuint GLuint
| LinkProgram GLuint
| GetProgramiv GLuint GLenum
| GetProgramInfoLog GLuint GLsizei
| DeleteShader GLuint
| DeleteProgram GLuint
| DeleteBuffers GLuint
| DeleteVertexArrays GLuint
| UseProgram GLuint
| GetUniformLocation GLuint string
| UniformMatrix4fv GLint GLsizei GLboolean mat4
| Uniform2f GLint float float
| PolygonMode GLenum GLenum
| Clear GLbitfield
| DrawElementsInstanced GLenum GLsizei GLenum nat GLsizei

record shader_object =
  shader_type :: GLenum
  shader_source :: string
  compile_result :: GLint
  delete_flagged :: bool

record program_object =
  attached :: "GLuint list"
  link_result :: GLint

record gl_driver =
  compile_status :: "GLenum \<Rightarrow> string \<Rightarrow> GLint"
  compile_log :: "GLenum \<Rightarrow> string \<Rightarrow> string"
  link_status :: "(GLenum \<times> string) list \<Rightarrow> GLint"
  link_log :: "(GLenum \<times> string) list \<Rightarrow> string"
  uniform_location :: "GLuint \<Rightarrow> string \<Rightarrow> GLint"

record gl_context =
  driver :: gl_driver
  calls :: "api_call list"
  next_vertex_array :: GLuint
  next_buffer :: GLuint
  next_object :: GLuint
  vertex_array_binding :: GLuint
  array_buffer_binding :: GLuint
  element_array_buffer_binding :: GLuint
  shader_objects :: "GLuint \<Rightarrow> shader_object option"
  program_objects :: "GLuint \<Rightarrow> program_object option"
  current_program :: GLuint
  polygon_mode :: GLenum

text \<open>
  A fresh context: no call made, no object, nothing bound, no program in use, and the
  initial polygon mode of OpenGL, \<^verbatim>\<open>GL_FILL\<close>. Names start at 1; 0 is never a name.
\<close>

definition new_context :: "gl_driver \<Rightarrow> gl_context" where
  "new_context d =
     \<lparr>driver = d, calls = [], next_vertex_array = 1, next_buffer = 1, next_object = 1,
      vertex_array_binding = 0, array_buffer_binding = 0, element_array_buffer_binding = 0,
      shader_objects = Map.empty, program_objects = Map.empty,
      current_program = 0, polygon_mode = GL_FILL\<rparr>"

definition record_call :: "api_call \<Rightarrow> gl_context \<Rightarrow> gl_context" where
  "record_call c g = g\<lparr>calls := calls g @ [c]\<rparr>"

definition glGenVertexArrays :: "gl_context \<Rightarrow> GLuint \<times> gl_context" where
  "glGenVertexArrays g =
     (let n = next_vertex_array g
      in (n, (record_call (GenVertexArrays n) g)\<lparr>next_vertex_array := n + 1\<rparr>))"

definition glBindVertexArray :: "GLuint \<Rightarrow> gl_context \<Rightarrow> gl_context" where
  "glBindVertexArray a g = (record_call (BindVertexArray a) g)\<lparr>vertex_array_binding := a\<rparr>"

definition glGenBuffers :: "gl_context \<Rightarrow> GLuint \<times> gl_context" where
  "glGenBuffers g =
     (let n = next_buffer g
      in (n, (record_call (GenBuffers n) g)\<lparr>next_buffer := n + 1\<rparr>))"

definition glBindBuffer :: "GLenum \<Rightarrow> GLuint \<Rightarrow> gl_context \<Rightarrow> gl_context" where
  "glBindBuffer target b g =
     (let g' = record_call (BindBuffer target b) g
      in if target = GL_ARRAY_BUFFER then g'\<lparr>array_buffer_binding := b\<rparr>
         else if target = GL_ELEMENT_ARRAY_BUFFER then g'\<lparr>element_array_buffer_binding := b\<rparr>
         else g')"

definition glBufferData :: "GLenum \<Rightarrow> nat \<Rightarrow> blob \<Rightarrow> GLenum \<Rightarrow> gl_context \<Rightarrow> gl_context" where
  "glBufferData target n d u g = record_call (BufferDataCall target n d u) g"

definition glBufferSubData :: "GLenum \<Rightarrow> nat \<Rightarrow> nat \<Rightarrow> blob \<Rightarrow> gl_context \<Rightarrow> gl_context" where
  "glBufferSubData target off n d g = record_call (BufferSubData target off n d) g"

definition glVertexAttribPointer ::
  "GLuint \<Rightarrow> GLint \<Rightarrow> GLenum \<Rightarrow> GLboolean \<Rightarrow> GLsizei \<Rightarrow> nat \<Rightarrow> gl_context \<Rightarrow> gl_context" where
  "glVertexAttribPointer i n t nrm strd off g =
     record_call (VertexAttribPointer i n t nrm strd off) g"

definition glEnableVertexAttribArray :: "GLuint \<Rightarrow> gl_context \<Rightarrow> gl_context" where
  "glEnableVertexAttribArray i g = record_call (EnableVertexAttribArray i) g"

definition glVertexAttribDivisor :: "GLuint \<Rightarrow> GLuint \<Rightarrow> gl_context \<Rightarrow> gl_context" where
  "glVertexAttribDivisor i d g = record_call (VertexAttribDivisor i d) g"

definition glCreateShader :: "GLenum \<Rightarrow> gl_context \<Rightarrow> GLuint \<times> gl_context" where
  "glCreateShader t g =
     (let n = next_object g
      in (n, (record_call (CreateShader t n) g)
               \<lparr>next_object := n + 1,
                shader_objects := (shader_objects g)
                  (n \<mapsto> \<lparr>shader_type = t, shader_source = [], compile_result = 0,
                          delete_flagged = False\<rparr>)\<rparr>))"

definition glShaderSource :: "GLuint \<Rightarrow> string \<Rightarrow> gl_context \<Rightarrow> gl_context" where
  "glShaderSource sh src g =
     (let g' = record_call (ShaderSource sh src) g
      in case shader_objects g sh of
           None \<Rightarrow> g'
         | Some ob \<Rightarrow> g'\<lparr>shader_objects := (shader_objects g)(sh \<mapsto> ob\<lparr>shader_source := src\<rparr>)\<rparr>)"

definition glCompileShader :: "GLuint \<Rightarrow> gl_context \<Rightarrow> gl_context" where
  "glCompileShader sh g =
     (let g' = record_call (CompileShader sh) g
      in case shader_objects g sh of
           None \<Rightarrow> g'
         | Some ob \<Rightarrow>
             g'\<lparr>shader_objects := (shader_objects g)
                  (sh \<mapsto> ob\<lparr>compile_result :=
                     compile_status (driver g) (shader_type ob) (shader_source ob)\<rparr>)\<rparr>)"

text \<open>
  \<^verbatim>\<open>glGetShaderiv(shader, GL_COMPILE_STATUS, &success)\<close>: the value written to
  \<^verbatim>\<open>success\<close>. For a name that is no shader the library writes nothing; the model
  returns 0 there.
\<close>

definition glGetShaderiv :: "GLuint \<Rightarrow> GLenum \<Rightarrow> gl_context \<Rightarrow> GLint \<times> gl_context" where
  "glGetShaderiv sh pname g =
     ((case shader_objects g sh of
         None \<Rightarrow> 0
       | Some ob \<Rightarrow> if pname = GL_COMPILE_STATUS then compile_result ob else 0),
      record_call (GetShaderiv sh pname) g)"

text \<open>
  \<^verbatim>\<open>glGetShaderInfoLog(shader, maxLength, NULL, infoLog)\<close>: at most
  \<open>maxLength - 1\<close> characters and the terminating zero are written to \<^verbatim>\<open>infoLog\<close>.
\<close>

definition glGetShaderInfoLog :: "GLuint \<Rightarrow> GLsizei \<Rightarrow> gl_context \<Rightarrow> string \<times> gl_context" where
  "glGetShaderInfoLog sh maxLength g =
     ((case shader_objects g sh of
         None \<Rightarrow> []
       | Some ob \<Rightarrow>
           take (maxLength - 1) (compile_log (driver g) (shader_type ob) (shader_source ob))),
      record_call (GetShaderInfoLog sh maxLength) g)"

definition glCreateProgram :: "gl_context \<Rightarrow> GLuint \<times> gl_context" where
  "glCreateProgram g =
     (let n = next_object g
      in (n, (record_call (CreateProgram n) g)
               \<lparr>next_object := n + 1,
                program_objects := (program_objects g)
                  (n \<mapsto> \<lparr>attached = [], link_result = 0\<rparr>)\<rparr>))"

definition glAttachShader :: "GLuint \<Rightarrow> GLuint \<Rightarrow> gl_context \<Rightarrow> gl_context" where
  "glAttachShader pr sh g =
     (let g' = record_call (AttachShader pr sh) g
      in case program_objects g pr of
           None \<Rightarrow> g'
         | Some ob \<Rightarrow>
             g'\<lparr>program_objects := (program_objects g)(pr \<mapsto> ob\<lparr>attached := attached ob @ [sh]\<rparr>)\<rparr>)"

text \<open>The stages a program is linked from: type and source of each attached shader.\<close>

definition attached_stages :: "gl_context \<Rightarrow> GLuint list \<Rightarrow> (GLenum \<times> string) list" where
  "attached_stages g shs =
     concat (map (\<lambda>sh. case shader_objects g sh of
                          None \<Rightarrow> []
                        | Some ob \<Rightarrow> [(shader_type ob, shader_source ob)]) shs)"

definition glLinkProgram :: "GLuint \<Rightarrow> gl_context \<Rightarrow> gl_context" where
  "glLinkProgram pr g =
     (let g' = record_call (LinkProgram pr) g
      in case program_objects g pr of
           None \<Rightarrow> g'
         | Some ob \<Rightarrow>
             g'\<lparr>program_objects := (program_objects g)
                  (pr \<mapsto> ob\<lparr>link_result :=
                     link_status (driver g) (attached_stages g (attached ob))\<rparr>)\<rparr>)"

definition glGetProgramiv :: "GLuint \<Rightarrow> GLenum \<Rightarrow> gl_context \<Rightarrow> GLint \<times> gl_context" where
  "glGetProgramiv pr pname g =
     ((case program_objects g pr of
         None \<Rightarrow> 0
       | Some ob \<Rightarrow> if pname = GL_LINK_STATUS then link_result ob else 0),
      record_call (GetProgramiv pr pname) g)"

definition glGetProgramInfoLog :: "GLuint \<Rightarrow> GLsizei \<Rightarrow> gl_context \<Rightarrow> string \<times> gl_context" where
  "glGetProgramInfoLog pr maxLength g =
     ((case program_objects g pr of
         None \<Rightarrow> []
       | Some ob \<Rightarrow>
           take (maxLength - 1) (link_log (driver g) (attached_stages g (attached ob)))),
      record_call (GetProgramInfoLog pr maxLength) g)"

text \<open>
  \<^verbatim>\<open>glDeleteShader\<close>: the shader is flagged for deletion; OpenGL frees it once it is
  attached to no program.
\<close>

definition glDeleteShader :: "GLuint \<Rightarrow> gl_context \<Rightarrow> gl_context" where
  "glDeleteShader sh g =
     (let g' = record_call (DeleteShader sh) g
      in case shader_objects g sh of
           None \<Rightarrow> g'
         | Some ob \<Rightarrow> g'\<lparr>shader_objects := (shader_objects g)(sh \<mapsto> ob\<lparr>delete_flagged := True\<rparr>)\<rparr>)"

definition glUseProgram :: "GLuint \<Rightarrow> gl_context \<Rightarrow> gl_context" where
  "glUseProgram pr g = (record_call (UseProgram pr) g)\<lparr>current_program := pr\<rparr>"

definition glGetUniformLocation :: "GLuint \<Rightarrow> string \<Rightarrow> gl_context \<Rightarrow> GLint \<times> gl_context" where
  "glGetUniformLocation pr name g =
     (uniform_location (driver g) pr name, record_call (GetUniformLocation pr name) g)"

definition glUniformMatrix4fv ::
  "GLint \<Rightarrow> GLsizei \<Rightarrow> GLboolean \<Rightarrow> mat4 \<Rightarrow> gl_context \<Rightarrow> gl_context" where
  "glUniformMatrix4fv loc n tr m g = record_call (UniformMatrix4fv loc n tr m) g"

definition glUniform2f :: "GLint \<Rightarrow> float \<Rightarrow> float \<Rightarrow> gl_context \<Rightarrow> gl_context" where
  "glUniform2f loc v0 v1 g = record_call (Uniform2f loc v0 v1) g"

definition glPolygonMode :: "GLenum \<Rightarrow> GLenum \<Rightarrow> gl_context \<Rightarrow> gl_context" where
  "glPolygonMode face mode g = (record_call (PolygonMode face mode) g)\<lparr>polygon_mode := mode\<rparr>"

definition glClear :: "GLbitfield \<Rightarrow> gl_context \<Rightarrow> gl_context" where
  "glClear bits g = record_call (Clear bits) g"

definition glDrawElementsInstanced ::
  "GLenum \<Rightarrow> GLsizei \<Rightarrow> GLenum \<Rightarrow> nat \<Rightarrow> GLsizei \<Rightarrow> gl_context \<Rightarrow> gl_context" where
  "glDrawElementsInstanced mode n t indices_at instancecount g =
     record_call (DrawElementsInstanced mode n t indices_at instancecount) g"

section \<open>The program\<close>

subsection \<open>Shader sources and constants\<close>

definition endl :: string where
  "endl = [CHR 0x0A]"

definition lines_of :: "string list \<Rightarrow> string" where
  "lines_of ls = (case ls of [] \<Rightarrow> [] | l # rest \<Rightarrow> l @ concat (map (\<lambda>r. endl @ r) rest))"

definition vertexRectangleSource :: string where
  "vertexRectangleSource = lines_of
    ['''',
     ''    #version 330 core'',
     '''',
     ''    uniform mat4 projection;                // projection matrix uniform'',
     '''',
     ''    layout (location = 0) in vec2 basePos;  // original position'',
     ''    layout (location = 1) in vec2 iPos;     // instanced position'',
     ''    layout (location = 2) in vec3 iColor;   // instanced color'',
     ''    layout (location = 3) in vec3 iModel;   // instanced model'',
     '''',
     ''    out vec3 vColorOut; '',
     '''',
     ''    mat2 rotationMatrix(float angle) {'',
     ''        float s = sin(angle);'',
     ''        float c = cos(angle);'',
     ''        return mat2(c, -s, s, c);'',
     ''    }'',
     '''',
     ''    void main()'',
     ''    {'',
     ''        vec2 scale = vec2(iModel.x, iModel.y);'',
     ''        float radians = iModel.z;'',
     '''',
     ''        vec2 newPos = rotationMatrix(radians) * (basePos * scale);'',
     ''        gl_Position = projection * vec4(newPos + iPos, 0.0, 1.0);'',
     ''        vColorOut = iColor;'',
     ''    }'',
     '''']"

definition fragmentRectangleSource :: string where
  "fragmentRectangleSource = lines_of
    ['''',
     ''    #version 330 core'',
     '''',
     ''    in vec3 vColorOut;'',
     ''    out vec4 FragColor;'',
     '''',
     ''    void main()'',
     ''    {'',
     ''        FragColor = vec4(vColorOut, 1.0f);'',
     ''    }'',
     '''']"

definition vertexCircleSource :: string where
  "vertexCircleSource = lines_of
    ['''',
     ''    #version 330 core'',
     '''',
     ''    uniform mat4 projection;                // projection matrix uniform'',
     '''',
     ''    layout (location = 0) in vec2 basePos;  // original position'',
     ''    layout (location = 1) in vec2 iPos;     // instanced position'',
     ''    layout (location = 2) in vec3 iColor;   // instanced color'',
     ''    layout (location = 3) in vec3 iModel;   // instanced model'',
     '''',
     ''    out vec3 iColorOut; '',
     ''    out vec2 iPosOut;'',
     ''    out float iRadiusOut;'',
     '''',
     ''    mat2 rotationMatrix(float angle) {'',
     ''        float s = sin(angle);'',
     ''        float c = cos(angle);'',
     ''        return mat2(c, -s, s, c);'',
     ''    }'',
     '''',
     ''    void main()'',
     ''    {'',
     ''        vec2 scale = vec2(iModel.x, iModel.x);'',
     ''        float radians = iModel.z;'',
     '''',
     ''        vec2 newPos = rotationMatrix(radians) * (basePos * scale);'',
     ''        gl_Position = projection * vec4(newPos + iPos, 0.0, 1.0);'',
     '''',
     ''        iColorOut = iColor;'',
     ''        iPosOut = iPos;'',
     ''        iRadiusOut = iModel.x;'',
     ''    }'',
     '''']"

definition fragmentCircleSource :: string where
  "fragmentCircleSource = lines_of
    ['''',
     ''    #version 330 core'',
     '''',
     ''    uniform vec2 resolution;'',
     '''',
     ''    in vec3 iColorOut;'',
     ''    in vec2 iPosOut;'',
     ''    in float iRadiusOut;'',
     '''',
     ''    out vec4 FragColor;'',
     '''',
     ''    void main()'',
     ''    {'',
     ''        // Convert current fragment pixel coordinates to normalized coordinates'',
     ''        vec2 normalizedCoords = (2.0 * gl_FragCoord.xy - resolution) / resolution;'',
     ''        normalizedCoords.x *= resolution.x / resolution.y;'',
     ''        '',
     ''        // Dont render the pixel if the position is outside of the circle radius'',
     ''        if (length(normalizedCoords - iPosOut) > iRadiusOut) {'',
     ''            discard;'',
     ''        }'',
     ''        FragColor = vec4(iColorOut, 1.0f);'',
     ''    }'',
     '''']"

definition WINDOW_WIDTH :: int where "WINDOW_WIDTH = 1920"
definition WINDOW_HEIGHT :: int where "WINDOW_HEIGHT = 1080"

definition ASPECT_RATIO :: float where
  "ASPECT_RATIO = f32_div (f32_of_int WINDOW_WIDTH) (f32_of_int WINDOW_HEIGHT)"

definition sizeof_float :: nat where "sizeof_float = 4"
definition sizeof_unsigned_int :: nat where "sizeof_unsigned_int = 4"

subsection \<open>Shader compilation and buffer setup\<close>

text \<open>
  \<^verbatim>\<open>compileShader\<close> returns the program handle, the context after its calls, and the
  text it wrote to standard output.
\<close>

definition compileShader :: "string \<Rightarrow> string \<Rightarrow> gl_context \<Rightarrow> GLuint \<times> gl_context \<times> string" where
  "compileShader vertexSource fragSource g0 =
     (let (vertexShader, g1) = glCreateShader GL_VERTEX_SHADER g0;
          g2 = glShaderSource vertexShader vertexSource g1;
          g3 = glCompileShader vertexShader g2;
          (success1, g4) = glGetShaderiv vertexShader GL_COMPILE_STATUS g3;
          (out1, g5) =
            (if success1 = 0
             then (let (infoLog, g) = glGetShaderInfoLog vertexShader 512 g4
                   in (''Error, vertex shader failed to compile:'' @ endl @ infoLog @ endl, g))
             else ([], g4));
          (fragmentShader, g6) = glCreateShader GL_FRAGMENT_SHADER g5;
          g7 = glShaderSource fragmentShader fragSource g6;
          g8 = glCompileShader fragmentShader g7;
          (success2, g9) = glGetShaderiv fragmentShader GL_COMPILE_STATUS g8;
          (out2, g10) =
            (if success2 = 0
             then (let (infoLog, g) = glGetShaderInfoLog fragmentShader 512 g9
                   in (''Error, fragment shader failed to compile:'' @ endl @ infoLog @ endl, g))
             else ([], g9));
          (shaderProgram, g11) = glCreateProgram g10;
          g12 = glAttachShader shaderProgram vertexShader g11;
          g13 = glAttachShader shaderProgram fragmentShader g12;
          g14 = glLinkProgram shaderProgram g13;
          (success3, g15) = glGetProgramiv shaderProgram GL_LINK_STATUS g14;
          (out3, g16) =
            (if success3 = 0
             then (let (infoLog, g) = glGetProgramInfoLog shaderProgram 512 g15
                   in (''Error, shaders failed to link:'' @ endl @ infoLog @ endl, g))
             else ([], g15));
          g17 = glDeleteShader vertexShader g16;
          g18 = glDeleteShader fragmentShader g17
      in (shaderProgram, g18, out1 @ out2 @ out3))"

text \<open>\<^verbatim>\<open>setupBuffers\<close> returns the names it stores through \<^verbatim>\<open>VAO\<close> and \<^verbatim>\<open>VBO\<close>.\<close>

definition setupBuffers ::
  "BufferData \<Rightarrow> VertexAttribute \<Rightarrow> gl_context \<Rightarrow> GLuint \<times> GLuint \<times> gl_context" where
  "setupBuffers vertexBufferData vertexAttribute g0 =
     (let (vao, g1) = glGenVertexArrays g0;
          g2 = glBindVertexArray vao g1;
          (vbo, g3) = glGenBuffers g2;
          g4 = glBindBuffer GL_ARRAY_BUFFER vbo g3;
          g5 = glBufferData GL_ARRAY_BUFFER (buf_size vertexBufferData)
                 (buf_data vertexBufferData) (buf_usage vertexBufferData) g4;
          g6 = glVertexAttribPointer (attr_index vertexAttribute) (attr_size vertexAttribute)
                 (attr_type vertexAttribute) (attr_normalized vertexAttribute)
                 (attr_stride vertexAttribute) (attr_offset vertexAttribute) g5;
          g7 = glEnableVertexAttribArray (attr_index vertexAttribute) g6;
          g8 = glBindVertexArray 0 g7
      in (vao, vbo, g8))"

definition createEBO :: "GLuint \<Rightarrow> BufferData \<Rightarrow> gl_context \<Rightarrow> GLuint \<times> gl_context" where
  "createEBO vao bufferData g0 =
     (let g1 = glBindVertexArray vao g0;
          (ebo, g2) = glGenBuffers g1;
          g3 = glBindBuffer GL_ELEMENT_ARRAY_BUFFER ebo g2;
          g4 = glBufferData GL_ELEMENT_ARRAY_BUFFER (buf_size bufferData)
                 (buf_data bufferData) (buf_usage bufferData) g3;
          g5 = glBindVertexArray 0 g4
      in (ebo, g5))"

definition createVBO ::
  "GLuint \<Rightarrow> BufferData \<Rightarrow> VertexAttribute \<Rightarrow> gl_context \<Rightarrow> GLuint \<times> gl_context" where
  "createVBO vao bufferData vertexAttrib g0 =
     (let g1 = glBindVertexArray vao g0;
          (vbo, g2) = glGenBuffers g1;
          g3 = glBindBuffer GL_ARRAY_BUFFER vbo g2;
          g4 = glBufferData GL_ARRAY_BUFFER (buf_size bufferData)
                 (buf_data bufferData) (buf_usage bufferData) g3;
          g5 = glVertexAttribPointer (attr_index vertexAttrib) (attr_size vertexAttrib)
                 (attr_type vertexAttrib) (attr_normalized vertexAttrib)
                 (attr_stride vertexAttrib) (attr_offset vertexAttrib) g4;
          g6 = glEnableVertexAttribArray (attr_index vertexAttrib) g5;
          g7 = glVertexAttribDivisor (attr_index vertexAttrib) 1 g6;
          g8 = glBindVertexArray 0 g7
      in (vbo, g8))"

subsection \<open>Random floats and the frame timer\<close>

text \<open>
  \<^verbatim>\<open>rndFloat\<close>, with the value \<open>r\<close> its call of \<^verbatim>\<open>rand()\<close> returns and the
  implementation's \<^verbatim>\<open>RAND_MAX\<close> as arguments. In \<^verbatim>\<open>((float)rand()) / RAND_MAX\<close> the
  divisor is converted to \<^verbatim>\<open>float\<close> as well.
\<close>

definition rndFloat :: "int \<Rightarrow> int \<Rightarrow> float \<Rightarrow> float \<Rightarrow> float" where
  "rndFloat rand_max r lower upper =
     (let random = f32_div (f32_of_int r) (f32_of_int rand_max)
      in f32_add lower (f32_mul random (f32_sub upper lower)))"

text \<open>
  \<^verbatim>\<open>getDeltaTima\<close>, with the reading of \<^verbatim>\<open>glfwGetTime()\<close> as its first argument; it
  returns the delta and the new value of \<^verbatim>\<open>lastFrameTime\<close>.
\<close>

definition getDeltaTima :: "double \<Rightarrow> double \<Rightarrow> double \<times> double" where
  "getDeltaTima currentFrameTime lastFrameTime0 =
     (let deltaTime = f64_sub currentFrameTime lastFrameTime0
      in (deltaTime, currentFrameTime))"

subsection \<open>Program state and the key callback\<close>

text \<open>
  The globals of the program, the locals of \<^verbatim>\<open>main\<close> that live across the render loop,
  the library context and the text written to standard output.
\<close>

record state =
  circleShader :: GLuint
  rectangleShader :: GLuint
  activeShader :: GLuint
  WIREFRAME_ENABLED :: bool
  instances :: "vec2 list"
  instance_colors :: "vec3 list"
  instance_models :: "vec3 list"
  VAO :: GLuint
  VBO :: GLuint
  EBO :: GLuint
  iPosVBO :: GLuint
  iColorVBO :: GLuint
  iModelVBO :: GLuint
  rotationAngle :: float
  lastFrameTime :: double
  gl :: gl_context
  cout :: string

definition keyCallback :: "int \<Rightarrow> int \<Rightarrow> int \<Rightarrow> int \<Rightarrow> state \<Rightarrow> state" where
  "keyCallback key scancode action mods st =
     (let st1 =
        (if key = GLFW_KEY_SPACE \<and> action = GLFW_PRESS
         then (if WIREFRAME_ENABLED st
               then st\<lparr>WIREFRAME_ENABLED := \<not> WIREFRAME_ENABLED st,
                       gl := glPolygonMode GL_FRONT_AND_BACK GL_FILL (gl st)\<rparr>
               else st\<lparr>WIREFRAME_ENABLED := \<not> WIREFRAME_ENABLED st,
                       gl := glPolygonMode GL_FRONT_AND_BACK GL_LINE (gl st)\<rparr>)
         else st)
      in if key = GLFW_KEY_T \<and> action = GLFW_PRESS
         then (if activeShader st1 \<noteq> rectangleShader st1
               then st1\<lparr>activeShader := rectangleShader st1\<rparr>
               else st1\<lparr>activeShader := circleShader st1\<rparr>)
         else st1)"

subsection \<open>The environment of a run\<close>

text \<open>
  What a run receives from outside: the driver's answers, the implementation's
  \<^verbatim>\<open>RAND_MAX\<close> and the values \<^verbatim>\<open>rand()\<close> returns in order, the reading of
  \<^verbatim>\<open>glfwGetTime()\<close> before the loop, and for every iteration of the render loop the
  reading of \<^verbatim>\<open>glfwGetTime()\<close> in it and the key events \<^verbatim>\<open>glfwPollEvents()\<close>
  delivers at its end. The loop runs as long as \<^verbatim>\<open>glfwWindowShouldClose\<close> answers
  false: once for each element of the list of frames.

  \<^verbatim>\<open>glfwGetTime()\<close> reads the timer of the window library, which the program never
  sets. The timer is monotonic: no reading is below an earlier one (see
  \<open>clock_monotonic\<close> below).

  The loop that fills the instance arrays builds a position and a colour with two
  constructor calls whose arguments are calls of \<^verbatim>\<open>rndFloat\<close>. C++ does not specify
  the order in which the arguments of a call are evaluated, and this order decides
  which value of \<^verbatim>\<open>rand()\<close> goes to which component. The order is therefore a part
  of the environment: for each iteration of that loop, the order of the two arguments
  of the position and the order of the three arguments of the colour. A constructor of
  \<open>order2\<close> or \<open>order3\<close> lists the arguments, the first being argument 0, in the
  order of their evaluation; \<open>turns2\<close> and \<open>turns3\<close> give for each argument the
  number of arguments evaluated before it.
\<close>

datatype order2 = Order_01 | Order_10

datatype order3 = Order_012 | Order_021 | Order_102 | Order_120 | Order_201 | Order_210

fun turns2 :: "order2 \<Rightarrow> nat \<times> nat" where
  "turns2 Order_01 = (0, 1)"
| "turns2 Order_10 = (1, 0)"

fun turns3 :: "order3 \<Rightarrow> nat \<times> nat \<times> nat" where
  "turns3 Order_012 = (0, 1, 2)"
| "turns3 Order_021 = (0, 2, 1)"
| "turns3 Order_102 = (1, 0, 2)"
| "turns3 Order_120 = (2, 0, 1)"
| "turns3 Order_201 = (1, 2, 0)"
| "turns3 Order_210 = (2, 1, 0)"

record env =
  gl_drv :: gl_driver
  rand_max :: int
  rand_values :: "nat \<Rightarrow> int"
  pos_order :: "nat \<Rightarrow> order2"
  col_order :: "nat \<Rightarrow> order3"
  start_time :: double

record key_event =
  ev_key :: int
  ev_scancode :: int
  ev_action :: int
  ev_mods :: int

record frame =
  frame_time :: double
  frame_events :: "key_event list"

text \<open>
  \<^verbatim>\<open>glfwPollEvents()\<close> calls the key callback once for each pending key event, in
  order.
\<close>

fun deliver :: "key_event list \<Rightarrow> state \<Rightarrow> state" where
  "deliver [] st = st"
| "deliver (e # es) st =
     deliver es (keyCallback (ev_key e) (ev_scancode e) (ev_action e) (ev_mods e) st)"

definition glfwPollEvents :: "key_event list \<Rightarrow> state \<Rightarrow> state" where
  "glfwPollEvents evs st = deliver evs (st\<lparr>gl := record_call GlfwPollEvents (gl st)\<rparr>)"

subsection \<open>Startup\<close>

definition vertices :: "float list" where
  "vertices =
     [f32_literal 1, f32_literal 1,
      f32_literal 1, f32_literal (- 1),
      f32_literal (- 1), f32_literal (- 1),
      f32_literal (- 1), f32_literal 1]"

definition indices :: "nat list" where
  "indices = [0, 1, 3, 1, 2, 3]"

definition instances_index :: nat where
  "instances_index = 1000"

text \<open>
  One iteration of the loop that fills the three instance arrays. The \<open>k\<close>-th call of
  \<^verbatim>\<open>rand()\<close> returns \<open>rand_values e k\<close>. Iteration \<open>i\<close> makes the calls
  \<open>5 * i\<close> and \<open>5 * i + 1\<close> for the two arguments of the position, then the calls
  \<open>5 * i + 2\<close>, \<open>5 * i + 3\<close> and \<open>5 * i + 4\<close> for the three arguments of the
  colour, within each constructor call in the order the environment gives.
\<close>

definition rndPos :: "env \<Rightarrow> nat \<Rightarrow> vec2" where
  "rndPos e i =
     (case turns2 (pos_order e i) of
        (tx, ty) \<Rightarrow>
          \<lparr>vec_x = rndFloat (rand_max e) (rand_values e (5 * i + tx))
                     (fp_uminus ASPECT_RATIO) ASPECT_RATIO,
           vec_y = rndFloat (rand_max e) (rand_values e (5 * i + ty))
                     (f32_literal (- 1)) (f32_literal 1)\<rparr>)"

definition rndCol :: "env \<Rightarrow> nat \<Rightarrow> vec3" where
  "rndCol e i =
     (case turns3 (col_order e i) of
        (tr, tg, tb) \<Rightarrow>
          \<lparr>vec_x = rndFloat (rand_max e) (rand_values e (5 * i + 2 + tr))
                     (f32_literal 0) (f32_literal 1),
           vec_y = rndFloat (rand_max e) (rand_values e (5 * i + 2 + tg))
                     (f32_literal 0) (f32_literal 1),
           vec_z = rndFloat (rand_max e) (rand_values e (5 * i + 2 + tb))
                     (f32_literal 0) (f32_literal 1)\<rparr>)"

definition fill_instance :: "env \<Rightarrow> nat \<Rightarrow> state \<Rightarrow> state" where
  "fill_instance e i st =
     st\<lparr>instance_models := (instance_models st)
           [i := \<lparr>vec_x = f32_literal (5 / 100), vec_y = f32_literal (5 / 100),
                   vec_z = f32_literal 0\<rparr>],
        instances := (instances st)[i := rndPos e i],
        instance_colors := (instance_colors st)[i := rndCol e i]\<rparr>"

text \<open>
  The state when \<^verbatim>\<open>main\<close> starts: the globals zero-initialised, the three arrays
  allocated with \<open>instances_index\<close> elements (their first contents are overwritten by
  the loop before any use), a fresh context.
\<close>

definition start_state :: "env \<Rightarrow> state" where
  "start_state e =
     \<lparr>circleShader = 0, rectangleShader = 0, activeShader = 0, WIREFRAME_ENABLED = False,
      instances = replicate instances_index \<lparr>vec_x = Finite 0, vec_y = Finite 0\<rparr>,
      instance_colors =
        replicate instances_index \<lparr>vec_x = Finite 0, vec_y = Finite 0, vec_z = Finite 0\<rparr>,
      instance_models =
        replicate instances_index \<lparr>vec_x = Finite 0, vec_y = Finite 0, vec_z = Finite 0\<rparr>,
      VAO = 0, VBO = 0, EBO = 0, iPosVBO = 0, iColorVBO = 0, iModelVBO = 0,
      rotationAngle = Finite 0, lastFrameTime = Finite 0,
      gl = new_context (gl_drv e), cout = []\<rparr>"

text \<open>\<^verbatim>\<open>main\<close> up to the render loop.\<close>

definition main_init :: "env \<Rightarrow> state" where
  "main_init e =
     (let s0 = start_state e;
          w0 = record_call GlewInit
                 (record_call GlfwMakeContextCurrent
                   (record_call GlfwSetKeyCallback
                     (record_call (GlfwCreateWindow WINDOW_WIDTH WINDOW_HEIGHT ''OpenGL'')
                       (record_call GlfwInit (gl s0)))));
          s1 = fold (fill_instance e) [0..<instances_index] s0;
          vertexAttr = \<lparr>attr_index = 0, attr_size = 2, attr_type = GL_FLOAT,
                         attr_normalized = GL_FALSE, attr_stride = 2 * sizeof_float,
                         attr_offset = 0\<rparr>;
          vertexData = \<lparr>buf_data = Floats vertices,
                         buf_size = length vertices * sizeof_float,
                         buf_usage = GL_STATIC_DRAW\<rparr>;
          (vao, vbo, w1) = setupBuffers vertexData vertexAttr w0;
          indexData = \<lparr>buf_data = UInts indices,
                        buf_size = length indices * sizeof_unsigned_int,
                        buf_usage = GL_STATIC_DRAW\<rparr>;
          (ebo, w2) = createEBO vao indexData w1;
          instanceAttr = \<lparr>attr_index = 1, attr_size = 2, attr_type = GL_FLOAT,
                           attr_normalized = GL_FALSE, attr_stride = 2 * sizeof_float,
                           attr_offset = 0\<rparr>;
          instanceData = \<lparr>buf_data = Vec2s (instances s1),
                           buf_size = instances_index * (2 * sizeof_float),
                           buf_usage = GL_STATIC_DRAW\<rparr>;
          (posVBO, w3) = createVBO vao instanceData instanceAttr w2;
          colorAttr = \<lparr>attr_index = 2, attr_size = 3, attr_type = GL_FLOAT,
                        attr_normalized = GL_FALSE, attr_stride = 3 * sizeof_float,
                        attr_offset = 0\<rparr>;
          colorData = \<lparr>buf_data = Vec3s (instance_colors s1),
                        buf_size = instances_index * (3 * sizeof_float),
                        buf_usage = GL_STATIC_DRAW\<rparr>;
          (colorVBO, w4) = createVBO vao colorData colorAttr w3;
          scaleAttr = \<lparr>attr_index = 3, attr_size = 3, attr_type = GL_FLOAT,
                        attr_normalized = GL_FALSE, attr_stride = 3 * sizeof_float,
                        attr_offset = 0\<rparr>;
          scaleData = \<lparr>buf_data = Vec3s (instance_models s1),
                        buf_size = instances_index * (3 * sizeof_float),
                        buf_usage = GL_STATIC_DRAW\<rparr>;
          (modelVBO, w5) = createVBO vao scaleData scaleAttr w4;
          orthoMatrix = Ortho (fp_uminus ASPECT_RATIO) ASPECT_RATIO
                          (f32_literal (- 1)) (f32_literal 1)
                          (f32_literal (- 1)) (f32_literal 1);
          (circle, w6, out1) = compileShader vertexCircleSource fragmentCircleSource w5;
          (rectangle, w7, out2) =
            compileShader vertexRectangleSource fragmentRectangleSource w6;
          w8 = glUseProgram circle w7;
          (loc1, w9) = glGetUniformLocation circle ''projection'' w8;
          w10 = glUniformMatrix4fv loc1 1 GL_FALSE orthoMatrix w9;
          (loc2, w11) = glGetUniformLocation circle ''resolution'' w10;
          w12 = glUniform2f loc2 (f32_of_int WINDOW_WIDTH) (f32_of_int WINDOW_HEIGHT) w11;
          w13 = glUseProgram rectangle w12;
          (loc3, w14) = glGetUniformLocation rectangle ''projection'' w13;
          w15 = glUniformMatrix4fv loc3 1 GL_FALSE orthoMatrix w14
      in s1\<lparr>circleShader := circle, rectangleShader := rectangle,
             activeShader := rectangle,
             VAO := vao, VBO := vbo, EBO := ebo,
             iPosVBO := posVBO, iColorVBO := colorVBO, iModelVBO := modelVBO,
             rotationAngle := f32_literal 0,
             lastFrameTime := start_time e,
             gl := w15, cout := out1 @ out2\<rparr>)"

subsection \<open>The render loop\<close>

definition rotationSpeed :: float where
  "rotationSpeed = f32_literal 1"

text \<open>
  \<^verbatim>\<open>glm::pi<float>()\<close> is the \<^verbatim>\<open>double\<close> literal of \<open>\<pi>\<close> with 36 digits, cast to
  \<^verbatim>\<open>float\<close>; \<open>two_pi\<close> is the program's \<^verbatim>\<open>2.0f * glm::pi<float>()\<close>.
\<close>

definition glm_pi_float :: float where
  "glm_pi_float =
     f32_of_double (round64 (314159265358979323846264338327950288 / 10 ^ 35))"

definition two_pi :: float where
  "two_pi = f32_mul (f32_literal 2) glm_pi_float"

text \<open>The two statements that update \<^verbatim>\<open>rotationAngle\<close>, given the frame's delta time.\<close>

definition advance_rotation :: "float \<Rightarrow> double \<Rightarrow> float" where
  "advance_rotation angle deltaTime =
     (let a = f32_add angle (f32_mul rotationSpeed (f32_of_double deltaTime))
      in if fp_ge a two_pi then f32_sub a two_pi else a)"

definition set_rotation :: "float \<Rightarrow> vec3 list \<Rightarrow> vec3 list" where
  "set_rotation angle models =
     fold (\<lambda>i ms. ms[i := (ms ! i)\<lparr>vec_z := angle\<rparr>]) [0..<instances_index] models"

text \<open>
  One iteration of the render loop: the body up to \<^verbatim>\<open>glfwSwapBuffers\<close>, then
  \<^verbatim>\<open>glfwPollEvents\<close>.
\<close>

definition draw_frame :: "state \<Rightarrow> frame \<Rightarrow> state" where
  "draw_frame st f =
     (let (deltaTime, lastFrameTime1) = getDeltaTima (frame_time f) (lastFrameTime st);
          angle = advance_rotation (rotationAngle st) deltaTime;
          models = set_rotation angle (instance_models st);
          g1 = glBindBuffer GL_ARRAY_BUFFER (iModelVBO st) (gl st);
          g2 = glBufferSubData GL_ARRAY_BUFFER 0 (instances_index * (3 * sizeof_float))
                 (Vec3s models) g1;
          g3 = glBindBuffer GL_ARRAY_BUFFER 0 g2;
          g4 = glClear GL_COLOR_BUFFER_BIT g3;
          g5 = glUseProgram (activeShader st) g4;
          g6 = glBindVertexArray (VAO st) g5;
          g7 = glDrawElementsInstanced GL_TRIANGLES
                 ((length indices * sizeof_unsigned_int) div sizeof_float)
                 GL_UNSIGNED_INT 0 instances_index g6;
          g8 = glBindVertexArray 0 g7;
          g9 = record_call GlfwSwapBuffers g8
      in st\<lparr>lastFrameTime := lastFrameTime1, rotationAngle := angle,
             instance_models := models, gl := g9\<rparr>)"

definition render_frame :: "state \<Rightarrow> frame \<Rightarrow> state" where
  "render_frame st f = glfwPollEvents (frame_events f) (draw_frame st f)"

definition main_loop :: "state \<Rightarrow> frame list \<Rightarrow> state" where
  "main_loop st frames = foldl render_frame st frames"

text \<open>
  A whole run: startup, one iteration for each frame, and \<^verbatim>\<open>glfwTerminate()\<close> once
  the window is to close.
\<close>

definition main :: "env \<Rightarrow> frame list \<Rightarrow> state" where
  "main e frames =
     (let st = main_loop (main_init e) frames
      in st\<lparr>gl := record_call GlfwTerminate (gl st)\<rparr>)"

section \<open>Notions used to state the properties\<close>

text \<open>Calls that create an object, calls that delete one, and the draw call.\<close>

fun is_create :: "api_call \<Rightarrow> bool" where
  "is_create (GenVertexArrays n) = True"
| "is_create (GenBuffers n) = True"
| "is_create (CreateShader t n) = True"
| "is_create (CreateProgram n) = True"
| "is_create c = False"

fun is_delete :: "api_call \<Rightarrow> bool" where
  "is_delete (DeleteShader n) = True"
| "is_delete (DeleteProgram n) = True"
| "is_delete (DeleteBuffers n) = True"
| "is_delete (DeleteVertexArrays n) = True"
| "is_delete c = False"

fun is_draw :: "api_call \<Rightarrow> bool" where
  "is_draw (DrawElementsInstanced mode n t ia ic) = True"
| "is_draw c = False"

fun is_compile_or_link :: "api_call \<Rightarrow> bool" where
  "is_compile_or_link (CompileShader n) = True"
| "is_compile_or_link (LinkProgram n) = True"
| "is_compile_or_link c = False"

text \<open>
  The calls one run of \<^verbatim>\<open>compileShader\<close> makes, when the next free object name is
  \<open>n\<close>: the info log of a stage is fetched exactly when the driver reports status 0
  for it.
\<close>

definition compile_calls :: "gl_driver \<Rightarrow> GLuint \<Rightarrow> string \<Rightarrow> string \<Rightarrow> api_call list" where
  "compile_calls d n vs fs =
     [CreateShader GL_VERTEX_SHADER n, ShaderSource n vs, CompileShader n,
      GetShaderiv n GL_COMPILE_STATUS]
     @ (if compile_status d GL_VERTEX_SHADER vs = 0 then [GetShaderInfoLog n 512] else [])
     @ [CreateShader GL_FRAGMENT_SHADER (n + 1), ShaderSource (n + 1) fs, CompileShader (n + 1),
        GetShaderiv (n + 1) GL_COMPILE_STATUS]
     @ (if compile_status d GL_FRAGMENT_SHADER fs = 0 then [GetShaderInfoLog (n + 1) 512] else [])
     @ [CreateProgram (n + 2), AttachShader (n + 2) n, AttachShader (n + 2) (n + 1),
        LinkProgram (n + 2), GetProgramiv (n + 2) GL_LINK_STATUS]
     @ (if link_status d [(GL_VERTEX_SHADER, vs), (GL_FRAGMENT_SHADER, fs)] = 0
        then [GetProgramInfoLog (n + 2) 512] else [])
     @ [DeleteShader n, DeleteShader (n + 1)]"

text \<open>
  The calls the key callback makes for a list of key events, when the wireframe flag is
  \<open>w\<close> before the first of them.
\<close>

fun key_calls :: "bool \<Rightarrow> key_event list \<Rightarrow> api_call list" where
  "key_calls w [] = []"
| "key_calls w (e # es) =
     (if ev_key e = GLFW_KEY_SPACE \<and> ev_action e = GLFW_PRESS
      then PolygonMode GL_FRONT_AND_BACK (if w then GL_FILL else GL_LINE) # key_calls (\<not> w) es
      else key_calls w es)"

text \<open>A key event is a press of key \<open>k\<close>; no event of a list of frames is one.\<close>

definition is_press_of :: "int \<Rightarrow> key_event \<Rightarrow> bool" where
  "is_press_of k e = (ev_key e = k \<and> ev_action e = GLFW_PRESS)"

definition no_press_of :: "int \<Rightarrow> frame list \<Rightarrow> bool" where
  "no_press_of k frames =
     list_all (\<lambda>f. list_all (\<lambda>e. \<not> is_press_of k e) (frame_events f)) frames"

text \<open>
  The active shader is one of the two compiled programs, and these are two different
  programs, so that exactly one of them is the active one.
\<close>

definition active_shader_inv :: "state \<Rightarrow> bool" where
  "active_shader_inv st =
     ((activeShader st = circleShader st \<or> activeShader st = rectangleShader st)
      \<and> circleShader st \<noteq> rectangleShader st)"

text \<open>Both compiled programs are program objects of the context.\<close>

definition programs_live :: "state \<Rightarrow> bool" where
  "programs_live st =
     (program_objects (gl st) (circleShader st) \<noteq> None
      \<and> program_objects (gl st) (rectangleShader st) \<noteq> None)"

text \<open>A float lies in the closed interval between two floats.\<close>

definition in_closed :: "float \<Rightarrow> float \<Rightarrow> float \<Rightarrow> bool" where
  "in_closed lo hi v = (fp_le lo v \<and> fp_le v hi)"

definition position_in_range :: "vec2 \<Rightarrow> bool" where
  "position_in_range v =
     (in_closed (fp_uminus ASPECT_RATIO) ASPECT_RATIO (vec_x v)
      \<and> in_closed (f32_literal (- 1)) (f32_literal 1) (vec_y v))"

definition color_in_range :: "vec3 \<Rightarrow> bool" where
  "color_in_range v =
     (in_closed (f32_literal 0) (f32_literal 1) (vec_x v)
      \<and> in_closed (f32_literal 0) (f32_literal 1) (vec_y v)
      \<and> in_closed (f32_literal 0) (f32_literal 1) (vec_z v))"

text \<open>
  An angle lies in the interval from 0 to the program's \<^verbatim>\<open>2.0f * glm::pi<float>()\<close>,
  the upper end excluded. The increment of a frame is what the loop adds to the angle,
  given the clock reading of the previous iteration.
\<close>

definition angle_in_range :: "float \<Rightarrow> bool" where
  "angle_in_range a = (fp_le (Finite 0) a \<and> fp_lt a two_pi)"

definition frame_increment :: "double \<Rightarrow> frame \<Rightarrow> float" where
  "frame_increment previous f =
     f32_mul rotationSpeed (f32_of_double (f64_sub (frame_time f) previous))"

text \<open>
  The readings of the clock in a run, after the reading \<open>previous\<close>, never decrease;
  and every increment of the run is below \<open>two_pi\<close>.
\<close>

fun clock_monotonic :: "double \<Rightarrow> frame list \<Rightarrow> bool" where
  "clock_monotonic previous [] = True"
| "clock_monotonic previous (f # fs) =
     (fp_le previous (frame_time f) \<and> clock_monotonic (frame_time f) fs)"

fun increments_below_two_pi :: "double \<Rightarrow> frame list \<Rightarrow> bool" where
  "increments_below_two_pi previous [] = True"
| "increments_below_two_pi previous (f # fs) =
     (fp_lt (frame_increment previous f) two_pi
      \<and> increments_below_two_pi (frame_time f) fs)"

text \<open>
  An environment for concrete runs: a driver for which every shader compiles and every
  program links, the \<^verbatim>\<open>RAND_MAX\<close> of the Microsoft C runtime, a \<^verbatim>\<open>rand()\<close> that
  counts up modulo \<open>RAND_MAX + 1\<close>, and arguments evaluated from the last to the
  first.
\<close>

definition example_driver :: gl_driver where
  "example_driver =
     \<lparr>compile_status = (\<lambda>t src. 1), compile_log = (\<lambda>t src. []),
      link_status = (\<lambda>stages. 1), link_log = (\<lambda>stages. []),
      uniform_location = (\<lambda>pr name. 0)\<rparr>"

definition example_env :: env where
  "example_env =
     \<lparr>gl_drv = example_driver, rand_max = 32767,
      rand_values = (\<lambda>k. int k mod 32768),
      pos_order = (\<lambda>i. Order_10), col_order = (\<lambda>i. Order_210),
      start_time = Finite 0\<rparr>"

section \<open>Library calls: what each one changes\<close>

lemma record_call_simps [simp]:
  "driver (record_call c g) = driver g"
  "calls (record_call c g) = calls g @ [c]"
  "next_vertex_array (record_call c g) = next_vertex_array g"
  "next_buffer (record_call c g) = next_buffer g"
  "next_object (record_call c g) = next_object g"
  "vertex_array_binding (record_call c g) = vertex_array_binding g"
  "array_buffer_binding (record_call c g) = array_buffer_binding g"
  "element_array_buffer_binding (record_call c g) = element_array_buffer_binding g"
  "shader_objects (record_call c g) = shader_objects g"
  "program_objects (record_call c g) = program_objects g"
  "current_program (record_call c g) = current_program g"
  "polygon_mode (record_call c g) = polygon_mode g"
  by (simp_all add: record_call_def)

lemma glGenVertexArrays_simps [simp]:
  "fst (glGenVertexArrays g) = next_vertex_array g"
  "driver (snd (glGenVertexArrays g)) = driver g"
  "calls (snd (glGenVertexArrays g)) = calls g @ [GenVertexArrays (next_vertex_array g)]"
  "next_vertex_array (snd (glGenVertexArrays g)) = next_vertex_array g + 1"
  "next_buffer (snd (glGenVertexArrays g)) = next_buffer g"
  "next_object (snd (glGenVertexArrays g)) = next_object g"
  "vertex_array_binding (snd (glGenVertexArrays g)) = vertex_array_binding g"
  "array_buffer_binding (snd (glGenVertexArrays g)) = array_buffer_binding g"
  "element_array_buffer_binding (snd (glGenVertexArrays g)) = element_array_buffer_binding g"
  "shader_objects (snd (glGenVertexArrays g)) = shader_objects g"
  "program_objects (snd (glGenVertexArrays g)) = program_objects g"
  "current_program (snd (glGenVertexArrays g)) = current_program g"
  "polygon_mode (snd (glGenVertexArrays g)) = polygon_mode g"
  by (simp_all add: glGenVertexArrays_def Let_def split: option.split)

lemma glBindVertexArray_simps [simp]:
  "driver (glBindVertexArray a g) = driver g"
  "calls (glBindVertexArray a g) = calls g @ [BindVertexArray a]"
  "next_vertex_array (glBindVertexArray a g) = next_vertex_array g"
  "next_buffer (glBindVertexArray a g) = next_buffer g"
  "next_object (glBindVertexArray a g) = next_object g"
  "vertex_array_binding (glBindVertexArray a g) = a"
  "array_buffer_binding (glBindVertexArray a g) = array_buffer_binding g"
  "element_array_buffer_binding (glBindVertexArray a g) = element_array_buffer_binding g"
  "shader_objects (glBindVertexArray a g) = shader_objects g"
  "program_objects (glBindVertexArray a g) = program_objects g"
  "current_program (glBindVertexArray a g) = current_program g"
  "polygon_mode (glBindVertexArray a g) = polygon_mode g"
  by (simp_all add: glBindVertexArray_def Let_def split: option.split)

lemma glGenBuffers_simps [simp]:
  "fst (glGenBuffers g) = next_buffer g"
  "driver (snd (glGenBuffers g)) = driver g"
  "calls (snd (glGenBuffers g)) = calls g @ [GenBuffers (next_buffer g)]"
  "next_vertex_array (snd (glGenBuffers g)) = next_vertex_array g"
  "next_buffer (snd (glGenBuffers g)) = next_buffer g + 1"
  "next_object (snd (glGenBuffers g)) = next_object g"
  "vertex_array_binding (snd (glGenBuffers g)) = vertex_array_binding g"
  "array_buffer_binding (snd (glGenBuffers g)) = array_buffer_binding g"
  "element_array_buffer_binding (snd (glGenBuffers g)) = element_array_buffer_binding g"
  "shader_objects (snd (glGenBuffers g)) = shader_objects g"
  "program_objects (snd (glGenBuffers g)) = program_objects g"
  "current_program (snd (glGenBuffers g)) = current_program g"
  "polygon_mode (snd (glGenBuffers g)) = polygon_mode g"
  by (simp_all add: glGenBuffers_def Let_def split: option.split)

lemma glBindBuffer_simps [simp]:
  "driver (glBindBuffer t b g) = driver g"
  "calls (glBindBuffer t b g) = calls g @ [BindBuffer t b]"
  "next_vertex_array (glBindBuffer t b g) = next_vertex_array g"
  "next_buffer (glBindBuffer t b g) = next_buffer g"
  "next_object (glBindBuffer t b g) = next_object g"
  "vertex_array_binding (glBindBuffer t b g) = vertex_array_binding g"
  "array_buffer_binding (glBindBuffer t b g) = (if t = GL_ARRAY_BUFFER then b else array_buffer_binding g)"
  "element_array_buffer_binding (glBindBuffer t b g) = (if t = GL_ELEMENT_ARRAY_BUFFER \<and> t \<noteq> GL_ARRAY_BUFFER then b else element_array_buffer_binding g)"
  "shader_objects (glBindBuffer t b g) = shader_objects g"
  "program_objects (glBindBuffer t b g) = program_objects g"
  "current_program (glBindBuffer t b g) = current_program g"
  "polygon_mode (glBindBuffer t b g) = polygon_mode g"
  by (simp_all add: glBindBuffer_def Let_def split: option.split)

lemma glBufferData_simps [simp]:
  "driver (glBufferData t n d u g) = driver g"
  "calls (glBufferData t n d u g) = calls g @ [BufferDataCall t n d u]"
  "next_vertex_array (glBufferData t n d u g) = next_vertex_array g"
  "next_buffer (glBufferData t n d u g) = next_buffer g"
  "next_object (glBufferData t n d u g) = next_object g"
  "vertex_array_binding (glBufferData t n d u g) = vertex_array_binding g"
  "array_buffer_binding (glBufferData t n d u g) = array_buffer_binding g"
  "element_array_buffer_binding (glBufferData t n d u g) = element_array_buffer_binding g"
  "shader_objects (glBufferData t n d u g) = shader_objects g"
  "program_objects (glBufferData t n d u g) = program_objects g"
  "current_program (glBufferData t n d u g) = current_program g"
  "polygon_mode (glBufferData t n d u g) = polygon_mode g"
  by (simp_all add: glBufferData_def Let_def split: option.split)

lemma glBufferSubData_simps [simp]:
  "driver (glBufferSubData t off n d g) = driver g"
  "calls (glBufferSubData t off n d g) = calls g @ [BufferSubData t off n d]"
  "next_vertex_array (glBufferSubData t off n d g) = next_vertex_array g"
  "next_buffer (glBufferSubData t off n d g) = next_buffer g"
  "next_object (glBufferSubData t off n d g) = next_object g"
  "vertex_array_binding (glBufferSubData t off n d g) = vertex_array_binding g"
  "array_buffer_binding (glBufferSubData t off n d g) = array_buffer_binding g"
  "element_array_buffer_binding (glBufferSubData t off n d g) = element_array_buffer_binding g"
  "shader_objects (glBufferSubData t off n d g) = shader_objects g"
  "program_objects (glBufferSubData t off n d g) = program_objects g"
  "current_program (glBufferSubData t off n d g) = current_program g"
  "polygon_mode (glBufferSubData t off n d g) = polygon_mode g"
  by (simp_all add: glBufferSubData_def Let_def split: option.split)

lemma glVertexAttribPointer_simps [simp]:
  "driver (glVertexAttribPointer i n t nrm strd off g) = driver g"
  "calls (glVertexAttribPointer i n t nrm strd off g) = calls g @ [VertexAttribPointer i n t nrm strd off]"
  "next_vertex_array (glVertexAttribPointer i n t nrm strd off g) = next_vertex_array g"
  "next_buffer (glVertexAttribPointer i n t nrm strd off g) = next_buffer g"
  "next_object (glVertexAttribPointer i n t nrm strd off g) = next_object g"
  "vertex_array_binding (glVertexAttribPointer i n t nrm strd off g) = vertex_array_binding g"
  "array_buffer_binding (glVertexAttribPointer i n t nrm strd off g) = array_buffer_binding g"
  "element_array_buffer_binding (glVertexAttribPointer i n t nrm strd off g) = element_array_buffer_binding g"
  "shader_objects (glVertexAttribPointer i n t nrm strd off g) = shader_objects g"
  "program_objects (glVertexAttribPointer i n t nrm strd off g) = program_objects g"
  "current_program (glVertexAttribPointer i n t nrm strd off g) = current_program g"
  "polygon_mode (glVertexAttribPointer i n t nrm strd off g) = polygon_mode g"
  by (simp_all add: glVertexAttribPointer_def Let_def split: option.split)

lemma glEnableVertexAttribArray_simps [simp]:
  "driver (glEnableVertexAttribArray i g) = driver g"
  "calls (glEnableVertexAttribArray i g) = calls g @ [EnableVertexAttribArray i]"
  "next_vertex_array (glEnableVertexAttribArray i g) = next_vertex_array g"
  "next_buffer (glEnableVertexAttribArray i g) = next_buffer g"
  "next_object (glEnableVertexAttribArray i g) = next_object g"
  "vertex_array_binding (glEnableVertexAttribArray i g) = vertex_array_binding g"
  "array_buffer_binding (glEnableVertexAttribArray i g) = array_buffer_binding g"
  "element_array_buffer_binding (glEnableVertexAttribArray i g) = element_array_buffer_binding g"
  "shader_objects (glEnableVertexAttribArray i g) = shader_objects g"
  "program_objects (glEnableVertexAttribArray i g) = program_objects g"
  "current_program (glEnableVertexAttribArray i g) = current_program g"
  "polygon_mode (glEnableVertexAttribArray i g) = polygon_mode g"
  by (simp_all add: glEnableVertexAttribArray_def Let_def split: option.split)

lemma glVertexAttribDivisor_simps [simp]:
  "driver (glVertexAttribDivisor i d g) = driver g"
  "calls (glVertexAttribDivisor i d g) = calls g @ [VertexAttribDivisor i d]"
  "next_vertex_array (glVertexAttribDivisor i d g) = next_vertex_array g"
  "next_buffer (glVertexAttribDivisor i d g) = next_buffer g"
  "next_object (glVertexAttribDivisor i d g) = next_object g"
  "vertex_array_binding (glVertexAttribDivisor i d g) = vertex_array_binding g"
  "array_buffer_binding (glVertexAttribDivisor i d g) = array_buffer_binding g"
  "element_array_buffer_binding (glVertexAttribDivisor i d g) = element_array_buffer_binding g"
  "shader_objects (glVertexAttribDivisor i d g) = shader_objects g"
  "program_objects (glVertexAttribDivisor i d g) = program_objects g"
  "current_program (glVertexAttribDivisor i d g) = current_program g"
  "polygon_mode (glVertexAttribDivisor i d g) = polygon_mode g"
  by (simp_all add: glVertexAttribDivisor_def Let_def split: option.split)

lemma glCreateShader_simps [simp]:
  "fst (glCreateShader t g) = next_object g"
  "driver (snd (glCreateShader t g)) = driver g"
  "calls (snd (glCreateShader t g)) = calls g @ [CreateShader t (next_object g)]"
  "next_vertex_array (snd (glCreateShader t g)) = next_vertex_array g"
  "next_buffer (snd (glCreateShader t g)) = next_buffer g"
  "next_object (snd (glCreateShader t g)) = next_object g + 1"
  "vertex_array_binding (snd (glCreateShader t g)) = vertex_array_binding g"
  "array_buffer_binding (snd (glCreateShader t g)) = array_buffer_binding g"
  "element_array_buffer_binding (snd (glCreateShader t g)) = element_array_buffer_binding g"
  "shader_objects (snd (glCreateShader t g)) = (shader_objects g)(next_object g \<mapsto> \<lparr>shader_type = t, shader_source = [], compile_result = 0, delete_flagged = False\<rparr>)"
  "program_objects (snd (glCreateShader t g)) = program_objects g"
  "current_program (snd (glCreateShader t g)) = current_program g"
  "polygon_mode (snd (glCreateShader t g)) = polygon_mode g"
  by (simp_all add: glCreateShader_def Let_def split: option.split)

lemma glShaderSource_simps [simp]:
  "driver (glShaderSource sh src g) = driver g"
  "calls (glShaderSource sh src g) = calls g @ [ShaderSource sh src]"
  "next_vertex_array (glShaderSource sh src g) = next_vertex_array g"
  "next_buffer (glShaderSource sh src g) = next_buffer g"
  "next_object (glShaderSource sh src g) = next_object g"
  "vertex_array_binding (glShaderSource sh src g) = vertex_array_binding g"
  "array_buffer_binding (glShaderSource sh src g) = array_buffer_binding g"
  "element_array_buffer_binding (glShaderSource sh src g) = element_array_buffer_binding g"
  "shader_objects (glShaderSource sh src g) = (case shader_objects g sh of None \<Rightarrow> shader_objects g | Some ob \<Rightarrow> (shader_objects g)(sh \<mapsto> ob\<lparr>shader_source := src\<rparr>))"
  "program_objects (glShaderSource sh src g) = program_objects g"
  "current_program (glShaderSource sh src g) = current_program g"
  "polygon_mode (glShaderSource sh src g) = polygon_mode g"
  by (simp_all add: glShaderSource_def Let_def split: option.split)

lemma glCompileShader_simps [simp]:
  "driver (glCompileShader sh g) = driver g"
  "calls (glCompileShader sh g) = calls g @ [CompileShader sh]"
  "next_vertex_array (glCompileShader sh g) = next_vertex_array g"
  "next_buffer (glCompileShader sh g) = next_buffer g"
  "next_object (glCompileShader sh g) = next_object g"
  "vertex_array_binding (glCompileShader sh g) = vertex_array_binding g"
  "array_buffer_binding (glCompileShader sh g) = array_buffer_binding g"
  "element_array_buffer_binding (glCompileShader sh g) = element_array_buffer_binding g"
  "shader_objects (glCompileShader sh g) = (case shader_objects g sh of None \<Rightarrow> shader_objects g | Some ob \<Rightarrow> (shader_objects g)(sh \<mapsto> ob\<lparr>compile_result := compile_status (driver g) (shader_type ob) (shader_source ob)\<rparr>))"
  "program_objects (glCompileShader sh g) = program_objects g"
  "current_program (glCompileShader sh g) = current_program g"
  "polygon_mode (glCompileShader sh g) = polygon_mode g"
  by (simp_all add: glCompileShader_def Let_def split: option.split)

lemma glGetShaderiv_simps [simp]:
  "fst (glGetShaderiv sh pname g) = (case shader_objects g sh of None \<Rightarrow> 0 | Some ob \<Rightarrow> if pname = GL_COMPILE_STATUS then compile_result ob else 0)"
  "driver (snd (glGetShaderiv sh pname g)) = driver g"
  "calls (snd (glGetShaderiv sh pname g)) = calls g @ [GetShaderiv sh pname]"
  "next_vertex_array (snd (glGetShaderiv sh pname g)) = next_vertex_array g"
  "next_buffer (snd (glGetShaderiv sh pname g)) = next_buffer g"
  "next_object (snd (glGetShaderiv sh pname g)) = next_object g"
  "vertex_array_binding (snd (glGetShaderiv sh pname g)) = vertex_array_binding g"
  "array_buffer_binding (snd (glGetShaderiv sh pname g)) = array_buffer_binding g"
  "element_array_buffer_binding (snd (glGetShaderiv sh pname g)) = element_array_buffer_binding g"
  "shader_objects (snd (glGetShaderiv sh pname g)) = shader_objects g"
  "program_objects (snd (glGetShaderiv sh pname g)) = program_objects g"
  "current_program (snd (glGetShaderiv sh pname g)) = current_program g"
  "polygon_mode (snd (glGetShaderiv sh pname g)) = polygon_mode g"
  by (simp_all add: glGetShaderiv_def Let_def split: option.split)

lemma glGetShaderInfoLog_simps [simp]:
  "fst (glGetShaderInfoLog sh n g) = (case shader_objects g sh of None \<Rightarrow> [] | Some ob \<Rightarrow> take (n - 1) (compile_log (driver g) (shader_type ob) (shader_source ob)))"
  "driver (snd (glGetShaderInfoLog sh n g)) = driver g"
  "calls (snd (glGetShaderInfoLog sh n g)) = calls g @ [GetShaderInfoLog sh n]"
  "next_vertex_array (snd (glGetShaderInfoLog sh n g)) = next_vertex_array g"
  "next_buffer (snd (glGetShaderInfoLog sh n g)) = next_buffer g"
  "next_object (snd (glGetShaderInfoLog sh n g)) = next_object g"
  "vertex_array_binding (snd (glGetShaderInfoLog sh n g)) = vertex_array_binding g"
  "array_buffer_binding (snd (glGetShaderInfoLog sh n g)) = array_buffer_binding g"
  "element_array_buffer_binding (snd (glGetShaderInfoLog sh n g)) = element_array_buffer_binding g"
  "shader_objects (snd (glGetShaderInfoLog sh n g)) = shader_objects g"
  "program_objects (snd (glGetShaderInfoLog sh n g)) = program_objects g"
  "current_program (snd (glGetShaderInfoLog sh n g)) = current_program g"
  "polygon_mode (snd (glGetShaderInfoLog sh n g)) = polygon_mode g"
  by (simp_all add: glGetShaderInfoLog_def Let_def split: option.split)

lemma glCreateProgram_simps [simp]:
  "fst (glCreateProgram g) = next_object g"
  "driver (snd (glCreateProgram g)) = driver g"
  "calls (snd (glCreateProgram g)) = calls g @ [CreateProgram (next_object g)]"
  "next_vertex_array (snd (glCreateProgram g)) = next_vertex_array g"
  "next_buffer (snd (glCreateProgram g)) = next_buffer g"
  "next_object (snd (glCreateProgram g)) = next_object g + 1"
  "vertex_array_binding (snd (glCreateProgram g)) = vertex_array_binding g"
  "array_buffer_binding (snd (glCreateProgram g)) = array_buffer_binding g"
  "element_array_buffer_binding (snd (glCreateProgram g)) = element_array_buffer_binding g"
  "shader_objects (snd (glCreateProgram g)) = shader_objects g"
  "program_objects (snd (glCreateProgram g)) = (program_objects g)(next_object g \<mapsto> \<lparr>attached = [], link_result = 0\<rparr>)"
  "current_program (snd (glCreateProgram g)) = current_program g"
  "polygon_mode (snd (glCreateProgram g)) = polygon_mode g"
  by (simp_all add: glCreateProgram_def Let_def split: option.split)

lemma glAttachShader_simps [simp]:
  "driver (glAttachShader pr sh g) = driver g"
  "calls (glAttachShader pr sh g) = calls g @ [AttachShader pr sh]"
  "next_vertex_array (glAttachShader pr sh g) = next_vertex_array g"
  "next_buffer (glAttachShader pr sh g) = next_buffer g"
  "next_object (glAttachShader pr sh g) = next_object g"
  "vertex_array_binding (glAttachShader pr sh g) = vertex_array_binding g"
  "array_buffer_binding (glAttachShader pr sh g) = array_buffer_binding g"
  "element_array_buffer_binding (glAttachShader pr sh g) = element_array_buffer_binding g"
  "shader_objects (glAttachShader pr sh g) = shader_objects g"
  "program_objects (glAttachShader pr sh g) = (case program_objects g pr of None \<Rightarrow> program_objects g | Some ob \<Rightarrow> (program_objects g)(pr \<mapsto> ob\<lparr>attached := attached ob @ [sh]\<rparr>))"
  "current_program (glAttachShader pr sh g) = current_program g"
  "polygon_mode (glAttachShader pr sh g) = polygon_mode g"
  by (simp_all add: glAttachShader_def Let_def split: option.split)

lemma glLinkProgram_simps [simp]:
  "driver (glLinkProgram pr g) = driver g"
  "calls (glLinkProgram pr g) = calls g @ [LinkProgram pr]"
  "next_vertex_array (glLinkProgram pr g) = next_vertex_array g"
  "next_buffer (glLinkProgram pr g) = next_buffer g"
  "next_object (glLinkProgram pr g) = next_object g"
  "vertex_array_binding (glLinkProgram pr g) = vertex_array_binding g"
  "array_buffer_binding (glLinkProgram pr g) = array_buffer_binding g"
  "element_array_buffer_binding (glLinkProgram pr g) = element_array_buffer_binding g"
  "shader_objects (glLinkProgram pr g) = shader_objects g"
  "program_objects (glLinkProgram pr g) = (case program_objects g pr of None \<Rightarrow> program_objects g | Some ob \<Rightarrow> (program_objects g)(pr \<mapsto> ob\<lparr>link_result := link_status (driver g) (attached_stages g (attached ob))\<rparr>))"
  "current_program (glLinkProgram pr g) = current_program g"
  "polygon_mode (glLinkProgram pr g) = polygon_mode g"
  by (simp_all add: glLinkProgram_def Let_def split: option.split)

lemma glGetProgramiv_simps [simp]:
  "fst (glGetProgramiv pr pname g) = (case program_objects g pr of None \<Rightarrow> 0 | Some ob \<Rightarrow> if pname = GL_LINK_STATUS then link_result ob else 0)"
  "driver (snd (glGetProgramiv pr pname g)) = driver g"
  "calls (snd (glGetProgramiv pr pname g)) = calls g @ [GetProgramiv pr pname]"
  "next_vertex_array (snd (glGetProgramiv pr pname g)) = next_vertex_array g"
  "next_buffer (snd (glGetProgramiv pr pname g)) = next_buffer g"
  "next_object (snd (glGetProgramiv pr pname g)) = next_object g"
  "vertex_array_binding (snd (glGetProgramiv pr pname g)) = vertex_array_binding g"
  "array_buffer_binding (snd (glGetProgramiv pr pname g)) = array_buffer_binding g"
  "element_array_buffer_binding (snd (glGetProgramiv pr pname g)) = element_array_buffer_binding g"
  "shader_objects (snd (glGetProgramiv pr pname g)) = shader_objects g"
  "program_objects (snd (glGetProgramiv pr pname g)) = program_objects g"
  "current_program (snd (glGetProgramiv pr pname g)) = current_program g"
  "polygon_mode (snd (glGetProgramiv pr pname g)) = polygon_mode g"
  by (simp_all add: glGetProgramiv_def Let_def split: option.split)

lemma glGetProgramInfoLog_simps [simp]:
  "fst (glGetProgramInfoLog pr n g) = (case program_objects g pr of None \<Rightarrow> [] | Some ob \<Rightarrow> take (n - 1) (link_log (driver g) (attached_stages g (attached ob))))"
  "driver (snd (glGetProgramInfoLog pr n g)) = driver g"
  "calls (snd (glGetProgramInfoLog pr n g)) = calls g @ [GetProgramInfoLog pr n]"
  "next_vertex_array (snd (glGetProgramInfoLog pr n g)) = next_vertex_array g"
  "next_buffer (snd (glGetProgramInfoLog pr n g)) = next_buffer g"
  "next_object (snd (glGetProgramInfoLog pr n g)) = next_object g"
  "vertex_array_binding (snd (glGetProgramInfoLog pr n g)) = vertex_array_binding g"
  "array_buffer_binding (snd (glGetProgramInfoLog pr n g)) = array_buffer_binding g"
  "element_array_buffer_binding (snd (glGetProgramInfoLog pr n g)) = element_array_buffer_binding g"
  "shader_objects (snd (glGetProgramInfoLog pr n g)) = shader_objects g"
  "program_objects (snd (glGetProgramInfoLog pr n g)) = program_objects g"
  "current_program (snd (glGetProgramInfoLog pr n g)) = current_program g"
  "polygon_mode (snd (glGetProgramInfoLog pr n g)) = polygon_mode g"
  by (simp_all add: glGetProgramInfoLog_def Let_def split: option.split)

lemma glDeleteShader_simps [simp]:
  "driver (glDeleteShader sh g) = driver g"
  "calls (glDeleteShader sh g) = calls g @ [DeleteShader sh]"
  "next_vertex_array (glDeleteShader sh g) = next_vertex_array g"
  "next_buffer (glDeleteShader sh g) = next_buffer g"
  "next_object (glDeleteShader sh g) = next_object g"
  "vertex_array_binding (glDeleteShader sh g) = vertex_array_binding g"
  "array_buffer_binding (glDeleteShader sh g) = array_buffer_binding g"
  "element_array_buffer_binding (glDeleteShader sh g) = element_array_buffer_binding g"
  "shader_objects (glDeleteShader sh g) = (case shader_objects g sh of None \<Rightarrow> shader_objects g | Some ob \<Rightarrow> (shader_objects g)(sh \<mapsto> ob\<lparr>delete_flagged := True\<rparr>))"
  "program_objects (glDeleteShader sh g) = program_objects g"
  "current_program (glDeleteShader sh g) = current_program g"
  "polygon_mode (glDeleteShader sh g) = polygon_mode g"
  by (simp_all add: glDeleteShader_def Let_def split: option.split)

lemma glUseProgram_simps [simp]:
  "driver (glUseProgram pr g) = driver g"
  "calls (glUseProgram pr g) = calls g @ [UseProgram pr]"
  "next_vertex_array (glUseProgram pr g) = next_vertex_array g"
  "next_buffer (glUseProgram pr g) = next_buffer g"
  "next_object (glUseProgram pr g) = next_object g"
  "vertex_array_binding (glUseProgram pr g) = vertex_array_binding g"
  "array_buffer_binding (glUseProgram pr g) = array_buffer_binding g"
  "element_array_buffer_binding (glUseProgram pr g) = element_array_buffer_binding g"
  "shader_objects (glUseProgram pr g) = shader_objects g"
  "program_objects (glUseProgram pr g) = program_objects g"
  "current_program (glUseProgram pr g) = pr"
  "polygon_mode (glUseProgram pr g) = polygon_mode g"
  by (simp_all add: glUseProgram_def Let_def split: option.split)

lemma glGetUniformLocation_simps [simp]:
  "fst (glGetUniformLocation pr name g) = uniform_location (driver g) pr name"
  "driver (snd (glGetUniformLocation pr name g)) = driver g"
  "calls (snd (glGetUniformLocation pr name g)) = calls g @ [GetUniformLocation pr name]"
  "next_vertex_array (snd (glGetUniformLocation pr name g)) = next_vertex_array g"
  "next_buffer (snd (glGetUniformLocation pr name g)) = next_buffer g"
  "next_object (snd (glGetUniformLocation pr name g)) = next_object g"
  "vertex_array_binding (snd (glGetUniformLocation pr name g)) = vertex_array_binding g"
  "array_buffer_binding (snd (glGetUniformLocation pr name g)) = array_buffer_binding g"
  "element_array_buffer_binding (snd (glGetUniformLocation pr name g)) = element_array_buffer_binding g"
  "shader_objects (snd (glGetUniformLocation pr name g)) = shader_objects g"
  "program_objects (snd (glGetUniformLocation pr name g)) = program_objects g"
  "current_program (snd (glGetUniformLocation pr name g)) = current_program g"
  "polygon_mode (snd (glGetUniformLocation pr name g)) = polygon_mode g"
  by (simp_all add: glGetUniformLocation_def Let_def split: option.split)

lemma glUniformMatrix4fv_simps [simp]:
  "driver (glUniformMatrix4fv loc n tr m g) = driver g"
  "calls (glUniformMatrix4fv loc n tr m g) = calls g @ [UniformMatrix4fv loc n tr m]"
  "next_vertex_array (glUniformMatrix4fv loc n tr m g) = next_vertex_array g"
  "next_buffer (glUniformMatrix4fv loc n tr m g) = next_buffer g"
  "next_object (glUniformMatrix4fv loc n tr m g) = next_object g"
  "vertex_array_binding (glUniformMatrix4fv loc n tr m g) = vertex_array_binding g"
  "array_buffer_binding (glUniformMatrix4fv loc n tr m g) = array_buffer_binding g"
  "element_array_buffer_binding (glUniformMatrix4fv loc n tr m g) = element_array_buffer_binding g"
  "shader_objects (glUniformMatrix4fv loc n tr m g) = shader_objects g"
  "program_objects (glUniformMatrix4fv loc n tr m g) = program_objects g"
  "current_program (glUniformMatrix4fv loc n tr m g) = current_program g"
  "polygon_mode (glUniformMatrix4fv loc n tr m g) = polygon_mode g"
  by (simp_all add: glUniformMatrix4fv_def Let_def split: option.split)

lemma glUniform2f_simps [simp]:
  "driver (glUniform2f loc v0 v1 g) = driver g"
  "calls (glUniform2f loc v0 v1 g) = calls g @ [Uniform2f loc v0 v1]"
  "next_vertex_array (glUniform2f loc v0 v1 g) = next_vertex_array g"
  "next_buffer (glUniform2f loc v0 v1 g) = next_buffer g"
  "next_object (glUniform2f loc v0 v1 g) = next_object g"
  "vertex_array_binding (glUniform2f loc v0 v1 g) = vertex_array_binding g"
  "array_buffer_binding (glUniform2f loc v0 v1 g) = array_buffer_binding g"
  "element_array_buffer_binding (glUniform2f loc v0 v1 g) = element_array_buffer_binding g"
  "shader_objects (glUniform2f loc v0 v1 g) = shader_objects g"
  "program_objects (glUniform2f loc v0 v1 g) = program_objects g"
  "current_program (glUniform2f loc v0 v1 g) = current_program g"
  "polygon_mode (glUniform2f loc v0 v1 g) = polygon_mode g"
  by (simp_all add: glUniform2f_def Let_def split: option.split)

lemma glPolygonMode_simps [simp]:
  "driver (glPolygonMode face mode g) = driver g"
  "calls (glPolygonMode face mode g) = calls g @ [PolygonMode face mode]"
  "next_vertex_array (glPolygonMode face mode g) = next_vertex_array g"
  "next_buffer (glPolygonMode face mode g) = next_buffer g"
  "next_object (glPolygonMode face mode g) = next_object g"
  "vertex_array_binding (glPolygonMode face mode g) = vertex_array_binding g"
  "array_buffer_binding (glPolygonMode face mode g) = array_buffer_binding g"
  "element_array_buffer_binding (glPolygonMode face mode g) = element_array_buffer_binding g"
  "shader_objects (glPolygonMode face mode g) = shader_objects g"
  "program_objects (glPolygonMode face mode g) = program_objects g"
  "current_program (glPolygonMode face mode g) = current_program g"
  "polygon_mode (glPolygonMode face mode g) = mode"
  by (simp_all add: glPolygonMode_def Let_def split: option.split)

lemma glClear_simps [simp]:
  "driver (glClear bits g) = driver g"
  "calls (glClear bits g) = calls g @ [Clear bits]"
  "next_vertex_array (glClear bits g) = next_vertex_array g"
  "next_buffer (glClear bits g) = next_buffer g"
  "next_object (glClear bits g) = next_object g"
  "vertex_array_binding (glClear bits g) = vertex_array_binding g"
  "array_buffer_binding (glClear bits g) = array_buffer_binding g"
  "element_array_buffer_binding (glClear bits g) = element_array_buffer_binding g"
  "shader_objects (glClear bits g) = shader_objects g"
  "program_objects (glClear bits g) = program_objects g"
  "current_program (glClear bits g) = current_program g"
  "polygon_mode (glClear bits g) = polygon_mode g"
  by (simp_all add: glClear_def Let_def split: option.split)

lemma glDrawElementsInstanced_simps [simp]:
  "driver (glDrawElementsInstanced mode n t ia ic g) = driver g"
  "calls (glDrawElementsInstanced mode n t ia ic g) = calls g @ [DrawElementsInstanced mode n t ia ic]"
  "next_vertex_array (glDrawElementsInstanced mode n t ia ic g) = next_vertex_array g"
  "next_buffer (glDrawElementsInstanced mode n t ia ic g) = next_buffer g"
  "next_object (glDrawElementsInstanced mode n t ia ic g) = next_object g"
  "vertex_array_binding (glDrawElementsInstanced mode n t ia ic g) = vertex_array_binding g"
  "array_buffer_binding (glDrawElementsInstanced mode n t ia ic g) = array_buffer_binding g"
  "element_array_buffer_binding (glDrawElementsInstanced mode n t ia ic g) = element_array_buffer_binding g"
  "shader_objects (glDrawElementsInstanced mode n t ia ic g) = shader_objects g"
  "program_objects (glDrawElementsInstanced mode n t ia ic g) = program_objects g"
  "current_program (glDrawElementsInstanced mode n t ia ic g) = current_program g"
  "polygon_mode (glDrawElementsInstanced mode n t ia ic g) = polygon_mode g"
  by (simp_all add: glDrawElementsInstanced_def Let_def split: option.split)

section \<open>Shader compilation\<close>

lemma compileShader_handle: "fst (compileShader vs fs g) = next_object g + 2"
  by (simp add: compileShader_def Let_def split_def)

lemma compileShader_context [simp]:
  "driver (fst (snd (compileShader vs fs g))) = driver g"
  "next_object (fst (snd (compileShader vs fs g))) = next_object g + 3"
  "next_buffer (fst (snd (compileShader vs fs g))) = next_buffer g"
  "next_vertex_array (fst (snd (compileShader vs fs g))) = next_vertex_array g"
  "polygon_mode (fst (snd (compileShader vs fs g))) = polygon_mode g"
  "current_program (fst (snd (compileShader vs fs g))) = current_program g"
  by (simp_all add: compileShader_def Let_def split_def)

lemma compileShader_calls:
  "calls (fst (snd (compileShader vs fs g)))
     = calls g @ compile_calls (driver g) (next_object g) vs fs"
  by (simp add: compileShader_def compile_calls_def Let_def split_def attached_stages_def)

lemma compileShader_cout:
  "snd (snd (compileShader vs fs g)) =
     (if compile_status (driver g) GL_VERTEX_SHADER vs = 0
      then ''Error, vertex shader failed to compile:'' @ endl
           @ take 511 (compile_log (driver g) GL_VERTEX_SHADER vs) @ endl
      else [])
     @ (if compile_status (driver g) GL_FRAGMENT_SHADER fs = 0
        then ''Error, fragment shader failed to compile:'' @ endl
             @ take 511 (compile_log (driver g) GL_FRAGMENT_SHADER fs) @ endl
        else [])
     @ (if link_status (driver g) [(GL_VERTEX_SHADER, vs), (GL_FRAGMENT_SHADER, fs)] = 0
        then ''Error, shaders failed to link:'' @ endl
             @ take 511 (link_log (driver g) [(GL_VERTEX_SHADER, vs), (GL_FRAGMENT_SHADER, fs)])
             @ endl
        else [])"
  by (simp add: compileShader_def Let_def split_def attached_stages_def)

lemma compileShader_program_objects:
  "program_objects (fst (snd (compileShader vs fs g))) =
     (program_objects g)(next_object g + 2 \<mapsto>
        \<lparr>attached = [next_object g, next_object g + 1],
         link_result = link_status (driver g)
            [(GL_VERTEX_SHADER, vs), (GL_FRAGMENT_SHADER, fs)]\<rparr>)"
  by (simp add: compileShader_def Let_def split_def attached_stages_def)

lemma compile_calls_filters:
  "filter is_create (compile_calls d n vs fs) =
     [CreateShader GL_VERTEX_SHADER n, CreateShader GL_FRAGMENT_SHADER (n + 1),
      CreateProgram (n + 2)]"
  "filter is_delete (compile_calls d n vs fs) = [DeleteShader n, DeleteShader (n + 1)]"
  "filter is_draw (compile_calls d n vs fs) = []"
  "filter is_compile_or_link (compile_calls d n vs fs) =
     [CompileShader n, CompileShader (n + 1), LinkProgram (n + 2)]"
  "filter (\<lambda>c. is_compile_or_link c \<or> is_delete c) (compile_calls d n vs fs) =
     [CompileShader n, CompileShader (n + 1), LinkProgram (n + 2),
      DeleteShader n, DeleteShader (n + 1)]"
  by (simp_all add: compile_calls_def)

section \<open>The key callback and the delivery of events\<close>

lemma key_neq [simp]: "GLFW_KEY_SPACE \<noteq> GLFW_KEY_T" "GLFW_KEY_T \<noteq> GLFW_KEY_SPACE"
  by (simp_all add: GLFW_KEY_SPACE_def GLFW_KEY_T_def)

lemma keyCallback_unchanged [simp]:
  "circleShader (keyCallback key sc action m st) = circleShader st"
  "rectangleShader (keyCallback key sc action m st) = rectangleShader st"
  "instances (keyCallback key sc action m st) = instances st"
  "instance_colors (keyCallback key sc action m st) = instance_colors st"
  "instance_models (keyCallback key sc action m st) = instance_models st"
  "VAO (keyCallback key sc action m st) = VAO st"
  "VBO (keyCallback key sc action m st) = VBO st"
  "EBO (keyCallback key sc action m st) = EBO st"
  "iPosVBO (keyCallback key sc action m st) = iPosVBO st"
  "iColorVBO (keyCallback key sc action m st) = iColorVBO st"
  "iModelVBO (keyCallback key sc action m st) = iModelVBO st"
  "rotationAngle (keyCallback key sc action m st) = rotationAngle st"
  "lastFrameTime (keyCallback key sc action m st) = lastFrameTime st"
  "cout (keyCallback key sc action m st) = cout st"
  by (simp_all add: keyCallback_def Let_def)

lemma keyCallback_context [simp]:
  "driver (gl (keyCallback key sc action m st)) = driver (gl st)"
  "next_vertex_array (gl (keyCallback key sc action m st)) = next_vertex_array (gl st)"
  "next_buffer (gl (keyCallback key sc action m st)) = next_buffer (gl st)"
  "next_object (gl (keyCallback key sc action m st)) = next_object (gl st)"
  "shader_objects (gl (keyCallback key sc action m st)) = shader_objects (gl st)"
  "program_objects (gl (keyCallback key sc action m st)) = program_objects (gl st)"
  "current_program (gl (keyCallback key sc action m st)) = current_program (gl st)"
  by (simp_all add: keyCallback_def Let_def)

lemma keyCallback_activeShader:
  "activeShader (keyCallback key sc action m st) =
     (if key = GLFW_KEY_T \<and> action = GLFW_PRESS
      then (if activeShader st = rectangleShader st then circleShader st else rectangleShader st)
      else activeShader st)"
  by (simp add: keyCallback_def Let_def)

lemma keyCallback_WIREFRAME:
  "WIREFRAME_ENABLED (keyCallback key sc action m st) =
     (if key = GLFW_KEY_SPACE \<and> action = GLFW_PRESS then \<not> WIREFRAME_ENABLED st
      else WIREFRAME_ENABLED st)"
  by (simp add: keyCallback_def Let_def)

lemma keyCallback_polygon_mode:
  "polygon_mode (gl (keyCallback key sc action m st)) =
     (if key = GLFW_KEY_SPACE \<and> action = GLFW_PRESS
      then (if WIREFRAME_ENABLED st then GL_FILL else GL_LINE)
      else polygon_mode (gl st))"
  by (simp add: keyCallback_def Let_def)

lemma keyCallback_calls:
  "calls (gl (keyCallback key sc action m st)) =
     calls (gl st) @
       (if key = GLFW_KEY_SPACE \<and> action = GLFW_PRESS
        then [PolygonMode GL_FRONT_AND_BACK (if WIREFRAME_ENABLED st then GL_FILL else GL_LINE)]
        else [])"
  by (simp add: keyCallback_def Let_def)

lemma deliver_unchanged [simp]:
  "circleShader (deliver evs st) = circleShader st"
  "rectangleShader (deliver evs st) = rectangleShader st"
  "instances (deliver evs st) = instances st"
  "instance_colors (deliver evs st) = instance_colors st"
  "instance_models (deliver evs st) = instance_models st"
  "VAO (deliver evs st) = VAO st"
  "VBO (deliver evs st) = VBO st"
  "EBO (deliver evs st) = EBO st"
  "iPosVBO (deliver evs st) = iPosVBO st"
  "iColorVBO (deliver evs st) = iColorVBO st"
  "iModelVBO (deliver evs st) = iModelVBO st"
  "rotationAngle (deliver evs st) = rotationAngle st"
  "lastFrameTime (deliver evs st) = lastFrameTime st"
  "cout (deliver evs st) = cout st"
  by (induction evs arbitrary: st; simp)+

lemma deliver_context [simp]:
  "driver (gl (deliver evs st)) = driver (gl st)"
  "next_vertex_array (gl (deliver evs st)) = next_vertex_array (gl st)"
  "next_buffer (gl (deliver evs st)) = next_buffer (gl st)"
  "next_object (gl (deliver evs st)) = next_object (gl st)"
  "shader_objects (gl (deliver evs st)) = shader_objects (gl st)"
  "program_objects (gl (deliver evs st)) = program_objects (gl st)"
  "current_program (gl (deliver evs st)) = current_program (gl st)"
  by (induction evs arbitrary: st; simp)+

lemma deliver_calls:
  "calls (gl (deliver evs st)) = calls (gl st) @ key_calls (WIREFRAME_ENABLED st) evs"
  by (induction evs arbitrary: st) (simp_all add: keyCallback_calls keyCallback_WIREFRAME)

lemma key_calls_filters [simp]:
  "filter is_create (key_calls w evs) = []"
  "filter is_delete (key_calls w evs) = []"
  "filter is_draw (key_calls w evs) = []"
  by (induction evs arbitrary: w; simp)+

lemma deliver_activeShader_no_T:
  "list_all (\<lambda>e. \<not> is_press_of GLFW_KEY_T e) evs \<Longrightarrow>
   activeShader (deliver evs st) = activeShader st"
  by (induction evs arbitrary: st) (auto simp: keyCallback_activeShader is_press_of_def)

lemma deliver_WIREFRAME_no_space:
  "list_all (\<lambda>e. \<not> is_press_of GLFW_KEY_SPACE e) evs \<Longrightarrow>
   WIREFRAME_ENABLED (deliver evs st) = WIREFRAME_ENABLED st
   \<and> polygon_mode (gl (deliver evs st)) = polygon_mode (gl st)"
  by (induction evs arbitrary: st)
    (auto simp: keyCallback_WIREFRAME keyCallback_polygon_mode is_press_of_def)

section \<open>One iteration of the render loop\<close>

lemma draw_frame_unchanged [simp]:
  "circleShader (draw_frame st f) = circleShader st"
  "rectangleShader (draw_frame st f) = rectangleShader st"
  "activeShader (draw_frame st f) = activeShader st"
  "WIREFRAME_ENABLED (draw_frame st f) = WIREFRAME_ENABLED st"
  "instances (draw_frame st f) = instances st"
  "instance_colors (draw_frame st f) = instance_colors st"
  "VAO (draw_frame st f) = VAO st"
  "VBO (draw_frame st f) = VBO st"
  "EBO (draw_frame st f) = EBO st"
  "iPosVBO (draw_frame st f) = iPosVBO st"
  "iColorVBO (draw_frame st f) = iColorVBO st"
  "iModelVBO (draw_frame st f) = iModelVBO st"
  "cout (draw_frame st f) = cout st"
  by (simp_all add: draw_frame_def getDeltaTima_def Let_def)

lemma draw_frame_changed [simp]:
  "lastFrameTime (draw_frame st f) = frame_time f"
  "rotationAngle (draw_frame st f) =
     advance_rotation (rotationAngle st) (f64_sub (frame_time f) (lastFrameTime st))"
  "instance_models (draw_frame st f) =
     set_rotation (advance_rotation (rotationAngle st)
                     (f64_sub (frame_time f) (lastFrameTime st))) (instance_models st)"
  by (simp_all add: draw_frame_def getDeltaTima_def Let_def)

lemma draw_frame_context [simp]:
  "driver (gl (draw_frame st f)) = driver (gl st)"
  "next_vertex_array (gl (draw_frame st f)) = next_vertex_array (gl st)"
  "next_buffer (gl (draw_frame st f)) = next_buffer (gl st)"
  "next_object (gl (draw_frame st f)) = next_object (gl st)"
  "shader_objects (gl (draw_frame st f)) = shader_objects (gl st)"
  "program_objects (gl (draw_frame st f)) = program_objects (gl st)"
  "polygon_mode (gl (draw_frame st f)) = polygon_mode (gl st)"
  "current_program (gl (draw_frame st f)) = activeShader st"
  by (simp_all add: draw_frame_def getDeltaTima_def Let_def)

lemma draw_frame_calls:
  "calls (gl (draw_frame st f)) =
     calls (gl st) @
       [BindBuffer GL_ARRAY_BUFFER (iModelVBO st),
        BufferSubData GL_ARRAY_BUFFER 0 12000 (Vec3s (instance_models (draw_frame st f))),
        BindBuffer GL_ARRAY_BUFFER 0,
        Clear GL_COLOR_BUFFER_BIT,
        UseProgram (activeShader st),
        BindVertexArray (VAO st),
        DrawElementsInstanced GL_TRIANGLES 6 GL_UNSIGNED_INT 0 1000,
        BindVertexArray 0,
        GlfwSwapBuffers]"
  by (simp add: draw_frame_def getDeltaTima_def Let_def instances_index_def sizeof_float_def
      sizeof_unsigned_int_def indices_def)

lemma render_frame_unchanged [simp]:
  "circleShader (render_frame st f) = circleShader st"
  "rectangleShader (render_frame st f) = rectangleShader st"
  "instances (render_frame st f) = instances st"
  "instance_colors (render_frame st f) = instance_colors st"
  "VAO (render_frame st f) = VAO st"
  "VBO (render_frame st f) = VBO st"
  "EBO (render_frame st f) = EBO st"
  "iPosVBO (render_frame st f) = iPosVBO st"
  "iColorVBO (render_frame st f) = iColorVBO st"
  "iModelVBO (render_frame st f) = iModelVBO st"
  "cout (render_frame st f) = cout st"
  by (simp_all add: render_frame_def glfwPollEvents_def)

lemma render_frame_changed [simp]:
  "lastFrameTime (render_frame st f) = frame_time f"
  "rotationAngle (render_frame st f) =
     advance_rotation (rotationAngle st) (f64_sub (frame_time f) (lastFrameTime st))"
  "instance_models (render_frame st f) =
     set_rotation (advance_rotation (rotationAngle st)
                     (f64_sub (frame_time f) (lastFrameTime st))) (instance_models st)"
  by (simp_all add: render_frame_def glfwPollEvents_def)

lemma render_frame_context [simp]:
  "driver (gl (render_frame st f)) = driver (gl st)"
  "next_vertex_array (gl (render_frame st f)) = next_vertex_array (gl st)"
  "next_buffer (gl (render_frame st f)) = next_buffer (gl st)"
  "next_object (gl (render_frame st f)) = next_object (gl st)"
  "shader_objects (gl (render_frame st f)) = shader_objects (gl st)"
  "program_objects (gl (render_frame st f)) = program_objects (gl st)"
  "current_program (gl (render_frame st f)) = activeShader st"
  by (simp_all add: render_frame_def glfwPollEvents_def)

lemma render_frame_calls:
  "calls (gl (render_frame st f)) =
     calls (gl st) @
       [BindBuffer GL_ARRAY_BUFFER (iModelVBO st),
        BufferSubData GL_ARRAY_BUFFER 0 12000 (Vec3s (instance_models (render_frame st f))),
        BindBuffer GL_ARRAY_BUFFER 0,
        Clear GL_COLOR_BUFFER_BIT,
        UseProgram (activeShader st),
        BindVertexArray (VAO st),
        DrawElementsInstanced GL_TRIANGLES 6 GL_UNSIGNED_INT 0 1000,
        BindVertexArray 0,
        GlfwSwapBuffers,
        GlfwPollEvents]
       @ key_calls (WIREFRAME_ENABLED st) (frame_events f)"
  by (simp add: render_frame_def glfwPollEvents_def deliver_calls draw_frame_calls)

section \<open>Startup\<close>

lemma fold_update_map:
  "fold (\<lambda>i ms. ms[i := f i (ms ! i)]) [0..<n] xs
     = map (\<lambda>i. f i (xs ! i)) [0..<min n (length xs)] @ drop n xs"
proof (induction n)
  case 0
  then show ?case by simp
next
  case (Suc n)
  show ?case
  proof (cases "n < length xs")
    case True
    then have m: "min n (length xs) = n" "min (Suc n) (length xs) = Suc n" by simp_all
    have d: "drop n xs = xs ! n # drop (Suc n) xs"
      using True by (simp add: Cons_nth_drop_Suc)
    show ?thesis
      using True by (simp add: Suc m d nth_append list_update_append)
  next
    case False
    then show ?thesis by (simp add: Suc min_def list_update_beyond)
  qed
qed

lemma map_nth_upt: "map (\<lambda>i. f (xs ! i)) [0..<length xs] = map f xs"
  by (rule nth_equalityI) simp_all

lemma set_rotation_map:
  assumes "length ms = instances_index"
  shows "set_rotation a ms = map (\<lambda>m. m\<lparr>vec_z := a\<rparr>) ms"
proof -
  have "set_rotation a ms
          = fold (\<lambda>i xs. xs[i := (xs ! i)\<lparr>vec_z := a\<rparr>]) [0..<length ms] ms"
    by (simp add: set_rotation_def assms)
  also have "\<dots> = map (\<lambda>i. (ms ! i)\<lparr>vec_z := a\<rparr>) [0..<length ms]"
    by (simp add: fold_update_map[where f="\<lambda>i m. m\<lparr>vec_z := a\<rparr>"])
  also have "\<dots> = map (\<lambda>m. m\<lparr>vec_z := a\<rparr>) ms"
    by (rule map_nth_upt)
  finally show ?thesis .
qed

lemma fill_unchanged [simp]:
  "circleShader (fold (fill_instance e) ns st) = circleShader st"
  "rectangleShader (fold (fill_instance e) ns st) = rectangleShader st"
  "activeShader (fold (fill_instance e) ns st) = activeShader st"
  "WIREFRAME_ENABLED (fold (fill_instance e) ns st) = WIREFRAME_ENABLED st"
  "gl (fold (fill_instance e) ns st) = gl st"
  "cout (fold (fill_instance e) ns st) = cout st"
  by (induction ns arbitrary: st; simp add: fill_instance_def)+

lemma fill_arrays:
  "instances (fold (fill_instance e) ns st)
     = fold (\<lambda>i xs. xs[i := rndPos e i]) ns (instances st)"
  "instance_colors (fold (fill_instance e) ns st)
     = fold (\<lambda>i xs. xs[i := rndCol e i]) ns (instance_colors st)"
  "instance_models (fold (fill_instance e) ns st)
     = fold (\<lambda>i xs. xs[i := \<lparr>vec_x = f32_literal (5 / 100), vec_y = f32_literal (5 / 100),
                              vec_z = f32_literal 0\<rparr>]) ns (instance_models st)"
  by (induction ns arbitrary: st; simp add: fill_instance_def)+

lemma fill_all:
  "length xs = n \<Longrightarrow> fold (\<lambda>i ms. ms[i := h i]) [0..<n] xs = map h [0..<n]"
  using fold_update_map[where f="\<lambda>i m. h i" and n=n and xs=xs] by simp

lemma main_init_arrays:
  "instances (main_init e) = map (rndPos e) [0..<instances_index]"
  "instance_colors (main_init e) = map (rndCol e) [0..<instances_index]"
  "instance_models (main_init e) =
     replicate instances_index
       \<lparr>vec_x = f32_literal (5 / 100), vec_y = f32_literal (5 / 100), vec_z = f32_literal 0\<rparr>"
  by (simp_all add: main_init_def Let_def split_def fill_arrays fill_all start_state_def
      map_replicate_const)

lemma main_init_globals:
  "circleShader (main_init e) = 3"
  "rectangleShader (main_init e) = 6"
  "activeShader (main_init e) = 6"
  "WIREFRAME_ENABLED (main_init e) = False"
  by (simp_all add: main_init_def Let_def split_def compileShader_handle
      setupBuffers_def createEBO_def createVBO_def start_state_def new_context_def)

lemma main_init_locals:
  "VAO (main_init e) = 1"
  "VBO (main_init e) = 1"
  "EBO (main_init e) = 2"
  "iPosVBO (main_init e) = 3"
  "iColorVBO (main_init e) = 4"
  "iModelVBO (main_init e) = 5"
  "rotationAngle (main_init e) = f32_literal 0"
  "lastFrameTime (main_init e) = start_time e"
  by (simp_all add: main_init_def Let_def split_def compileShader_handle
      setupBuffers_def createEBO_def createVBO_def start_state_def new_context_def)

lemma main_init_context:
  "driver (gl (main_init e)) = gl_drv e"
  "polygon_mode (gl (main_init e)) = GL_FILL"
  "current_program (gl (main_init e)) = 6"
  "next_object (gl (main_init e)) = 7"
  "next_buffer (gl (main_init e)) = 6"
  "next_vertex_array (gl (main_init e)) = 2"
  by (simp_all add: main_init_def Let_def split_def compileShader_handle
      setupBuffers_def createEBO_def createVBO_def start_state_def new_context_def)

lemma main_init_programs:
  "program_objects (gl (main_init e)) 3 \<noteq> None"
  "program_objects (gl (main_init e)) 6 \<noteq> None"
  by (simp_all add: main_init_def Let_def split_def compileShader_handle
      compileShader_program_objects
      setupBuffers_def createEBO_def createVBO_def start_state_def new_context_def)

lemma main_init_calls_created:
  "filter is_create (calls (gl (main_init e))) =
     [GenVertexArrays 1, GenBuffers 1, GenBuffers 2, GenBuffers 3, GenBuffers 4, GenBuffers 5,
      CreateShader GL_VERTEX_SHADER 1, CreateShader GL_FRAGMENT_SHADER 2, CreateProgram 3,
      CreateShader GL_VERTEX_SHADER 4, CreateShader GL_FRAGMENT_SHADER 5, CreateProgram 6]"
  by (simp add: main_init_def Let_def split_def compileShader_handle compileShader_calls
      compile_calls_filters
      setupBuffers_def createEBO_def createVBO_def start_state_def new_context_def)

lemma main_init_calls_deleted:
  "filter is_delete (calls (gl (main_init e))) =
     [DeleteShader 1, DeleteShader 2, DeleteShader 4, DeleteShader 5]"
  by (simp add: main_init_def Let_def split_def compileShader_handle compileShader_calls
      compile_calls_filters
      setupBuffers_def createEBO_def createVBO_def start_state_def new_context_def)

lemma main_init_calls_linked_deleted:
  "filter (\<lambda>c. is_compile_or_link c \<or> is_delete c) (calls (gl (main_init e))) =
     [CompileShader 1, CompileShader 2, LinkProgram 3, DeleteShader 1, DeleteShader 2,
      CompileShader 4, CompileShader 5, LinkProgram 6, DeleteShader 4, DeleteShader 5]"
  by (simp add: main_init_def Let_def split_def compileShader_handle compileShader_calls
      compile_calls_filters
      setupBuffers_def createEBO_def createVBO_def start_state_def new_context_def)

section \<open>The render loop\<close>

lemma main_loop_Nil [simp]: "main_loop st [] = st"
  by (simp add: main_loop_def)

lemma main_loop_Cons [simp]: "main_loop st (f # fs) = main_loop (render_frame st f) fs"
  by (simp add: main_loop_def)

lemma main_loop_snoc: "main_loop st (fs @ [f]) = render_frame (main_loop st fs) f"
  by (simp add: main_loop_def)

lemma main_loop_unchanged [simp]:
  "circleShader (main_loop st fs) = circleShader st"
  "rectangleShader (main_loop st fs) = rectangleShader st"
  "instances (main_loop st fs) = instances st"
  "instance_colors (main_loop st fs) = instance_colors st"
  "VAO (main_loop st fs) = VAO st"
  "VBO (main_loop st fs) = VBO st"
  "EBO (main_loop st fs) = EBO st"
  "iPosVBO (main_loop st fs) = iPosVBO st"
  "iColorVBO (main_loop st fs) = iColorVBO st"
  "iModelVBO (main_loop st fs) = iModelVBO st"
  "cout (main_loop st fs) = cout st"
  by (induction fs arbitrary: st; simp)+

lemma main_loop_context [simp]:
  "driver (gl (main_loop st fs)) = driver (gl st)"
  "next_vertex_array (gl (main_loop st fs)) = next_vertex_array (gl st)"
  "next_buffer (gl (main_loop st fs)) = next_buffer (gl st)"
  "next_object (gl (main_loop st fs)) = next_object (gl st)"
  "shader_objects (gl (main_loop st fs)) = shader_objects (gl st)"
  "program_objects (gl (main_loop st fs)) = program_objects (gl st)"
  by (induction fs arbitrary: st; simp)+


lemma set_rotation_length [simp]: "length (set_rotation a ms) = length ms"
proof -
  have "length (fold (\<lambda>i ms. ms[i := (ms ! i)\<lparr>vec_z := a\<rparr>]) ns ms) = length ms" for ns
    by (induction ns arbitrary: ms) simp_all
  then show ?thesis by (simp add: set_rotation_def)
qed

lemma main_loop_models_length [simp]:
  "length (instance_models (main_loop st fs)) = length (instance_models st)"
  by (induction fs arbitrary: st) simp_all

lemma reachable_models_length [simp]:
  "length (instance_models (main_loop (main_init e) fs)) = instances_index"
  by (simp add: main_init_arrays)

lemma main_loop_scales:
  "length (instance_models st) = instances_index \<Longrightarrow>
   map vec_x (instance_models (main_loop st fs)) = map vec_x (instance_models st)
   \<and> map vec_y (instance_models (main_loop st fs)) = map vec_y (instance_models st)"
  by (induction fs arbitrary: st) (simp_all add: set_rotation_map o_def)

lemma main_loop_calls_filters:
  "filter is_create (calls (gl (main_loop st fs))) = filter is_create (calls (gl st))"
  "filter is_delete (calls (gl (main_loop st fs))) = filter is_delete (calls (gl st))"
  by (induction fs arbitrary: st; simp add: render_frame_calls)+

lemma deliver_append: "deliver (xs @ ys) st = deliver ys (deliver xs st)"
  by (induction xs arbitrary: st) simp_all

lemma render_frame_activeShader_no_T:
  "list_all (\<lambda>e. \<not> is_press_of GLFW_KEY_T e) (frame_events f) \<Longrightarrow>
   activeShader (render_frame st f) = activeShader st"
  by (simp add: render_frame_def glfwPollEvents_def deliver_activeShader_no_T)

lemma render_frame_WIREFRAME_no_space:
  "list_all (\<lambda>e. \<not> is_press_of GLFW_KEY_SPACE e) (frame_events f) \<Longrightarrow>
   WIREFRAME_ENABLED (render_frame st f) = WIREFRAME_ENABLED st
   \<and> polygon_mode (gl (render_frame st f)) = polygon_mode (gl st)"
  using deliver_WIREFRAME_no_space[of "frame_events f"
      "(draw_frame st f)\<lparr>gl := record_call GlfwPollEvents (gl (draw_frame st f))\<rparr>"]
  by (simp add: render_frame_def glfwPollEvents_def)

lemma main_loop_activeShader_no_T:
  "no_press_of GLFW_KEY_T fs \<Longrightarrow> activeShader (main_loop st fs) = activeShader st"
  by (induction fs arbitrary: st) (simp_all add: no_press_of_def render_frame_activeShader_no_T)

lemma main_loop_WIREFRAME_no_space:
  "no_press_of GLFW_KEY_SPACE fs \<Longrightarrow>
   WIREFRAME_ENABLED (main_loop st fs) = WIREFRAME_ENABLED st
   \<and> polygon_mode (gl (main_loop st fs)) = polygon_mode (gl st)"
  by (induction fs arbitrary: st) (simp_all add: no_press_of_def render_frame_WIREFRAME_no_space)

lemma keyCallback_inv:
  "active_shader_inv st \<Longrightarrow> active_shader_inv (keyCallback key sc action m st)"
  by (auto simp: active_shader_inv_def keyCallback_activeShader)

lemma deliver_inv: "active_shader_inv st \<Longrightarrow> active_shader_inv (deliver evs st)"
  by (induction evs arbitrary: st) (simp_all add: keyCallback_inv)

lemma render_frame_inv: "active_shader_inv st \<Longrightarrow> active_shader_inv (render_frame st f)"
proof -
  assume a: "active_shader_inv st"
  have "active_shader_inv ((draw_frame st f)\<lparr>gl := record_call GlfwPollEvents (gl (draw_frame st f))\<rparr>)"
    using a by (simp add: active_shader_inv_def)
  then show ?thesis
    by (simp add: render_frame_def glfwPollEvents_def deliver_inv)
qed

lemma main_loop_inv: "active_shader_inv st \<Longrightarrow> active_shader_inv (main_loop st fs)"
  by (induction fs arbitrary: st) (simp_all add: render_frame_inv)

lemma main_init_inv: "active_shader_inv (main_init e)"
  by (simp add: active_shader_inv_def main_init_globals)

lemma main_init_live: "programs_live (main_init e)"
  by (simp add: programs_live_def main_init_globals main_init_programs)

section \<open>Rounding\<close>

lemma pow2_pos [simp]: "0 < (2::rat) powi e"
  by (simp add: zero_less_power_int)

lemma pow2_add: "(2::rat) powi (a + b) = 2 powi a * 2 powi b"
  by (simp add: power_int_add)

lemma pow2_mono: "a \<le> b \<Longrightarrow> (2::rat) powi a \<le> 2 powi b"
  by (simp add: power_int_increasing)

lemma pow2_less_exp: "(2::rat) powi a < 2 powi b \<Longrightarrow> a < b"
  by (rule ccontr) (simp add: not_less pow2_mono leD)

lemma pow2_nat: "0 \<le> e \<Longrightarrow> (2::rat) powi e = of_int (2 ^ nat e)"
  by (simp add: power_int_def)

lemma pow2_neg: "0 \<le> e \<Longrightarrow> (2::rat) powi (- e) = 1 / of_int (2 ^ nat e)"
  by (simp add: power_int_minus_divide power_int_def power_one_over)

lemma ilog2_bounds:
  assumes "0 < x"
  shows "2 powi (ilog2 x) \<le> x" and "x < 2 powi (ilog2 x + 1)"
proof -
  have "2 powi (ilog2 x) \<le> x \<and> x < 2 powi (ilog2 x + 1)"
  proof (cases "1 \<le> x")
    case True
    define n where "n = \<lfloor>x\<rfloor>"
    have n: "0 < n" "of_int n \<le> x" "x < of_int n + 1"
      using True by (simp_all add: n_def) linarith+
    from bitlen_bounds[OF n(1)] have b: "2 ^ nat (bitlen n - 1) \<le> n" "n < 2 ^ nat (bitlen n)"
      by simp_all
    have b1: "1 \<le> bitlen n"
      using n(1) bitlen_eq_zero_iff[of n] bitlen_nonneg[of n] by linarith
    have "(of_int (2 ^ nat (bitlen n - 1)) :: rat) \<le> of_int n"
      using b(1) by (simp only: of_int_le_iff)
    moreover have "(2::rat) powi (bitlen n - 1) = of_int (2 ^ nat (bitlen n - 1))"
      using b1 by (simp only: pow2_nat)
    ultimately have lo: "2 powi (bitlen n - 1) \<le> x"
      using n(2) by linarith
    have "n + 1 \<le> 2 ^ nat (bitlen n)"
      using b(2) by linarith
    then have "(of_int (n + 1) :: rat) \<le> of_int (2 ^ nat (bitlen n))"
      by (simp only: of_int_le_iff)
    moreover have "(2::rat) powi (bitlen n) = of_int (2 ^ nat (bitlen n))"
      using b1 by (simp only: pow2_nat)
    moreover have "(of_int (n + 1) :: rat) = of_int n + 1" by simp
    ultimately have hi: "x < 2 powi (bitlen n)"
      using n(3) by linarith
    show ?thesis
      using True lo hi by (simp add: ilog2_def n_def)
  next
    case False
    define c where "c = \<lceil>1 / x\<rceil>"
    define B where "B = bitlen (c - 1)"
    have x1: "x < 1" using False by simp
    have y: "1 < 1 / x" using assms x1 by simp
    have c: "1 / x \<le> of_int c" "of_int c - 1 < 1 / x"
      by (simp_all add: c_def) linarith
    have "(1::rat) < of_int c" using y c(1) by linarith
    then have c2: "0 < c - 1" by simp
    from bitlen_bounds[OF c2]
    have b: "2 ^ nat (B - 1) \<le> c - 1" "c - 1 < 2 ^ nat B"
      by (simp_all add: B_def)
    have b1: "1 \<le> B"
      using c2 bitlen_eq_zero_iff[of "c - 1"] bitlen_nonneg[of "c - 1"]
      unfolding B_def by linarith
    have "c \<le> 2 ^ nat B" using b(2) by simp
    then have "(of_int c :: rat) \<le> of_int (2 ^ nat B)"
      by (simp only: of_int_le_iff)
    then have "1 / x \<le> of_int (2 ^ nat B)"
      using c(1) by linarith
    then have "1 \<le> of_int (2 ^ nat B) * x"
      using assms by (simp add: field_simps)
    moreover have "(0::rat) < of_int (2 ^ nat B)" by simp
    ultimately have "1 / of_int (2 ^ nat B) \<le> x"
      by (simp add: field_simps)
    moreover have "(2::rat) powi (- B) = 1 / of_int (2 ^ nat B)"
      using b1 by (simp only: pow2_neg)
    ultimately have lo: "2 powi (- B) \<le> x"
      by linarith
    have "(of_int (2 ^ nat (B - 1)) :: rat) \<le> of_int (c - 1)"
      using b(1) by (simp only: of_int_le_iff)
    then have "of_int (2 ^ nat (B - 1)) < 1 / x"
      using c(2) by simp
    then have "of_int (2 ^ nat (B - 1)) * x < 1"
      using assms by (simp add: field_simps)
    moreover have "(0::rat) < of_int (2 ^ nat (B - 1))" by simp
    ultimately have "x < 1 / of_int (2 ^ nat (B - 1))"
      by (simp add: field_simps)
    moreover have "(2::rat) powi (- B + 1) = 1 / of_int (2 ^ nat (B - 1))"
    proof -
      have "- B + 1 = - (B - 1)" by simp
      then show ?thesis using b1 pow2_neg[of "B - 1"] by simp
    qed
    ultimately have hi: "x < 2 powi (- B + 1)"
      by linarith
    show ?thesis
      using False lo hi by (simp add: ilog2_def c_def B_def)
  qed
  then show "2 powi (ilog2 x) \<le> x" and "x < 2 powi (ilog2 x + 1)"
    by simp_all
qed

lemma round_half_even_of_int [simp]: "round_half_even (of_int n) = n"
  by (simp add: round_half_even_def)

lemma round_half_even_range:
  "\<lfloor>r\<rfloor> \<le> round_half_even r" "round_half_even r \<le> \<lfloor>r\<rfloor> + 1"
  by (simp_all add: round_half_even_def Let_def)

lemma round_half_even_mono:
  assumes "r \<le> s"
  shows "round_half_even r \<le> round_half_even s"
proof (cases "\<lfloor>r\<rfloor> < \<lfloor>s\<rfloor>")
  case True
  have "round_half_even r \<le> \<lfloor>r\<rfloor> + 1" by (rule round_half_even_range)
  also have "\<dots> \<le> \<lfloor>s\<rfloor>" using True by simp
  also have "\<dots> \<le> round_half_even s" by (rule round_half_even_range)
  finally show ?thesis .
next
  case False
  moreover have "\<lfloor>r\<rfloor> \<le> \<lfloor>s\<rfloor>" using assms by (rule floor_mono)
  ultimately have eq: "\<lfloor>s\<rfloor> = \<lfloor>r\<rfloor>" by simp
  show ?thesis
    using assms by (auto simp: round_half_even_def Let_def eq)
qed

lemma round_half_even_le: "r \<le> of_int n \<Longrightarrow> round_half_even r \<le> n"
  using round_half_even_mono[of r "of_int n"] by simp

lemma round_half_even_ge: "of_int n \<le> r \<Longrightarrow> n \<le> round_half_even r"
  using round_half_even_mono[of "of_int n" r] by simp

lemma ilog2_mono:
  assumes "0 < x" "x \<le> y"
  shows "ilog2 x \<le> ilog2 y"
proof -
  have "0 < y" using assms by simp
  have "2 powi (ilog2 x) \<le> x" using assms(1) by (rule ilog2_bounds)
  also have "\<dots> \<le> y" by (rule assms)
  also have "\<dots> < 2 powi (ilog2 y + 1)" using \<open>0 < y\<close> by (rule ilog2_bounds)
  finally have "ilog2 x < ilog2 y + 1" by (rule pow2_less_exp)
  then show ?thesis by simp
qed

lemma ilog2_less:
  assumes "0 < x" "x < 2 powi n"
  shows "ilog2 x < n"
proof -
  have "2 powi (ilog2 x) \<le> x" using assms(1) by (rule ilog2_bounds)
  also have "\<dots> < 2 powi n" by (rule assms)
  finally show ?thesis by (rule pow2_less_exp)
qed

lemma ulp_exp_mono: "0 < x \<Longrightarrow> x \<le> y \<Longrightarrow> ulp_exp p emin x \<le> ulp_exp p emin y"
  using ilog2_mono[of x y] by (simp add: ulp_exp_def)

lemma ulp_exp_ge: "emin - (int p - 1) \<le> ulp_exp p emin x"
  by (simp add: ulp_exp_def)

lemma scaled_less:
  assumes "0 < x"
  shows "x / 2 powi (ulp_exp p emin x) < 2 ^ p"
proof -
  have "x < 2 powi (ilog2 x + 1)" using assms by (rule ilog2_bounds)
  also have "\<dots> \<le> 2 powi (ulp_exp p emin x + int p)"
    by (rule pow2_mono) (simp add: ulp_exp_def)
  also have "\<dots> = 2 powi (ulp_exp p emin x) * 2 ^ p"
    by (simp add: pow2_add)
  finally show ?thesis by (simp add: field_simps)
qed

lemma scaled_ge:
  assumes "0 < x" "emin \<le> ilog2 x" "1 \<le> p"
  shows "2 ^ (p - 1) \<le> x / 2 powi (ulp_exp p emin x)"
proof -
  have e: "ilog2 x = ulp_exp p emin x + int (p - 1)"
    using assms(2,3) by (simp add: ulp_exp_def of_nat_diff)
  have "(2::rat) powi (ulp_exp p emin x) * 2 ^ (p - 1) = 2 powi (ilog2 x)"
    by (simp add: e pow2_add)
  also have "\<dots> \<le> x" using assms(1) by (rule ilog2_bounds)
  finally show ?thesis by (simp add: field_simps)
qed

lemma round_mag_nonneg: "0 < x \<Longrightarrow> 0 \<le> round_mag p emin x"
proof -
  assume "0 < x"
  then have "of_int 0 \<le> x / 2 powi (ulp_exp p emin x)" by simp
  then have "0 \<le> round_half_even (x / 2 powi (ulp_exp p emin x))"
    by (rule round_half_even_ge)
  then show ?thesis by (simp add: round_mag_def Let_def)
qed

lemma round_mag_le:
  assumes "0 < x"
  shows "round_mag p emin x \<le> 2 powi (ulp_exp p emin x + int p)"
proof -
  have "x / 2 powi (ulp_exp p emin x) \<le> of_int (2 ^ p)"
    using scaled_less[OF assms, of p emin] by simp
  then have "round_half_even (x / 2 powi (ulp_exp p emin x)) \<le> 2 ^ p"
    by (rule round_half_even_le)
  then have "(of_int (round_half_even (x / 2 powi (ulp_exp p emin x))) :: rat) \<le> of_int (2 ^ p)"
    by (simp only: of_int_le_iff)
  then have "round_mag p emin x \<le> 2 ^ p * 2 powi (ulp_exp p emin x)"
    by (simp add: round_mag_def Let_def)
  then show ?thesis by (simp add: pow2_add mult.commute)
qed

lemma round_mag_ge:
  assumes "0 < x" "emin \<le> ilog2 x" "1 \<le> p"
  shows "2 powi (ulp_exp p emin x + int p - 1) \<le> round_mag p emin x"
proof -
  have "of_int (2 ^ (p - 1)) \<le> x / 2 powi (ulp_exp p emin x)"
    using scaled_ge[OF assms] by simp
  then have "2 ^ (p - 1) \<le> round_half_even (x / 2 powi (ulp_exp p emin x))"
    by (rule round_half_even_ge)
  then have "(of_int (2 ^ (p - 1)) :: rat)
               \<le> of_int (round_half_even (x / 2 powi (ulp_exp p emin x)))"
    by (simp only: of_int_le_iff)
  then have "2 ^ (p - 1) * 2 powi (ulp_exp p emin x) \<le> round_mag p emin x"
    by (simp add: round_mag_def Let_def)
  moreover have "(2::rat) powi (ulp_exp p emin x + int p - 1)
                  = 2 ^ (p - 1) * 2 powi (ulp_exp p emin x)"
  proof -
    have "ulp_exp p emin x + int p - 1 = ulp_exp p emin x + int (p - 1)"
      using assms(3) by (simp add: of_nat_diff)
    then have "(2::rat) powi (ulp_exp p emin x + int p - 1)
                 = 2 powi (ulp_exp p emin x + int (p - 1))"
      by (rule arg_cong)
    also have "\<dots> = 2 powi (ulp_exp p emin x) * 2 powi (int (p - 1))"
      by (rule pow2_add)
    finally show ?thesis by (simp add: mult.commute)
  qed
  ultimately show ?thesis by simp
qed

lemma round_mag_mono:
  assumes "0 < x" "x \<le> y" "1 \<le> p"
  shows "round_mag p emin x \<le> round_mag p emin y"
proof (cases "ulp_exp p emin x = ulp_exp p emin y")
  case True
  have "x / 2 powi (ulp_exp p emin y) \<le> y / 2 powi (ulp_exp p emin y)"
    using assms(2) by (simp add: divide_right_mono)
  then have "round_half_even (x / 2 powi (ulp_exp p emin y))
               \<le> round_half_even (y / 2 powi (ulp_exp p emin y))"
    by (rule round_half_even_mono)
  then have "(of_int (round_half_even (x / 2 powi (ulp_exp p emin y))) :: rat)
               \<le> of_int (round_half_even (y / 2 powi (ulp_exp p emin y)))"
    by (simp only: of_int_le_iff)
  then show ?thesis
    by (simp add: round_mag_def Let_def True mult_right_mono)
next
  case False
  have y: "0 < y" using assms by simp
  have lt: "ulp_exp p emin x < ulp_exp p emin y"
    using False ulp_exp_mono[OF assms(1,2), of p emin] by simp
  then have normal: "emin \<le> ilog2 y"
    using ulp_exp_ge[of emin p x] by (simp add: ulp_exp_def)
  have "round_mag p emin x \<le> 2 powi (ulp_exp p emin x + int p)"
    using assms(1) by (rule round_mag_le)
  also have "\<dots> \<le> 2 powi (ulp_exp p emin y + int p - 1)"
    using lt by (intro pow2_mono) simp
  also have "\<dots> \<le> round_mag p emin y"
    using y normal assms(3) by (rule round_mag_ge)
  finally show ?thesis .
qed

lemma round_val_mono:
  assumes "x \<le> y" "1 \<le> p"
  shows "round_val p emin x \<le> round_val p emin y"
proof -
  consider "0 < x" | "x \<le> 0" "0 \<le> y" | "y < 0" using assms(1) by linarith
  then show ?thesis
  proof cases
    case 1
    then show ?thesis
      using assms round_mag_mono[of x y p emin] by (simp add: round_val_def)
  next
    case 2
    have "round_val p emin x \<le> 0"
      using 2(1) round_mag_nonneg[of "- x" p emin] by (simp add: round_val_def)
    moreover have "0 \<le> round_val p emin y"
      using 2(2) round_mag_nonneg[of y p emin] by (simp add: round_val_def)
    ultimately show ?thesis by simp
  next
    case 3
    then have "0 < - y" "- y \<le> - x" using assms(1) by simp_all
    then have "round_mag p emin (- y) \<le> round_mag p emin (- x)"
      using assms(2) by (rule round_mag_mono)
    then show ?thesis
      using 3 assms(1) by (simp add: round_val_def)
  qed
qed

lemma round_mag_fixes:
  assumes "0 < m" "m < 2 ^ p" "emin - (int p - 1) \<le> k"
  shows "round_mag p emin (of_int m * 2 powi k) = of_int m * 2 powi k"
proof -
  define x :: rat where "x = of_int m * 2 powi k"
  define E where "E = ulp_exp p emin x"
  have x: "0 < x" using assms(1) by (simp add: x_def)
  have "(of_int m :: rat) < of_int (2 ^ p)"
    using assms(2) by (simp only: of_int_less_iff)
  then have "x < 2 ^ p * 2 powi k"
    by (simp add: x_def)
  also have "\<dots> = 2 powi (k + int p)"
    by (simp add: pow2_add)
  finally have "ilog2 x < k + int p"
    using x by (intro ilog2_less)
  then have E: "E \<le> k"
    using assms(3) by (simp add: E_def ulp_exp_def)
  have "(2::rat) powi k = 2 powi ((k - E) + E)" by simp
  also have "\<dots> = 2 powi (k - E) * 2 powi E" by (rule pow2_add)
  also have "\<dots> = of_int (2 ^ nat (k - E)) * 2 powi E"
    using E by (simp add: pow2_nat)
  finally have k: "(2::rat) powi k = of_int (2 ^ nat (k - E)) * 2 powi E" .
  have "x / 2 powi E = of_int (m * 2 ^ nat (k - E))"
    by (simp add: x_def k)
  then have "round_half_even (x / 2 powi E) = m * 2 ^ nat (k - E)"
    by (simp only: round_half_even_of_int)
  then have "round_mag p emin x = of_int (m * 2 ^ nat (k - E)) * 2 powi E"
    by (simp add: round_mag_def Let_def E_def)
  also have "\<dots> = x"
    by (simp add: x_def k)
  finally show ?thesis by (simp add: x_def)
qed

lemma round_val_fixes:
  assumes "is_representable p emin x"
  shows "round_val p emin x = x"
proof -
  from assms obtain m k where mk: "x = of_int m * 2 powi k" "\<bar>m\<bar> < 2 ^ p"
      "emin - (int p - 1) \<le> k"
    by (auto simp: is_representable_def)
  consider "m = 0" | "0 < m" | "m < 0" by linarith
  then show ?thesis
  proof cases
    case 1
    then show ?thesis by (simp add: mk(1) round_val_def)
  next
    case 2
    then have "0 < x" by (simp add: mk(1))
    moreover have "round_mag p emin x = x"
      unfolding mk(1) using 2 mk(2,3) by (intro round_mag_fixes) simp_all
    ultimately show ?thesis by (simp add: round_val_def)
  next
    case 3
    then have neg: "x < 0" by (simp add: mk(1) mult_neg_pos)
    have "- x = of_int (- m) * 2 powi k" by (simp add: mk(1))
    moreover have "round_mag p emin (of_int (- m) * 2 powi k) = of_int (- m) * 2 powi k"
      using 3 mk(2,3) by (intro round_mag_fixes) simp_all
    ultimately have "round_mag p emin (- x) = - x" by simp
    then show ?thesis using neg by (simp add: round_val_def)
  qed
qed

lemma is_representable_uminus: "is_representable p emin x \<Longrightarrow> is_representable p emin (- x)"
proof -
  assume "is_representable p emin x"
  then obtain m k where "x = of_int m * 2 powi k" "\<bar>m\<bar> < 2 ^ p" "emin - (int p - 1) \<le> k"
    by (auto simp: is_representable_def)
  then have "- x = of_int (- m) * 2 powi k \<and> \<bar>- m\<bar> < 2 ^ p \<and> emin - (int p - 1) \<le> k"
    by simp
  then show ?thesis unfolding is_representable_def by blast
qed

lemma round_mag_representable:
  assumes "0 < x" "1 \<le> p"
  shows "is_representable p emin (round_mag p emin x)"
proof -
  define E where "E = ulp_exp p emin x"
  define n where "n = round_half_even (x / 2 powi E)"
  have r: "round_mag p emin x = of_int n * 2 powi E"
    by (simp add: round_mag_def Let_def E_def n_def)
  have E: "emin - (int p - 1) \<le> E"
    unfolding E_def by (rule ulp_exp_ge)
  have "of_int 0 \<le> x / 2 powi E" using assms(1) by simp
  then have n0: "0 \<le> n" unfolding n_def by (rule round_half_even_ge)
  have "x / 2 powi E \<le> of_int (2 ^ p)"
    using scaled_less[OF assms(1), of p emin] by (simp add: E_def)
  then have n1: "n \<le> 2 ^ p" unfolding n_def by (rule round_half_even_le)
  show ?thesis
  proof (cases "n = 2 ^ p")
    case False
    then have "\<bar>n\<bar> < 2 ^ p" using n0 n1 by simp
    then show ?thesis
      unfolding is_representable_def r using E by blast
  next
    case True
    have p: "p = Suc (p - 1)" using assms(2) by simp
    have "(2::rat) ^ p = 2 ^ (p - 1) * 2"
      by (subst p) simp
    then have "of_int n * (2::rat) powi E = of_int (2 ^ (p - 1)) * 2 powi (E + 1)"
      by (simp add: True pow2_add)
    moreover have "\<bar>(2::int) ^ (p - 1)\<bar> < 2 ^ p"
      using assms(2) by simp
    moreover have "emin - (int p - 1) \<le> E + 1" using E by simp
    ultimately show ?thesis
      unfolding is_representable_def r by blast
  qed
qed

lemma round_val_representable:
  assumes "1 \<le> p"
  shows "is_representable p emin (round_val p emin x)"
proof -
  consider "x = 0" | "0 < x" | "x < 0" by linarith
  then show ?thesis
  proof cases
    case 1
    have "(0::rat) = of_int 0 * 2 powi (emin - (int p - 1))" by simp
    moreover have "\<bar>0::int\<bar> < 2 ^ p" by simp
    ultimately have "is_representable p emin 0"
      unfolding is_representable_def by blast
    then show ?thesis using 1 by (simp add: round_val_def)
  next
    case 2
    then show ?thesis
      using round_mag_representable[OF 2 assms, of emin] by (simp add: round_val_def)
  next
    case 3
    then have "0 < - x" by simp
    from round_mag_representable[OF this assms, of emin]
    have "is_representable p emin (- round_mag p emin (- x))"
      by (rule is_representable_uminus)
    then show ?thesis using 3 by (simp add: round_val_def)
  qed
qed

lemma round_val_idem: "1 \<le> p \<Longrightarrow> round_val p emin (round_val p emin x) = round_val p emin x"
  by (rule round_val_fixes) (rule round_val_representable)

lemma round_fp_fixes:
  assumes "is_representable p (1 - emax) x" "\<bar>x\<bar> < 2 powi (emax + 1)"
  shows "round_fp p emax x = Finite x"
proof -
  have "\<not> 2 powi (emax + 1) \<le> x" "\<not> x \<le> - (2 powi (emax + 1))"
    using assms(2) by linarith+
  then show ?thesis
    by (simp add: round_fp_def round_val_fixes[OF assms(1)] Let_def)
qed

lemma round64_small_integers:
  "round64 1 = Finite 1" "round64 (- 1) = Finite (- 1)"
proof -
  have "(1::rat) = of_int 1 * 2 powi 0 \<and> \<bar>1::int\<bar> < 2 ^ 53 \<and> 1 - 1023 - (int 53 - 1) \<le> 0"
    by simp
  then have 1: "is_representable 53 (1 - 1023) 1"
    unfolding is_representable_def by blast
  then have 2: "is_representable 53 (1 - 1023) (- 1)"
    by (rule is_representable_uminus)
  show "round64 1 = Finite 1" "round64 (- 1) = Finite (- 1)"
    unfolding round64_def using 1 2 by (simp_all add: round_fp_fixes)
qed

subsection \<open>binary32\<close>

lemma round32_Finite:
  "(round32 x = Finite v) =
     (v = round_val 24 (- 126) x \<and> \<bar>round_val 24 (- 126) x\<bar> < 2 ^ 128)"
  by (auto simp: round32_def round_fp_def Let_def)

lemma is_f32_Finite:
  "is_f32 (Finite a) = (round_val 24 (- 126) a = a \<and> \<bar>a\<bar> < 2 ^ 128)"
  by (auto simp: round32_Finite)

lemma round32_is_f32: "round32 x = Finite v \<Longrightarrow> is_f32 (Finite v)"
  unfolding is_f32_Finite by (simp add: round32_Finite round_val_idem)

lemma is_f32_cases: "is_f32 a \<Longrightarrow> \<exists>v. a = Finite v"
  by (cases a) simp_all

text \<open>
  Rounding is monotone and leaves the numbers of the format unchanged, so the rounded
  value of a number between two floats lies between them.
\<close>

lemma round32_between:
  assumes "is_f32 (Finite l)" "is_f32 (Finite u)" "l \<le> x" "x \<le> u"
  shows "\<exists>v. round32 x = Finite v \<and> l \<le> v \<and> v \<le> u \<and> is_f32 (Finite v)"
proof -
  let ?R = "round_val 24 (- 126)"
  have l: "?R l = l" "\<bar>l\<bar> < 2 ^ 128" and u: "?R u = u" "\<bar>u\<bar> < 2 ^ 128"
    using assms(1,2)[unfolded is_f32_Finite] by simp_all
  have "?R l \<le> ?R x" using assms(3) by (rule round_val_mono) simp
  moreover have "?R x \<le> ?R u" using assms(4) by (rule round_val_mono) simp
  ultimately have b: "l \<le> ?R x" "?R x \<le> u" using l(1) u(1) by simp_all
  then have "\<bar>?R x\<bar> < 2 ^ 128" using l(2) u(2) by linarith
  then have f: "round32 x = Finite (?R x)" by (simp add: round32_Finite)
  then have "is_f32 (Finite (?R x))" by (rule round32_is_f32)
  then show ?thesis using f b by blast
qed

subsection \<open>Values of the floating-point constants\<close>

lemma f32_literal_values:
  "f32_literal 0 = Finite 0"
  "f32_literal 1 = Finite 1"
  "f32_literal (- 1) = Finite (- 1)"
  "f32_literal 2 = Finite 2"
  "f32_literal (5 / 100) = Finite (13421773 / 2 ^ 28)"
  by code_simp+

lemma rotationSpeed_value: "rotationSpeed = Finite 1"
  by code_simp

lemma glm_pi_float_value: "glm_pi_float = Finite (13176795 / 2 ^ 22)"
  by code_simp

lemma two_pi_value: "two_pi = Finite (13176795 / 2 ^ 21)"
proof -
  have "f32_mul (Finite 2) (Finite (13176795 / 2 ^ 22)) = Finite (13176795 / 2 ^ 21)"
    by code_simp
  then show ?thesis
    by (simp add: two_pi_def glm_pi_float_value f32_literal_values)
qed

lemma ASPECT_RATIO_value: "ASPECT_RATIO = Finite (14913081 / 2 ^ 23)"
  by code_simp

lemma round32_not_NaN [simp]: "round32 x \<noteq> NaN"
  by (simp add: round32_def round_fp_def Let_def)

lemma round32_squeeze:
  assumes "round32 x1 = Finite a" "round32 x2 = Finite b" "x1 \<le> x" "x \<le> x2"
  shows "\<exists>v. round32 x = Finite v \<and> a \<le> v \<and> v \<le> b \<and> is_f32 (Finite v)"
proof -
  let ?R = "round_val 24 (- 126)"
  have a: "a = ?R x1" "\<bar>a\<bar> < 2 ^ 128" and b: "b = ?R x2" "\<bar>b\<bar> < 2 ^ 128"
    using assms(1,2) by (simp_all add: round32_Finite)
  have "?R x1 \<le> ?R x" using assms(3) by (rule round_val_mono) simp
  moreover have "?R x \<le> ?R x2" using assms(4) by (rule round_val_mono) simp
  ultimately have le: "a \<le> ?R x" "?R x \<le> b" using a(1) b(1) by simp_all
  then have "\<bar>?R x\<bar> < 2 ^ 128" using a(2) b(2) by linarith
  then have f: "round32 x = Finite (?R x)" by (simp add: round32_Finite)
  then have "is_f32 (Finite (?R x))" by (rule round32_is_f32)
  then show ?thesis using f le by blast
qed

lemma f32_constants:
  "round32 0 = Finite 0"
  "round32 1 = Finite 1"
  "round32 (2 ^ 31) = Finite (2 ^ 31)"
  "round32 (13176794 / 2 ^ 20) = Finite (13176794 / 2 ^ 20)"
  "round32 (13176793 / 2 ^ 21) = Finite (13176793 / 2 ^ 21)"
  "round32 (- 1) = Finite (- 1)"
  by code_simp+

subsection \<open>Random floats\<close>

lemma rndFloat_in_range:
  assumes f: "is_f32 lower" "is_f32 upper"
    and le: "fp_le lower upper"
    and ends: "fp_le (f32_add lower (f32_sub upper lower)) upper"
    and r: "0 \<le> r" "r \<le> rmax" "0 < rmax" "rmax < 2 ^ 31"
  shows "in_closed lower upper (rndFloat rmax r lower upper)"
proof -
  from f obtain l u where lu: "lower = Finite l" "upper = Finite u"
    using is_f32_cases by blast
  have fl: "round32 l = Finite l" and fu: "round32 u = Finite u"
    using f by (simp_all add: lu)
  have l_le_u: "l \<le> u" using le by (simp add: lu)
  \<comment> \<open>the float \<open>upper - lower\<close>\<close>
  have sub: "f32_sub upper lower = round32 (u - l)"
    by (simp add: lu f32_sub_def fp_minus_def)
  have ends': "fp_le (fp_plus round32 (Finite l) (round32 (u - l))) (Finite u)"
    using ends by (simp add: f32_add_def f32_sub_def fp_minus_def lu)
  obtain D where D: "round32 (u - l) = Finite D" "0 \<le> D"
  proof (cases "round32 (u - l)")
    case (Finite D)
    have "round_val 24 (- 126) 0 \<le> round_val 24 (- 126) (u - l)"
      using l_le_u by (intro round_val_mono) simp_all
    then have "0 \<le> D"
      using Finite f32_constants(1) by (simp add: round32_Finite)
    with Finite that show ?thesis by blast
  next
    case PInf
    then show ?thesis using ends' by simp
  next
    case NInf
    have "round_val 24 (- 126) 0 \<le> round_val 24 (- 126) (u - l)"
      using l_le_u by (intro round_val_mono) simp_all
    then have "0 \<le> round_val 24 (- 126) (u - l)"
      using f32_constants(1) by (simp add: round32_Finite)
    then show ?thesis
      using NInf by (simp add: round32_def round_fp_def Let_def split: if_splits)
  next
    case NaN
    then show ?thesis by simp
  qed
  \<comment> \<open>the float \<open>lower + (upper - lower)\<close>\<close>
  obtain e where e: "round32 (l + D) = Finite e" "e \<le> u"
  proof (cases "round32 (l + D)")
    case (Finite e)
    then show ?thesis using ends' that by (simp add: D)
  next
    case PInf
    then show ?thesis using ends' by (simp add: D)
  next
    case NInf
    have "round_val 24 (- 126) l \<le> round_val 24 (- 126) (l + D)"
      using D(2) by (intro round_val_mono) simp_all
    moreover have "round_val 24 (- 126) l = l" "\<bar>l\<bar> < 2 ^ 128"
      using f(1)[unfolded lu is_f32_Finite] by simp_all
    ultimately show ?thesis
      using NInf by (simp add: round32_def round_fp_def Let_def split: if_splits)
  next
    case NaN
    then show ?thesis by simp
  qed
  \<comment> \<open>\<open>random\<close> lies between 0 and 1\<close>
  have "(0::rat) \<le> of_int r" "(of_int r :: rat) \<le> 2 ^ 31"
    using r by simp_all
  from round32_squeeze[OF f32_constants(1) f32_constants(3) this]
  obtain a where a: "round32 (of_int r) = Finite a" "0 \<le> a" by auto
  have "(1::rat) \<le> of_int rmax" "(of_int rmax :: rat) \<le> 2 ^ 31"
    using r by simp_all
  from round32_squeeze[OF f32_constants(2) f32_constants(3) this]
  obtain b where b: "round32 (of_int rmax) = Finite b" "1 \<le> b" by auto
  have "round_val 24 (- 126) (of_int r) \<le> round_val 24 (- 126) (of_int rmax)"
    using r(2) by (intro round_val_mono) simp_all
  then have ab: "a \<le> b"
    using a(1) b(1) by (simp add: round32_Finite)
  have "0 \<le> a / b" "a / b \<le> 1"
    using a(2) b(2) ab by simp_all
  from round32_squeeze[OF f32_constants(1) f32_constants(2) this]
  obtain t where t: "round32 (a / b) = Finite t" "0 \<le> t" "t \<le> 1" by auto
  have "b \<noteq> 0" using b(2) by simp
  then have random: "f32_div (f32_of_int r) (f32_of_int rmax) = Finite t"
    by (simp add: f32_div_def f32_of_int_def a(1) b(1) t(1))
  \<comment> \<open>the product lies between 0 and \<open>upper - lower\<close>\<close>
  have DD: "round32 D = Finite D"
    using round32_is_f32[OF D(1)] by simp
  have "0 \<le> t * D" "t * D \<le> D"
    using t(2,3) D(2) by (simp_all add: mult_left_le_one_le)
  from round32_squeeze[OF f32_constants(1) DD this]
  obtain y where y: "round32 (t * D) = Finite y" "0 \<le> y" "y \<le> D" by auto
  \<comment> \<open>the sum lies between \<open>lower\<close> and \<open>lower + (upper - lower)\<close>\<close>
  have "l \<le> l + y" "l + y \<le> l + D"
    using y(2,3) by simp_all
  from round32_squeeze[OF fl e(1) this]
  obtain v where v: "round32 (l + y) = Finite v" "l \<le> v" "v \<le> e" by auto
  have "rndFloat rmax r lower upper = Finite v"
    by (simp add: rndFloat_def Let_def random D(1) f32_mul_def f32_add_def f32_sub_def
        fp_minus_def lu y(1) v(1))
  then show ?thesis
    using v(2,3) e(2) by (simp add: in_closed_def lu)
qed

subsection \<open>The rotation angle\<close>

text \<open>The greatest float below \<open>two_pi\<close> is one unit in the last place below it.\<close>

lemma below_two_pi:
  assumes "is_f32 (Finite x)" "x < 13176795 / 2 ^ 21"
  shows "x \<le> 13176794 / 2 ^ 21"
proof -
  have "round_val 24 (- 126) x = x"
    using assms(1) unfolding is_f32_Finite by simp
  then have "is_representable 24 (- 126) x"
    using round_val_representable[of 24 "- 126" x] by simp
  then obtain m k where mk: "x = of_int m * 2 powi k" "\<bar>m\<bar> < 2 ^ 24" "- 149 \<le> k"
    by (auto simp: is_representable_def)
  show ?thesis
  proof (cases "- 21 \<le> k")
    case True
    define n where "n = m * 2 ^ nat (k + 21)"
    have "(2::rat) powi (k + 21) = 2 powi k * 2 ^ 21"
      by (simp add: pow2_add)
    moreover have "(2::rat) powi (k + 21) = of_int (2 ^ nat (k + 21))"
      using True by (intro pow2_nat) simp
    ultimately have "(2::rat) powi k = of_int (2 ^ nat (k + 21)) / 2 ^ 21"
      by (simp add: field_simps)
    then have x: "x = of_int n / 2 ^ 21"
      by (simp add: mk(1) n_def)
    then have "(of_int n :: rat) < of_int 13176795"
      using assms(2) by (simp add: field_simps)
    then have "n < 13176795" by (simp only: of_int_less_iff)
    then have "n \<le> 13176794" by simp
    then have "(of_int n :: rat) \<le> of_int 13176794" by (simp only: of_int_le_iff)
    then show ?thesis by (simp add: x field_simps)
  next
    case False
    then have k: "k \<le> - 22" by simp
    have "x \<le> \<bar>x\<bar>" by simp
    also have "\<dots> = \<bar>of_int m\<bar> * 2 powi k"
      by (simp add: mk(1) abs_mult)
    also have "\<dots> \<le> 2 ^ 24 * 2 powi k"
    proof -
      have "(of_int \<bar>m\<bar> :: rat) \<le> of_int (2 ^ 24)"
        using mk(2) by (simp only: of_int_le_iff)
      then show ?thesis by (simp add: mult_right_mono)
    qed
    also have "\<dots> \<le> 2 ^ 24 * 2 powi (- 22)"
      using k by (intro mult_left_mono pow2_mono) simp_all
    also have "\<dots> \<le> 13176794 / 2 ^ 21"
      by simp
    finally show ?thesis .
  qed
qed

lemma frame_increment_is_f32:
  assumes "angle_in_range (frame_increment previous f)"
  shows "is_f32 (frame_increment previous f)"
proof (cases "f32_of_double (f64_sub (frame_time f) previous)")
  case (Finite x)
  then have i: "frame_increment previous f = round32 (1 * x)"
    by (simp add: frame_increment_def rotationSpeed_value f32_mul_def)
  show ?thesis
  proof (cases "round32 (1 * x)")
    case (Finite d)
    then show ?thesis using round32_is_f32[OF Finite] by (simp add: i)
  qed (use assms in \<open>simp_all add: i angle_in_range_def two_pi_value\<close>)
qed (use assms in \<open>simp_all add: frame_increment_def rotationSpeed_value f32_mul_def
      angle_in_range_def two_pi_value\<close>)

lemma wrap_in_range:
  assumes "is_f32 angle" "angle_in_range angle" "is_f32 inc" "angle_in_range inc"
  shows "is_f32 (let a = f32_add angle inc in if fp_ge a two_pi then f32_sub a two_pi else a)
         \<and> angle_in_range
             (let a = f32_add angle inc in if fp_ge a two_pi then f32_sub a two_pi else a)"
proof -
  from assms(1,3) obtain a d where ad: "angle = Finite a" "inc = Finite d"
    using is_f32_cases by blast
  have fa: "is_f32 (Finite a)" and fd: "is_f32 (Finite d)"
    using assms(1,3) by (simp_all add: ad)
  have a: "0 \<le> a" "a < 13176795 / 2 ^ 21" and d: "0 \<le> d" "d < 13176795 / 2 ^ 21"
    using assms(2,4) by (simp_all add: angle_in_range_def ad two_pi_value)
  have "a \<le> 13176794 / 2 ^ 21" "d \<le> 13176794 / 2 ^ 21"
    using below_two_pi[OF fa a(2)] below_two_pi[OF fd d(2)] by simp_all
  then have "0 \<le> a + d" "a + d \<le> 13176794 / 2 ^ 20"
    using a(1) d(1) by (simp_all add: field_simps)
  from round32_squeeze[OF f32_constants(1) f32_constants(4) this]
  obtain s where s: "round32 (a + d) = Finite s" "0 \<le> s" "s \<le> 13176794 / 2 ^ 20"
      "is_f32 (Finite s)"
    by auto
  have sum: "f32_add angle inc = Finite s"
    by (simp add: ad f32_add_def s(1))
  show ?thesis
  proof (cases "13176795 / 2 ^ 21 \<le> s")
    case True
    have "0 \<le> s - 13176795 / 2 ^ 21" "s - 13176795 / 2 ^ 21 \<le> 13176793 / 2 ^ 21"
      using True s(3) by (simp_all add: field_simps)
    from round32_squeeze[OF f32_constants(1) f32_constants(5) this]
    obtain w where w: "round32 (s - 13176795 / 2 ^ 21) = Finite w" "0 \<le> w"
        "w \<le> 13176793 / 2 ^ 21" "is_f32 (Finite w)"
      by auto
    have "f32_sub (Finite s) two_pi = Finite w"
      using w(1) by (simp add: f32_sub_def fp_minus_def two_pi_value)
    then show ?thesis
      using True w(2,3,4)
      by (simp add: sum Let_def fp_ge_def two_pi_value angle_in_range_def del: is_f32.simps)
  next
    case False
    then show ?thesis
      using s(2,4)
      by (simp add: sum Let_def fp_ge_def two_pi_value angle_in_range_def del: is_f32.simps)
  qed
qed

section \<open>The claims\<close>

subsection \<open>Keyboard toggles\<close>

text \<open>
  Claim C3. A key event with key T and action press swaps the active shader between the
  two compiled programs: if the active shader was the rectangle program it becomes the
  circle program, and otherwise it becomes the rectangle program; the two program
  handles themselves are not changed. Hence, when the active shader is one of the two
  programs, two presses of T restore it.
\<close>

theorem C3_T_press_swaps_active_shader:
  "activeShader (keyCallback GLFW_KEY_T sc GLFW_PRESS m st) =
     (if activeShader st = rectangleShader st then circleShader st else rectangleShader st)
   \<and> circleShader (keyCallback GLFW_KEY_T sc GLFW_PRESS m st) = circleShader st
   \<and> rectangleShader (keyCallback GLFW_KEY_T sc GLFW_PRESS m st) = rectangleShader st
   \<and> (activeShader st = circleShader st \<or> activeShader st = rectangleShader st \<longrightarrow>
        activeShader (keyCallback GLFW_KEY_T sc' GLFW_PRESS m'
                       (keyCallback GLFW_KEY_T sc GLFW_PRESS m st)) = activeShader st)"
  by (auto simp: keyCallback_activeShader)

theorem C3_T_press_swaps_active_shader_witness:
  "(activeShader (main_init example_env) = circleShader (main_init example_env)
    \<or> activeShader (main_init example_env) = rectangleShader (main_init example_env))
   \<and> activeShader (keyCallback GLFW_KEY_T 0 GLFW_PRESS 0 (main_init example_env)) = 3
   \<and> activeShader (keyCallback GLFW_KEY_T 0 GLFW_PRESS 0
                     (keyCallback GLFW_KEY_T 0 GLFW_PRESS 0 (main_init example_env)))
       = activeShader (main_init example_env)"
  using C3_T_press_swaps_active_shader[of 0 0 "main_init example_env" 0 0]
  by (simp add: main_init_globals)

text \<open>
  Claim C4. A key event with key space and action press negates the wireframe flag and
  sets the polygon mode with one call of \<^verbatim>\<open>glPolygonMode\<close>: to \<^verbatim>\<open>GL_LINE\<close> when the
  flag becomes true, to \<^verbatim>\<open>GL_FILL\<close> when it becomes false. A key event with another
  key or another action changes neither the flag nor the polygon mode and makes no
  call. Two presses of space restore the flag.
\<close>

theorem C4_space_press_toggles_wireframe:
  "WIREFRAME_ENABLED (keyCallback key sc action m st) =
     (if key = GLFW_KEY_SPACE \<and> action = GLFW_PRESS then \<not> WIREFRAME_ENABLED st
      else WIREFRAME_ENABLED st)
   \<and> polygon_mode (gl (keyCallback key sc action m st)) =
       (if key = GLFW_KEY_SPACE \<and> action = GLFW_PRESS
        then (if WIREFRAME_ENABLED (keyCallback key sc action m st) then GL_LINE else GL_FILL)
        else polygon_mode (gl st))
   \<and> calls (gl (keyCallback key sc action m st)) =
       calls (gl st) @
         (if key = GLFW_KEY_SPACE \<and> action = GLFW_PRESS
          then [PolygonMode GL_FRONT_AND_BACK
                  (if WIREFRAME_ENABLED (keyCallback key sc action m st)
                   then GL_LINE else GL_FILL)]
          else [])
   \<and> GL_LINE \<noteq> GL_FILL
   \<and> WIREFRAME_ENABLED (keyCallback GLFW_KEY_SPACE sc' GLFW_PRESS m'
                           (keyCallback GLFW_KEY_SPACE sc GLFW_PRESS m st))
       = WIREFRAME_ENABLED st"
  by (simp add: keyCallback_WIREFRAME keyCallback_polygon_mode keyCallback_calls
      GL_LINE_def GL_FILL_def)

text \<open>
  Claim C10. When startup is done the active shader is the rectangle program, which is
  not the circle program, the wireframe flag is false and the polygon mode is
  \<^verbatim>\<open>GL_FILL\<close>. Therefore, in any run, the first press of T (after any number of frames
  and events without one) makes the circle program the active shader, and the first
  press of space sets the wireframe flag and the polygon mode \<^verbatim>\<open>GL_LINE\<close>.
\<close>

theorem C10_state_after_startup:
  "activeShader (main_init e) = rectangleShader (main_init e)
   \<and> circleShader (main_init e) \<noteq> rectangleShader (main_init e)
   \<and> \<not> WIREFRAME_ENABLED (main_init e)
   \<and> polygon_mode (gl (main_init e)) = GL_FILL
   \<and> (no_press_of GLFW_KEY_T frames
        \<and> list_all (\<lambda>ev. \<not> is_press_of GLFW_KEY_T ev) before
        \<and> is_press_of GLFW_KEY_T press \<longrightarrow>
        activeShader (main_loop (main_init e)
                        (frames @ [\<lparr>frame_time = t, frame_events = before @ [press]\<rparr>]))
          = circleShader (main_init e))
   \<and> (no_press_of GLFW_KEY_SPACE frames
        \<and> list_all (\<lambda>ev. \<not> is_press_of GLFW_KEY_SPACE ev) before
        \<and> is_press_of GLFW_KEY_SPACE press \<longrightarrow>
        WIREFRAME_ENABLED (main_loop (main_init e)
                             (frames @ [\<lparr>frame_time = t, frame_events = before @ [press]\<rparr>]))
        \<and> polygon_mode (gl (main_loop (main_init e)
                                (frames @ [\<lparr>frame_time = t, frame_events = before @ [press]\<rparr>])))
            = GL_LINE)"
proof -
  let ?s = "main_loop (main_init e) frames"
  let ?f = "\<lparr>frame_time = t, frame_events = before @ [press]\<rparr>"
  let ?d = "(draw_frame ?s ?f)\<lparr>gl := record_call GlfwPollEvents (gl (draw_frame ?s ?f))\<rparr>"
  have step: "main_loop (main_init e) (frames @ [?f]) = deliver [press] (deliver before ?d)"
    by (simp add: main_loop_snoc render_frame_def glfwPollEvents_def deliver_append)
  have T: "activeShader (main_loop (main_init e) (frames @ [?f])) = circleShader (main_init e)"
    if "no_press_of GLFW_KEY_T frames"
      and "list_all (\<lambda>ev. \<not> is_press_of GLFW_KEY_T ev) before"
      and "is_press_of GLFW_KEY_T press"
  proof -
    have "activeShader (deliver before ?d) = activeShader ?d"
      using that(2) by (rule deliver_activeShader_no_T)
    also have "\<dots> = activeShader (main_init e)"
      using that(1) by (simp add: main_loop_activeShader_no_T)
    finally have "activeShader (deliver before ?d) = rectangleShader (deliver before ?d)"
      by (simp add: main_init_globals)
    then show ?thesis
      using that(3) by (simp add: step keyCallback_activeShader is_press_of_def)
  qed
  have S: "WIREFRAME_ENABLED (main_loop (main_init e) (frames @ [?f]))
           \<and> polygon_mode (gl (main_loop (main_init e) (frames @ [?f]))) = GL_LINE"
    if "no_press_of GLFW_KEY_SPACE frames"
      and "list_all (\<lambda>ev. \<not> is_press_of GLFW_KEY_SPACE ev) before"
      and "is_press_of GLFW_KEY_SPACE press"
  proof -
    have "WIREFRAME_ENABLED (deliver before ?d) = WIREFRAME_ENABLED ?d"
      using deliver_WIREFRAME_no_space[OF that(2)] by simp
    also have "\<dots> = WIREFRAME_ENABLED (main_init e)"
      using main_loop_WIREFRAME_no_space[OF that(1)] by simp
    finally have "\<not> WIREFRAME_ENABLED (deliver before ?d)"
      by (simp add: main_init_globals)
    then show ?thesis
      using that(3)
      by (simp add: step keyCallback_WIREFRAME keyCallback_polygon_mode is_press_of_def)
  qed
  show ?thesis
    using T S
    by (simp add: main_init_globals main_init_context)
qed

theorem C10_state_after_startup_witness:
  "no_press_of GLFW_KEY_T [\<lparr>frame_time = Finite 1, frame_events = []\<rparr>]
   \<and> no_press_of GLFW_KEY_SPACE [\<lparr>frame_time = Finite 1, frame_events = []\<rparr>]
   \<and> is_press_of GLFW_KEY_T \<lparr>ev_key = 84, ev_scancode = 0, ev_action = 1, ev_mods = 0\<rparr>
   \<and> is_press_of GLFW_KEY_SPACE \<lparr>ev_key = 32, ev_scancode = 0, ev_action = 1, ev_mods = 0\<rparr>
   \<and> activeShader
        (main_loop (main_init example_env)
           ([\<lparr>frame_time = Finite 1, frame_events = []\<rparr>] @
            [\<lparr>frame_time = Finite 2,
              frame_events = [] @ [\<lparr>ev_key = 84, ev_scancode = 0, ev_action = 1, ev_mods = 0\<rparr>]\<rparr>]))
       = 3
   \<and> WIREFRAME_ENABLED
        (main_loop (main_init example_env)
           ([\<lparr>frame_time = Finite 1, frame_events = []\<rparr>] @
            [\<lparr>frame_time = Finite 2,
              frame_events = [] @ [\<lparr>ev_key = 32, ev_scancode = 0, ev_action = 1, ev_mods = 0\<rparr>]\<rparr>]))"
  using C10_state_after_startup[of example_env
          "[\<lparr>frame_time = Finite 1, frame_events = []\<rparr>]" "[]"
          "\<lparr>ev_key = 84, ev_scancode = 0, ev_action = 1, ev_mods = 0\<rparr>" "Finite 2"]
        C10_state_after_startup[of example_env
          "[\<lparr>frame_time = Finite 1, frame_events = []\<rparr>]" "[]"
          "\<lparr>ev_key = 32, ev_scancode = 0, ev_action = 1, ev_mods = 0\<rparr>" "Finite 2"]
  by (simp add: no_press_of_def is_press_of_def GLFW_KEY_T_def GLFW_KEY_SPACE_def GLFW_PRESS_def
      main_init_globals)

subsection \<open>The active shader\<close>

lemma keyCallback_live: "programs_live st \<Longrightarrow> programs_live (keyCallback key sc action m st)"
  by (simp add: programs_live_def)

lemma render_frame_live: "programs_live st \<Longrightarrow> programs_live (render_frame st f)"
  by (simp add: programs_live_def)

lemma main_loop_live: "programs_live st \<Longrightarrow> programs_live (main_loop st fs)"
  by (simp add: programs_live_def)

text \<open>
  Claim C5. After startup the active shader is one of the two compiled programs, these
  are two different programs (so exactly one of them is active), and both are program
  objects of the context. Every call of the key callback and every iteration of the
  render loop preserves this, so it holds in every state of every run; the handles
  \<^verbatim>\<open>circleShader\<close> and \<^verbatim>\<open>rectangleShader\<close> keep the values startup gave them.
\<close>

theorem C5_active_shader_is_one_of_two_programs:
  "active_shader_inv (main_init e) \<and> programs_live (main_init e)
   \<and> (active_shader_inv st \<and> programs_live st \<longrightarrow>
        active_shader_inv (keyCallback key sc action m st)
        \<and> programs_live (keyCallback key sc action m st))
   \<and> (active_shader_inv st \<and> programs_live st \<longrightarrow>
        active_shader_inv (render_frame st f) \<and> programs_live (render_frame st f))
   \<and> active_shader_inv (main_loop (main_init e) frames)
   \<and> programs_live (main_loop (main_init e) frames)
   \<and> circleShader (main_loop (main_init e) frames) = circleShader (main_init e)
   \<and> rectangleShader (main_loop (main_init e) frames) = rectangleShader (main_init e)"
  using main_init_inv[of e] main_init_live[of e]
  by (simp add: keyCallback_inv keyCallback_live render_frame_inv render_frame_live
      main_loop_inv main_loop_live)

theorem C5_active_shader_is_one_of_two_programs_witness:
  "active_shader_inv (main_init example_env) \<and> programs_live (main_init example_env)
   \<and> active_shader_inv (keyCallback GLFW_KEY_T 0 GLFW_PRESS 0 (main_init example_env))
   \<and> programs_live (keyCallback GLFW_KEY_T 0 GLFW_PRESS 0 (main_init example_env))
   \<and> active_shader_inv
        (render_frame (main_init example_env) \<lparr>frame_time = Finite 1, frame_events = []\<rparr>)
   \<and> programs_live
        (render_frame (main_init example_env) \<lparr>frame_time = Finite 1, frame_events = []\<rparr>)"
  using C5_active_shader_is_one_of_two_programs[of example_env "main_init example_env"
          GLFW_KEY_T 0 GLFW_PRESS 0 "\<lparr>frame_time = Finite 1, frame_events = []\<rparr>" "[]"]
  by blast

subsection \<open>The instance arrays\<close>

lemma reachable_scales:
  "map vec_x (instance_models (main_loop (main_init e) fs))
     = replicate instances_index (f32_literal (5 / 100))"
  "map vec_y (instance_models (main_loop (main_init e) fs))
     = replicate instances_index (f32_literal (5 / 100))"
  using main_loop_scales[of "main_init e" fs]
  by (simp_all add: main_init_arrays)

text \<open>
  Iteration 1 of the startup loop in the example environment, where the arguments are
  evaluated from the last to the first: the first value of \<^verbatim>\<open>rand()\<close> in the
  iteration goes to the \<^verbatim>\<open>y\<close> of the position and the last one to the first
  component of the colour. Evaluated from the first to the last, the same values of
  \<^verbatim>\<open>rand()\<close> give another position.
\<close>

lemma rndPos_example:
  "rndPos example_env 1 =
     \<lparr>vec_x = Finite (- 3726905 / 2 ^ 21), vec_y = Finite (- 16379 / 2 ^ 14)\<rparr>"
  "rndPos (example_env\<lparr>pos_order := \<lambda>i. Order_01\<rparr>) 1 =
     \<lparr>vec_x = Finite (- 7454265 / 2 ^ 22), vec_y = Finite (- 8189 / 2 ^ 13)\<rparr>"
  by code_simp+

lemma rndCol_example:
  "rndCol example_env 1 =
     \<lparr>vec_x = Finite (294921 / 2 ^ 30), vec_y = Finite (32769 / 2 ^ 27),
      vec_z = Finite (229383 / 2 ^ 30)\<rparr>"
  by code_simp

text \<open>
  Claim C2. The positions \<^verbatim>\<open>instances\<close> and the colours \<^verbatim>\<open>instance_colors\<close> have,
  at the end of any run, the values startup gave them: element \<open>i\<close> is what iteration
  \<open>i\<close> of the startup loop computed from its five values of \<^verbatim>\<open>rand()\<close>, in
  whatever order the arguments of the two constructor calls are evaluated. Neither an
  iteration of the render loop nor a call of the key callback changes them. An
  iteration of the render loop changes of \<^verbatim>\<open>instance_models\<close> only the \<^verbatim>\<open>z\<close>
  components; the \<^verbatim>\<open>x\<close> and \<^verbatim>\<open>y\<close> components of all 1000 elements are the
  \<^verbatim>\<open>0.05f\<close> of startup in every state of a run.
\<close>

theorem C2_positions_and_colors_are_fixed:
  "instances (main e frames) = instances (main_init e)
   \<and> instance_colors (main e frames) = instance_colors (main_init e)
   \<and> instances (main_init e) = map (rndPos e) [0..<1000]
   \<and> instance_colors (main_init e) = map (rndCol e) [0..<1000]
   \<and> instances (keyCallback key sc action m st) = instances st
   \<and> instance_colors (keyCallback key sc action m st) = instance_colors st
   \<and> instance_models (keyCallback key sc action m st) = instance_models st
   \<and> instances (render_frame st f) = instances st
   \<and> instance_colors (render_frame st f) = instance_colors st
   \<and> (let s = main_loop (main_init e) frames
       in instance_models (render_frame s f)
            = map (\<lambda>v. v\<lparr>vec_z := rotationAngle (render_frame s f)\<rparr>) (instance_models s)
          \<and> map vec_x (instance_models s) = replicate 1000 (f32_literal (5 / 100))
          \<and> map vec_y (instance_models s) = replicate 1000 (f32_literal (5 / 100))
          \<and> map vec_x (instance_models (render_frame s f))
              = replicate 1000 (f32_literal (5 / 100))
          \<and> map vec_y (instance_models (render_frame s f))
              = replicate 1000 (f32_literal (5 / 100)))"
proof -
  let ?s = "main_loop (main_init e) frames"
  have a: "instances (main e frames) = instances (main_init e)"
      "instance_colors (main e frames) = instance_colors (main_init e)"
    by (simp_all add: main_def Let_def)
  have b: "instances (main_init e) = map (rndPos e) [0..<1000]"
      "instance_colors (main_init e) = map (rndCol e) [0..<1000]"
    by (simp_all add: main_init_arrays instances_index_def)
  have c: "instance_models (render_frame ?s f)
             = map (\<lambda>v. v\<lparr>vec_z := rotationAngle (render_frame ?s f)\<rparr>) (instance_models ?s)"
    by (simp add: set_rotation_map main_init_arrays)
  have d: "map vec_x (instance_models ?s) = replicate 1000 (f32_literal (5 / 100))"
      "map vec_y (instance_models ?s) = replicate 1000 (f32_literal (5 / 100))"
    using reachable_scales[of e frames] by (simp_all add: instances_index_def)
  have e: "map vec_x (instance_models (render_frame ?s f))
             = replicate 1000 (f32_literal (5 / 100))"
      "map vec_y (instance_models (render_frame ?s f))
             = replicate 1000 (f32_literal (5 / 100))"
    using reachable_scales[of e "frames @ [f]"]
    by (simp_all add: main_loop_snoc instances_index_def)
  show ?thesis
    unfolding Let_def using a b c d e by simp
qed

subsection \<open>One iteration of the render loop\<close>


subsection \<open>Shader compilation and the lifetime of the objects\<close>

text \<open>
  Claim C6. For every pair of shader sources and every context, \<^verbatim>\<open>compileShader\<close>
  writes to standard output exactly when the driver reports status 0 for the
  compilation of the vertex shader, for the compilation of the fragment shader, or for
  the linking: one message for each failed stage, in this order, with the stage's info
  log cut to 511 characters. Whatever the three statuses are, it compiles each shader
  once and links once, and it returns the handle of the program it created.
\<close>

theorem C6_compileShader_reports_failure_and_continues:
  "(case compileShader vs fs g of
      (prog, g', out) \<Rightarrow>
        (out \<noteq> []) =
          (compile_status (driver g) GL_VERTEX_SHADER vs = 0
           \<or> compile_status (driver g) GL_FRAGMENT_SHADER fs = 0
           \<or> link_status (driver g) [(GL_VERTEX_SHADER, vs), (GL_FRAGMENT_SHADER, fs)] = 0)
        \<and> out =
            (if compile_status (driver g) GL_VERTEX_SHADER vs = 0
             then ''Error, vertex shader failed to compile:'' @ endl
                  @ take 511 (compile_log (driver g) GL_VERTEX_SHADER vs) @ endl
             else [])
            @ (if compile_status (driver g) GL_FRAGMENT_SHADER fs = 0
               then ''Error, fragment shader failed to compile:'' @ endl
                    @ take 511 (compile_log (driver g) GL_FRAGMENT_SHADER fs) @ endl
               else [])
            @ (if link_status (driver g) [(GL_VERTEX_SHADER, vs), (GL_FRAGMENT_SHADER, fs)] = 0
               then ''Error, shaders failed to link:'' @ endl
                    @ take 511 (link_log (driver g)
                                  [(GL_VERTEX_SHADER, vs), (GL_FRAGMENT_SHADER, fs)])
                    @ endl
               else [])
        \<and> prog = next_object g + 2
        \<and> program_objects g' prog =
            Some \<lparr>attached = [next_object g, next_object g + 1],
                  link_result = link_status (driver g)
                     [(GL_VERTEX_SHADER, vs), (GL_FRAGMENT_SHADER, fs)]\<rparr>
        \<and> filter is_create (drop (length (calls g)) (calls g')) =
            [CreateShader GL_VERTEX_SHADER (next_object g),
             CreateShader GL_FRAGMENT_SHADER (next_object g + 1),
             CreateProgram (next_object g + 2)]
        \<and> filter is_compile_or_link (drop (length (calls g)) (calls g')) =
            [CompileShader (next_object g), CompileShader (next_object g + 1),
             LinkProgram (next_object g + 2)])"
proof -
  obtain prog g' out where r: "compileShader vs fs g = (prog, g', out)"
    by (cases "compileShader vs fs g") auto
  have p: "prog = next_object g + 2"
    using compileShader_handle[of vs fs g] by (simp add: r)
  have c: "calls g' = calls g @ compile_calls (driver g) (next_object g) vs fs"
    using compileShader_calls[of vs fs g] by (simp add: r)
  have o: "out =
            (if compile_status (driver g) GL_VERTEX_SHADER vs = 0
             then ''Error, vertex shader failed to compile:'' @ endl
                  @ take 511 (compile_log (driver g) GL_VERTEX_SHADER vs) @ endl
             else [])
            @ (if compile_status (driver g) GL_FRAGMENT_SHADER fs = 0
               then ''Error, fragment shader failed to compile:'' @ endl
                    @ take 511 (compile_log (driver g) GL_FRAGMENT_SHADER fs) @ endl
               else [])
            @ (if link_status (driver g) [(GL_VERTEX_SHADER, vs), (GL_FRAGMENT_SHADER, fs)] = 0
               then ''Error, shaders failed to link:'' @ endl
                    @ take 511 (link_log (driver g)
                                  [(GL_VERTEX_SHADER, vs), (GL_FRAGMENT_SHADER, fs)])
                    @ endl
               else [])"
    using compileShader_cout[of vs fs g] by (simp add: r)
  have q: "program_objects g' prog =
            Some \<lparr>attached = [next_object g, next_object g + 1],
                  link_result = link_status (driver g)
                     [(GL_VERTEX_SHADER, vs), (GL_FRAGMENT_SHADER, fs)]\<rparr>"
    using compileShader_program_objects[of vs fs g] by (simp add: r p)
  have e: "(out \<noteq> []) =
          (compile_status (driver g) GL_VERTEX_SHADER vs = 0
           \<or> compile_status (driver g) GL_FRAGMENT_SHADER fs = 0
           \<or> link_status (driver g) [(GL_VERTEX_SHADER, vs), (GL_FRAGMENT_SHADER, fs)] = 0)"
    unfolding o by simp
  show ?thesis
    unfolding r using e o p q by (simp add: c compile_calls_filters)
qed

lemma main_loop_calls_extend:
  "\<exists>cs. calls (gl (main_loop st fs)) = calls (gl st) @ cs"
proof (induction fs arbitrary: st)
  case Nil
  then show ?case by simp
next
  case (Cons f fs)
  from Cons[of "render_frame st f"] show ?case
    by (auto simp: render_frame_calls)
qed

lemma main_calls:
  "calls (gl (main e frames)) = calls (gl (main_loop (main_init e) frames)) @ [GlfwTerminate]"
  by (simp add: main_def Let_def)

text \<open>
  Claim C7, as the program has it. In every run the calls that create an object are the
  twelve of startup, each returning a fresh name of its kind: one vertex array, five
  buffers, and for each of the two programs a vertex shader, a fragment shader and the
  program.
  The calls of startup come first in the run, so none of them is made once the render
  loop has started. No call deletes a buffer, a vertex array or a program. The calls
  that delete are the four \<^verbatim>\<open>glDeleteShader\<close> calls of the two runs of
  \<^verbatim>\<open>compileShader\<close>, one for each shader object, made after the program is linked
  (and before the next program's shaders are compiled).
\<close>

theorem C7_objects_created_at_startup_only_shaders_deleted:
  "filter is_create (calls (gl (main e frames))) =
     [GenVertexArrays 1, GenBuffers 1, GenBuffers 2, GenBuffers 3, GenBuffers 4, GenBuffers 5,
      CreateShader GL_VERTEX_SHADER 1, CreateShader GL_FRAGMENT_SHADER 2, CreateProgram 3,
      CreateShader GL_VERTEX_SHADER 4, CreateShader GL_FRAGMENT_SHADER 5, CreateProgram 6]
   \<and> filter is_create (calls (gl (main_init e))) = filter is_create (calls (gl (main e frames)))
   \<and> take (length (calls (gl (main_init e)))) (calls (gl (main e frames)))
       = calls (gl (main_init e))
   \<and> filter is_delete (calls (gl (main e frames))) =
       [DeleteShader 1, DeleteShader 2, DeleteShader 4, DeleteShader 5]
   \<and> filter is_delete (calls (gl (main_init e))) = filter is_delete (calls (gl (main e frames)))
   \<and> filter (\<lambda>c. is_compile_or_link c \<or> is_delete c) (calls (gl (main_init e))) =
       [CompileShader 1, CompileShader 2, LinkProgram 3, DeleteShader 1, DeleteShader 2,
        CompileShader 4, CompileShader 5, LinkProgram 6, DeleteShader 4, DeleteShader 5]
   \<and> programs_live (main e frames)"
proof -
  have pre: "take (length (calls (gl (main_init e)))) (calls (gl (main e frames)))
               = calls (gl (main_init e))"
    using main_loop_calls_extend[of "main_init e" frames]
    by (auto simp: main_calls)
  have live: "programs_live (main e frames)"
    using main_loop_live[OF main_init_live, of e frames]
    by (simp add: programs_live_def main_def Let_def)
  show ?thesis
    using pre live
    by (simp add: main_calls main_loop_calls_filters main_init_calls_created
        main_init_calls_deleted main_init_calls_linked_deleted)
qed

text \<open>
  The claim as the specification states it fails: it says that no shader object is
  ever deleted, and the run of the example environment that leaves the loop at once
  has calls that delete.
\<close>

theorem C7_shader_objects_are_deleted:
  "filter is_delete (calls (gl (main example_env []))) \<noteq> []"
  by (simp add: main_calls main_init_calls_deleted)

subsection \<open>Ranges of the floating-point values\<close>

lemma bounds_of_main:
  "is_f32 (fp_uminus ASPECT_RATIO)" "is_f32 ASPECT_RATIO"
  "fp_le (fp_uminus ASPECT_RATIO) ASPECT_RATIO"
  "fp_le (f32_add (fp_uminus ASPECT_RATIO) (f32_sub ASPECT_RATIO (fp_uminus ASPECT_RATIO)))
     ASPECT_RATIO"
  "is_f32 (f32_literal (- 1))" "is_f32 (f32_literal 1)"
  "fp_le (f32_literal (- 1)) (f32_literal 1)"
  "fp_le (f32_add (f32_literal (- 1)) (f32_sub (f32_literal 1) (f32_literal (- 1))))
     (f32_literal 1)"
  "is_f32 (f32_literal 0)"
  "fp_le (f32_literal 0) (f32_literal 1)"
  "fp_le (f32_add (f32_literal 0) (f32_sub (f32_literal 1) (f32_literal 0))) (f32_literal 1)"
  unfolding ASPECT_RATIO_value f32_literal_values
  by code_simp+

lemma rndPos_in_range:
  assumes "\<forall>k. 0 \<le> rand_values e k \<and> rand_values e k \<le> rand_max e"
    "0 < rand_max e" "rand_max e < 2 ^ 31"
  shows "position_in_range (rndPos e i)"
  using assms
  by (cases "pos_order e i")
    (simp_all add: position_in_range_def rndPos_def rndFloat_in_range bounds_of_main
      del: is_f32.simps)

lemma rndCol_in_range:
  assumes "\<forall>k. 0 \<le> rand_values e k \<and> rand_values e k \<le> rand_max e"
    "0 < rand_max e" "rand_max e < 2 ^ 31"
  shows "color_in_range (rndCol e i)"
  using assms
  by (cases "col_order e i")
    (simp_all add: color_in_range_def rndCol_def rndFloat_in_range bounds_of_main
      del: is_f32.simps)

text \<open>
  Claim C9, as the program has it. Let \<^verbatim>\<open>lower\<close> and \<^verbatim>\<open>upper\<close> be finite floats with
  \<^verbatim>\<open>lower <= upper\<close> for which the float expression \<^verbatim>\<open>lower + (upper - lower)\<close> does
  not exceed \<^verbatim>\<open>upper\<close>, and let \<^verbatim>\<open>rand()\<close> return a value between 0 and
  \<^verbatim>\<open>RAND_MAX\<close>, where \<^verbatim>\<open>RAND_MAX\<close> is a positive \<^verbatim>\<open>int\<close>. Then
  \<^verbatim>\<open>rndFloat(lower, upper)\<close> returns a float in the closed interval from \<^verbatim>\<open>lower\<close> to
  \<^verbatim>\<open>upper\<close>. The three pairs of bounds \<^verbatim>\<open>main\<close> uses are such pairs; consequently, in
  every run, each of the 1000 instance positions lies in
  \<open>[-ASPECT_RATIO, ASPECT_RATIO] \<times> [-1, 1]\<close> and each component of the 1000 instance
  colours in \<open>[0, 1]\<close>.
\<close>

theorem C9_rndFloat_within_bounds:
  "(is_f32 lower \<and> is_f32 upper \<and> fp_le lower upper
    \<and> fp_le (f32_add lower (f32_sub upper lower)) upper
    \<and> 0 \<le> r \<and> r \<le> rmax \<and> 0 < rmax \<and> rmax < 2 ^ 31
    \<longrightarrow> in_closed lower upper (rndFloat rmax r lower upper))
   \<and> ((\<forall>k. 0 \<le> rand_values e k \<and> rand_values e k \<le> rand_max e)
       \<and> 0 < rand_max e \<and> rand_max e < 2 ^ 31
    \<longrightarrow> list_all position_in_range (instances (main e frames))
        \<and> list_all color_in_range (instance_colors (main e frames))
        \<and> length (instances (main e frames)) = 1000
        \<and> length (instance_colors (main e frames)) = 1000)"
proof -
  have arrays: "instances (main e frames) = map (rndPos e) [0..<1000]"
      "instance_colors (main e frames) = map (rndCol e) [0..<1000]"
    by (simp_all add: main_def Let_def main_init_arrays instances_index_def)
  show ?thesis
    unfolding arrays
    by (auto simp: rndFloat_in_range list_all_iff rndPos_in_range rndCol_in_range
        simp del: is_f32.simps)
qed

theorem C9_rndFloat_within_bounds_witness:
  "is_f32 (Finite 0) \<and> is_f32 (Finite 1) \<and> fp_le (Finite 0) (Finite 1)
   \<and> fp_le (f32_add (Finite 0) (f32_sub (Finite 1) (Finite 0))) (Finite 1)
   \<and> in_closed (Finite 0) (Finite 1) (rndFloat 32767 5 (Finite 0) (Finite 1))
   \<and> (\<forall>k. 0 \<le> rand_values example_env k \<and> rand_values example_env k \<le> rand_max example_env)
   \<and> 0 < rand_max example_env \<and> rand_max example_env < 2 ^ 31
   \<and> list_all position_in_range (instances (main example_env []))
   \<and> list_all color_in_range (instance_colors (main example_env []))"
proof -
  have h1: "is_f32 (Finite 0) \<and> is_f32 (Finite 1) \<and> fp_le (Finite 0) (Finite 1)
            \<and> fp_le (f32_add (Finite 0) (f32_sub (Finite 1) (Finite 0))) (Finite 1)"
    by code_simp
  have h2: "(\<forall>k. 0 \<le> rand_values example_env k
                 \<and> rand_values example_env k \<le> rand_max example_env)
            \<and> 0 < rand_max example_env \<and> rand_max example_env < 2 ^ 31"
  proof -
    have "int k mod 32768 \<le> 32767" for k
      using pos_mod_bound[of 32768 "int k"] by linarith
    then show ?thesis by (simp add: example_env_def)
  qed
  show ?thesis
    using h1 h2
      C9_rndFloat_within_bounds[of "Finite 0" "Finite 1" 5 32767 example_env "[]"]
    by (simp del: is_f32.simps)
qed

text \<open>
  The claim as stated, for every pair of floats \<^verbatim>\<open>lower <= upper\<close>, fails. With
  \<^verbatim>\<open>lower\<close> \<open>= -2\<^sup>-\<^sup>2\<^sup>4\<close>, \<^verbatim>\<open>upper\<close> \<open>= 1 + 2\<^sup>-\<^sup>2\<^sup>3\<close> and \<^verbatim>\<open>rand()\<close> returning
  \<^verbatim>\<open>RAND_MAX\<close>, both the difference and the final sum are ties that round to the even
  neighbour, and the result \<open>1 + 2\<^sup>-\<^sup>2\<^sup>2\<close> is above \<^verbatim>\<open>upper\<close>. With the least and the
  greatest finite float as bounds the difference overflows and the result is infinite.
\<close>

theorem C9_rndFloat_can_exceed_upper:
  "is_f32 (Finite (- (1 / 2 ^ 24))) \<and> is_f32 (Finite (1 + 1 / 2 ^ 23))
   \<and> fp_le (Finite (- (1 / 2 ^ 24))) (Finite (1 + 1 / 2 ^ 23))
   \<and> rndFloat 32767 32767 (Finite (- (1 / 2 ^ 24))) (Finite (1 + 1 / 2 ^ 23))
       = Finite (1 + 1 / 2 ^ 22)
   \<and> \<not> in_closed (Finite (- (1 / 2 ^ 24))) (Finite (1 + 1 / 2 ^ 23))
         (rndFloat 32767 32767 (Finite (- (1 / 2 ^ 24))) (Finite (1 + 1 / 2 ^ 23)))
   \<and> is_f32 (Finite (2 ^ 128 - 2 ^ 104))
   \<and> rndFloat 32767 32767 (Finite (- (2 ^ 128 - 2 ^ 104))) (Finite (2 ^ 128 - 2 ^ 104)) = PInf"
  by code_simp

lemma render_frame_angle:
  "rotationAngle (render_frame st f) =
     (let a = f32_add (rotationAngle st) (frame_increment (lastFrameTime st) f)
      in if fp_ge a two_pi then f32_sub a two_pi else a)"
  by (simp add: advance_rotation_def frame_increment_def)

lemma round_fp_nonneg:
  assumes "0 \<le> x" "1 \<le> p"
  shows "round_fp p emax x = PInf \<or> (\<exists>v. round_fp p emax x = Finite v \<and> 0 \<le> v)"
proof -
  have "round_val p (1 - emax) 0 \<le> round_val p (1 - emax) x"
    using assms by (intro round_val_mono) simp_all
  then have v: "0 \<le> round_val p (1 - emax) x"
    by (simp add: round_val_def)
  have "(0::rat) < 2 powi (emax + 1)"
    by simp
  with v have "\<not> round_val p (1 - emax) x \<le> - (2 powi (emax + 1))"
    by linarith
  with v show ?thesis
    by (simp add: round_fp_def Let_def)
qed

lemma f64_sub_nonneg:
  assumes "a \<le> b"
  shows "f64_sub (Finite b) (Finite a) = PInf
         \<or> (\<exists>v. f64_sub (Finite b) (Finite a) = Finite v \<and> 0 \<le> v)"
  using assms round_fp_nonneg[of "b + - a" 53 1023]
  by (simp add: f64_sub_def fp_minus_def round64_def)

lemma f32_of_double_nonneg:
  assumes "d = PInf \<or> (\<exists>v. d = Finite v \<and> 0 \<le> v)"
  shows "f32_of_double d = PInf \<or> (\<exists>w. f32_of_double d = Finite w \<and> 0 \<le> w)"
proof -
  from assms consider "d = PInf" | v where "d = Finite v" "0 \<le> v"
    by blast
  then show ?thesis
  proof cases
    case 1
    then show ?thesis
      by simp
  next
    case 2
    with round_fp_nonneg[of v 24 127] show ?thesis
      by (auto simp: round32_def)
  qed
qed

lemma speed_times_nonneg:
  assumes "d = PInf \<or> (\<exists>v. d = Finite v \<and> 0 \<le> v)"
  shows "fp_le (Finite 0) (f32_mul rotationSpeed d)"
proof -
  from assms consider "d = PInf" | v where "d = Finite v" "0 \<le> v"
    by blast
  then show ?thesis
  proof cases
    case 1
    then show ?thesis
      by (simp add: f32_mul_def rotationSpeed_value)
  next
    case 2
    with round_fp_nonneg[of v 24 127] show ?thesis
      by (auto simp: f32_mul_def rotationSpeed_value round32_def)
  qed
qed

text \<open>
  When the clock has not run backwards, the increment of a frame is not negative; an
  increment that is no number is not below \<open>two_pi\<close>.
\<close>

lemma frame_increment_nonneg:
  assumes "fp_le previous (frame_time f)" "fp_lt (frame_increment previous f) two_pi"
  shows "angle_in_range (frame_increment previous f)"
proof -
  have "fp_le (Finite 0) (frame_increment previous f)"
  proof (cases previous)
    case p: (Finite a)
    show ?thesis
    proof (cases "frame_time f")
      case (Finite b)
      with p assms(1) have "a \<le> b"
        by simp
      from speed_times_nonneg[OF f32_of_double_nonneg[OF f64_sub_nonneg[OF this]]]
      show ?thesis
        by (simp add: frame_increment_def p Finite)
    next
      case PInf
      then show ?thesis
        by (simp add: frame_increment_def p f64_sub_def fp_minus_def f32_mul_def
            rotationSpeed_value)
    next
      case NInf
      with p assms(1) show ?thesis
        by simp
    next
      case NaN
      with p assms(1) show ?thesis
        by simp
    qed
  next
    case p: PInf
    show ?thesis
    proof (cases "frame_time f")
      case PInf
      with p assms(2) show ?thesis
        by (simp add: frame_increment_def f64_sub_def fp_minus_def f32_mul_def
            rotationSpeed_value)
    qed (use p assms(1) in simp_all)
  next
    case p: NInf
    show ?thesis
    proof (cases "frame_time f")
      case (Finite b)
      then show ?thesis
        by (simp add: frame_increment_def p f64_sub_def fp_minus_def f32_mul_def
            rotationSpeed_value)
    next
      case PInf
      then show ?thesis
        by (simp add: frame_increment_def p f64_sub_def fp_minus_def f32_mul_def
            rotationSpeed_value)
    next
      case NInf
      with p assms(2) show ?thesis
        by (simp add: frame_increment_def f64_sub_def fp_minus_def f32_mul_def
            rotationSpeed_value)
    next
      case NaN
      with p assms(1) show ?thesis
        by simp
    qed
  next
    case NaN
    with assms(1) show ?thesis
      by simp
  qed
  with assms(2) show ?thesis
    by (simp add: angle_in_range_def)
qed

lemma render_frame_angle_in_range:
  assumes "is_f32 (rotationAngle st)" "angle_in_range (rotationAngle st)"
    "fp_le (lastFrameTime st) (frame_time f)"
    "fp_lt (frame_increment (lastFrameTime st) f) two_pi"
  shows "is_f32 (rotationAngle (render_frame st f))
         \<and> angle_in_range (rotationAngle (render_frame st f))"
proof -
  have inc: "angle_in_range (frame_increment (lastFrameTime st) f)"
    using assms(3,4) by (rule frame_increment_nonneg)
  show ?thesis
    unfolding render_frame_angle
    using assms(1,2) frame_increment_is_f32[OF inc] inc
    by (rule wrap_in_range)
qed

lemma main_loop_angle_in_range:
  "is_f32 (rotationAngle st) \<Longrightarrow> angle_in_range (rotationAngle st) \<Longrightarrow>
   clock_monotonic (lastFrameTime st) fs \<Longrightarrow>
   increments_below_two_pi (lastFrameTime st) fs \<Longrightarrow>
   is_f32 (rotationAngle (main_loop st fs))
   \<and> angle_in_range (rotationAngle (main_loop st fs))"
proof (induction fs arbitrary: st)
  case Nil
  then show ?case by simp
next
  case (Cons f fs)
  from Cons.prems have now: "fp_le (lastFrameTime st) (frame_time f)"
      "fp_lt (frame_increment (lastFrameTime st) f) two_pi"
      and rest: "clock_monotonic (frame_time f) fs" "increments_below_two_pi (frame_time f) fs"
    by simp_all
  from render_frame_angle_in_range[OF Cons.prems(1,2) now]
  have "is_f32 (rotationAngle (render_frame st f))"
      "angle_in_range (rotationAngle (render_frame st f))"
    by simp_all
  moreover have "clock_monotonic (lastFrameTime (render_frame st f)) fs"
      "increments_below_two_pi (lastFrameTime (render_frame st f)) fs"
    using rest by simp_all
  ultimately show ?case
    using Cons.IH[of "render_frame st f"] by simp
qed

lemma angle_zero: "is_f32 (f32_literal 0)" "angle_in_range (f32_literal 0)"
  by (simp_all add: f32_literal_values f32_constants angle_in_range_def two_pi_value)

text \<open>
  Claim C8. The clock is the monotonic timer of the window library, so the reading of
  a frame is not below the previous reading. If the rotation angle is in
  \<open>[0, two_pi)\<close> and the increment of a frame (\<^verbatim>\<open>rotationSpeed\<close> times the frame's
  delta time) is less than \<open>two_pi\<close>, the angle after the frame is in
  \<open>[0, two_pi)\<close> again. So the angle stays in this interval in every run all of
  whose increments are less than \<open>two_pi\<close>, from any state in which it is in the
  interval, and in particular from the state after startup. Here \<open>two_pi\<close> is the
  program's float \<^verbatim>\<open>2.0f * glm::pi<float>()\<close>. The angle after a frame is the float
  sum of angle and increment, or that sum with \<open>two_pi\<close> subtracted once.
\<close>

theorem C8_rotation_angle_stays_in_range:
  "(is_f32 (rotationAngle st) \<and> angle_in_range (rotationAngle st)
    \<and> fp_le (lastFrameTime st) (frame_time f)
    \<and> fp_lt (frame_increment (lastFrameTime st) f) two_pi
    \<longrightarrow> is_f32 (rotationAngle (render_frame st f))
        \<and> angle_in_range (rotationAngle (render_frame st f)))
   \<and> (is_f32 (rotationAngle st) \<and> angle_in_range (rotationAngle st)
       \<and> clock_monotonic (lastFrameTime st) frames
       \<and> increments_below_two_pi (lastFrameTime st) frames
       \<longrightarrow> is_f32 (rotationAngle (main_loop st frames))
           \<and> angle_in_range (rotationAngle (main_loop st frames)))
   \<and> (clock_monotonic (start_time e) frames
       \<and> increments_below_two_pi (start_time e) frames
       \<longrightarrow> angle_in_range (rotationAngle (main_loop (main_init e) frames)))
   \<and> (rotationAngle (render_frame st f)
         = f32_add (rotationAngle st) (frame_increment (lastFrameTime st) f)
       \<or> rotationAngle (render_frame st f)
         = f32_sub (f32_add (rotationAngle st) (frame_increment (lastFrameTime st) f)) two_pi)"
proof -
  have step: "is_f32 (rotationAngle (render_frame st f))
              \<and> angle_in_range (rotationAngle (render_frame st f))"
    if "is_f32 (rotationAngle st)" "angle_in_range (rotationAngle st)"
      "fp_le (lastFrameTime st) (frame_time f)"
      "fp_lt (frame_increment (lastFrameTime st) f) two_pi"
    using that by (rule render_frame_angle_in_range)
  have run: "is_f32 (rotationAngle (main_loop st frames))
             \<and> angle_in_range (rotationAngle (main_loop st frames))"
    if "is_f32 (rotationAngle st)" "angle_in_range (rotationAngle st)"
      "clock_monotonic (lastFrameTime st) frames"
      "increments_below_two_pi (lastFrameTime st) frames"
    using that by (rule main_loop_angle_in_range)
  have start: "angle_in_range (rotationAngle (main_loop (main_init e) frames))"
    if "clock_monotonic (start_time e) frames"
      "increments_below_two_pi (start_time e) frames"
    using main_loop_angle_in_range[of "main_init e" frames] that angle_zero
    by (simp add: main_init_locals del: is_f32.simps)
  have once: "rotationAngle (render_frame st f)
         = f32_add (rotationAngle st) (frame_increment (lastFrameTime st) f)
       \<or> rotationAngle (render_frame st f)
         = f32_sub (f32_add (rotationAngle st) (frame_increment (lastFrameTime st) f)) two_pi"
    unfolding render_frame_angle Let_def by simp
  show ?thesis
    using step run start once by blast
qed

theorem C8_rotation_angle_stays_in_range_witness:
  "is_f32 (rotationAngle (main_init example_env))
   \<and> angle_in_range (rotationAngle (main_init example_env))
   \<and> fp_le (lastFrameTime (main_init example_env)) (Finite 1)
   \<and> fp_lt (frame_increment (lastFrameTime (main_init example_env))
               \<lparr>frame_time = Finite 1, frame_events = []\<rparr>) two_pi
   \<and> clock_monotonic (start_time example_env)
        [\<lparr>frame_time = Finite 1, frame_events = []\<rparr>]
   \<and> increments_below_two_pi (start_time example_env)
        [\<lparr>frame_time = Finite 1, frame_events = []\<rparr>]
   \<and> angle_in_range
        (rotationAngle
           (render_frame (main_init example_env)
              \<lparr>frame_time = Finite 1, frame_events = []\<rparr>))
   \<and> angle_in_range
        (rotationAngle
           (main_loop (main_init example_env)
              [\<lparr>frame_time = Finite 1, frame_events = []\<rparr>]))"
proof -
  have t: "start_time example_env = Finite 0"
    by (simp add: example_env_def)
  have i: "fp_lt (frame_increment (Finite 0) \<lparr>frame_time = Finite 1, frame_events = []\<rparr>)
             two_pi"
    by (simp add: frame_increment_def rotationSpeed_value f64_sub_def fp_minus_def
        round64_small_integers f32_mul_def f32_constants two_pi_value)
  have h: "is_f32 (rotationAngle (main_init example_env))
           \<and> angle_in_range (rotationAngle (main_init example_env))
           \<and> fp_le (lastFrameTime (main_init example_env)) (Finite 1)
           \<and> fp_lt (frame_increment (lastFrameTime (main_init example_env))
                       \<lparr>frame_time = Finite 1, frame_events = []\<rparr>) two_pi
           \<and> clock_monotonic (start_time example_env)
                [\<lparr>frame_time = Finite 1, frame_events = []\<rparr>]
           \<and> increments_below_two_pi (start_time example_env)
                [\<lparr>frame_time = Finite 1, frame_events = []\<rparr>]"
    using angle_zero i by (simp add: main_init_locals t del: is_f32.simps)
  show ?thesis
    using h
      C8_rotation_angle_stays_in_range[of "main_init example_env"
        "\<lparr>frame_time = Finite 1, frame_events = []\<rparr>"
        "[\<lparr>frame_time = Finite 1, frame_events = []\<rparr>]" example_env]
    by (simp del: is_f32.simps)
qed

end
